theory Spec2Isabelle
  imports Main "HOL-Library.Word"
begin

unbundle bit_operations_syntax

section \<open>Conventions\<close>

text \<open>
  The development embeds the module \<^verbatim>\<open>totp\<close> of the 2FA command line tool: the base32
  decoder, the TOTP generator with its countdown, and the parser of \<^verbatim>\<open>otpauth://\<close>
  addresses. Line numbers are those of the module.

  \<^item> A JavaScript string is a \<^typ>\<open>string\<close>. The model is exact on ASCII text; a character
    outside ASCII is carried as its UTF-8 bytes, which the modelled operations pass on
    unchanged (Unicode case mapping and Unicode white space are not modelled).
  \<^item> A \<^verbatim>\<open>Uint8Array\<close> is a list of bytes.
  \<^item> The operands of JavaScript's bitwise operators are 32-bit two's complement integers:
    \<^typ>\<open>32 word\<close>, read back as a number with \<^const>\<open>sint\<close>.
  \<^item> Other numbers are integers, computed exactly; \<^verbatim>\<open>NaN\<close> and the infinities are
    constructors of their own. The rounding of doubles is not modelled.
  \<^item> A thrown exception (a rejected promise) is the \<^const>\<open>Inl\<close> side of a sum, or
    \<^const>\<open>None\<close> where the source catches everything.
  \<^item> \<^verbatim>\<open>Date.now()\<close> is the parameter \<open>now\<close>, in milliseconds since the epoch.
\<close>

type_synonym byte = "8 word"
type_synonym int32 = "32 word"

datatype number = Num int | NaN | PosInfinity | NegInfinity

text \<open>
  \<open>DataError\<close> is the exception of the Web Cryptography API. \<open>InvalidSecret\<close> and
  \<open>InvalidPeriod\<close> are the error names of the specification; no path of the source
  produces them.
\<close>

datatype error = InvalidSecret | InvalidPeriod | DataError

section \<open>base32Decode\<close>

text \<open>Lines 3 to 25.\<close>

definition alphabet :: string where
  "alphabet = ''ABCDEFGHIJKLMNOPQRSTUVWXYZ234567''"

text \<open>\<^verbatim>\<open>alphabet.indexOf(char)\<close>: the first index of the character, or \<open>-1\<close>.\<close>

fun indexOf :: "string \<Rightarrow> char \<Rightarrow> int" where
  "indexOf [] c = -1"
| "indexOf (x # xs) c =
     (if x = c then 0 else (let r = indexOf xs c in if r = -1 then -1 else r + 1))"

definition toUpperCase_char :: "char \<Rightarrow> char" where
  "toUpperCase_char c =
     (case map_of (zip ''abcdefghijklmnopqrstuvwxyz'' ''ABCDEFGHIJKLMNOPQRSTUVWXYZ'') c of
        Some u \<Rightarrow> u
      | None \<Rightarrow> c)"

definition toUpperCase :: "string \<Rightarrow> string" where
  "toUpperCase s = map toUpperCase_char s"

text \<open>\<^verbatim>\<open>.replace(/=+$/, "")\<close>: the run of \<open>=\<close> at the very end of the string goes.\<close>

definition strip_padding :: "string \<Rightarrow> string" where
  "strip_padding s = rev (dropWhile (\<lambda>c. c = CHR ''='') (rev s))"

text \<open>The ASCII characters matched by \<^verbatim>\<open>\s\<close>: space, tab, LF, VT, FF, CR.\<close>

definition isWhiteSpace :: "char \<Rightarrow> bool" where
  "isWhiteSpace c \<longleftrightarrow> c \<in> set [CHR 0x20, CHR 0x09, CHR 0x0A, CHR 0x0B, CHR 0x0C, CHR 0x0D]"

text \<open>\<^verbatim>\<open>.replace(/\s/g, "")\<close>\<close>

definition remove_whitespace :: "string \<Rightarrow> string" where
  "remove_whitespace s = filter (\<lambda>c. \<not> isWhiteSpace c) s"

definition cleanedInput :: "string \<Rightarrow> string" where
  "cleanedInput encoded = remove_whitespace (strip_padding (toUpperCase encoded))"

text \<open>
  The loop over \<^verbatim>\<open>cleanedInput\<close>, with its three variables. \<^verbatim>\<open>value\<close> is never
  masked: \<^verbatim>\<open>(value << 5) | idx\<close> keeps the low 32 bits, and \<^verbatim>\<open>>>\<close> is the
  arithmetic shift, its count taken modulo 32.
\<close>

fun decode_loop :: "string \<Rightarrow> nat \<Rightarrow> int32 \<Rightarrow> byte list \<Rightarrow> byte list" where
  "decode_loop [] bits val output = output"
| "decode_loop (char # rest) bits val output =
     (let idx = indexOf alphabet char in
      if idx = -1 then decode_loop rest bits val output
      else
        (let val' = push_bit 5 val OR word_of_int idx;
             bits' = bits + 5
         in if bits' \<ge> 8
            then decode_loop rest (bits' - 8) val'
                   (output @ [ucast (signed_drop_bit ((bits' - 8) mod 32) val' AND 0xff)])
            else decode_loop rest bits' val' output))"

definition base32Decode :: "string \<Rightarrow> byte list" where
  "base32Decode encoded = decode_loop (cleanedInput encoded) 0 0 []"

subsection \<open>The decoder of the specification\<close>

text \<open>
  Section 4.1 of the specification in its own words: the valid symbols of the normalised
  input, each worth five bits; a bit buffer that emits its top eight bits as soon as it
  holds eight, and keeps the remainder; what is left at the end is dropped.
\<close>

definition symbols :: "string \<Rightarrow> nat list" where
  "symbols encoded =
     map (\<lambda>c. nat (indexOf alphabet c)) (filter (\<lambda>c. c \<in> set alphabet) (cleanedInput encoded))"

fun accumulate :: "nat list \<Rightarrow> nat \<Rightarrow> nat \<Rightarrow> byte list" where
  "accumulate [] bits buf = []"
| "accumulate (v # vs) bits buf =
     (let buf' = buf * 32 + v; bits' = bits + 5
      in if bits' \<ge> 8
         then word_of_nat (buf' div 2 ^ (bits' - 8)) # accumulate vs (bits' - 8) (buf' mod 2 ^ (bits' - 8))
         else accumulate vs bits' buf')"

definition spec_decode :: "string \<Rightarrow> byte list" where
  "spec_decode encoded = accumulate (symbols encoded) 0 0"

section \<open>hmacSha1\<close>

text \<open>
  Lines 27 to 38. \<^verbatim>\<open>hmacSha1\<close> calls the platform: \<^verbatim>\<open>crypto.subtle.importKey\<close> and
  \<^verbatim>\<open>crypto.subtle.sign\<close> with HMAC over SHA-1. The platform is modelled from its
  standards: SHA-1 (RFC 3174), HMAC (RFC 2104) and the Web Cryptography API, whose
  import of a raw HMAC key throws \<open>DataError\<close> when the key has length zero.
\<close>

definition be32 :: "byte \<Rightarrow> byte \<Rightarrow> byte \<Rightarrow> byte \<Rightarrow> int32" where
  "be32 a b c d = push_bit 24 (ucast a) OR push_bit 16 (ucast b) OR push_bit 8 (ucast c) OR ucast d"

fun words_of :: "byte list \<Rightarrow> int32 list" where
  "words_of (a # b # c # d # rest) = be32 a b c d # words_of rest"
| "words_of _ = []"

definition bytes_of :: "int32 \<Rightarrow> byte list" where
  "bytes_of w =
     [ucast (drop_bit 24 w AND 0xff), ucast (drop_bit 16 w AND 0xff),
      ucast (drop_bit 8 w AND 0xff), ucast (w AND 0xff)]"

definition rotl :: "nat \<Rightarrow> int32 \<Rightarrow> int32" where
  "rotl n w = push_bit n w OR drop_bit (32 - n) w"

text \<open>
  One step of the compression, with the message schedule kept as a window of sixteen
  words \<open>W\<^sub>t \<dots> W\<^sub>t\<^sub>+\<^sub>1\<^sub>5\<close>: the step consumes \<open>W\<^sub>t\<close> and appends
  \<open>W\<^sub>t\<^sub>+\<^sub>1\<^sub>6 = rotl 1 (W\<^sub>t\<^sub>+\<^sub>1\<^sub>3 XOR W\<^sub>t\<^sub>+\<^sub>8 XOR W\<^sub>t\<^sub>+\<^sub>2 XOR W\<^sub>t)\<close>. The eighty steps
  run in four stages of twenty, each with its own function and constant.
\<close>

datatype stage = Ch | Parity1 | Maj | Parity2

fun sha1_f :: "stage \<Rightarrow> int32 \<Rightarrow> int32 \<Rightarrow> int32 \<Rightarrow> int32" where
  "sha1_f Ch b c d = (b AND c) OR (NOT b AND d)"
| "sha1_f Parity1 b c d = b XOR c XOR d"
| "sha1_f Maj b c d = (b AND c) OR (b AND d) OR (c AND d)"
| "sha1_f Parity2 b c d = b XOR c XOR d"

fun sha1_k :: "stage \<Rightarrow> int32" where
  "sha1_k Ch = 0x5A827999"
| "sha1_k Parity1 = 0x6ED9EBA1"
| "sha1_k Maj = 0x8F1BBCDC"
| "sha1_k Parity2 = 0xCA62C1D6"

type_synonym sha1_state = "int32 \<times> int32 \<times> int32 \<times> int32 \<times> int32"

fun steps :: "stage \<Rightarrow> nat \<Rightarrow> int32 list \<times> sha1_state \<Rightarrow> int32 list \<times> sha1_state" where
  "steps p 0 ws = ws"
| "steps p (Suc n) (w, (a, b, c, d, e)) =
     steps p n
       (tl w @ [rotl 1 (w ! 13 XOR w ! 8 XOR w ! 2 XOR w ! 0)],
        (rotl 5 a + sha1_f p b c d + e + sha1_k p + hd w, a, rotl 30 b, c, d))"

definition add_state :: "sha1_state \<Rightarrow> sha1_state \<Rightarrow> sha1_state" where
  "add_state h s =
     (case (h, s) of ((h0, h1, h2, h3, h4), (a, b, c, d, e)) \<Rightarrow>
        (h0 + a, h1 + b, h2 + c, h3 + d, h4 + e))"

definition compress :: "sha1_state \<Rightarrow> byte list \<Rightarrow> sha1_state" where
  "compress h blk =
     add_state h
       (snd (steps Parity2 20 (steps Maj 20 (steps Parity1 20 (steps Ch 20 (words_of blk, h))))))"

text \<open>The length field of the padding: eight bytes, most significant first.\<close>

definition be64 :: "nat \<Rightarrow> byte list" where
  "be64 n =
     [word_of_nat (n div 2 ^ 56 mod 256), word_of_nat (n div 2 ^ 48 mod 256),
      word_of_nat (n div 2 ^ 40 mod 256), word_of_nat (n div 2 ^ 32 mod 256),
      word_of_nat (n div 2 ^ 24 mod 256), word_of_nat (n div 2 ^ 16 mod 256),
      word_of_nat (n div 2 ^ 8 mod 256), word_of_nat (n mod 256)]"

definition sha1_pad :: "byte list \<Rightarrow> byte list" where
  "sha1_pad m = m @ [0x80] @ replicate ((119 - length m mod 64) mod 64) 0 @ be64 (8 * length m)"

fun blocks :: "nat \<Rightarrow> byte list \<Rightarrow> byte list list" where
  "blocks 0 m = []"
| "blocks (Suc n) m = take 64 m # blocks n (drop 64 m)"

definition sha1_init :: sha1_state where
  "sha1_init = (0x67452301, 0xEFCDAB89, 0x98BADCFE, 0x10325476, 0xC3D2E1F0)"

definition digest_of :: "sha1_state \<Rightarrow> byte list" where
  "digest_of s = (case s of (a, b, c, d, e) \<Rightarrow> concat (map bytes_of [a, b, c, d, e]))"

definition sha1 :: "byte list \<Rightarrow> byte list" where
  "sha1 m = (let p = sha1_pad m in digest_of (foldl compress sha1_init (blocks (length p div 64) p)))"

definition hmac_sha1 :: "byte list \<Rightarrow> byte list \<Rightarrow> byte list" where
  "hmac_sha1 key msg =
     (let k0 = (if length key > 64 then sha1 key else key);
          k = k0 @ replicate (64 - length k0) 0
      in sha1 (map (\<lambda>b. b XOR 0x5c) k @ sha1 (map (\<lambda>b. b XOR 0x36) k @ msg)))"

definition hmacSha1 :: "byte list \<Rightarrow> byte list \<Rightarrow> error + byte list" where
  "hmacSha1 key message = (if key = [] then Inl DataError else Inr (hmac_sha1 key message))"

section \<open>generateTOTP\<close>

text \<open>
  Lines 40 to 64. First \<^verbatim>\<open>Math.floor(Date.now() / 1000 / period)\<close>. Division by zero gives an infinity, or
  \<^verbatim>\<open>NaN\<close> for \<open>0 / 0\<close>; otherwise the quotient is floored.
\<close>

definition time_step :: "int \<Rightarrow> int \<Rightarrow> number" where
  "time_step now period =
     (if period = 0
      then (if now = 0 then NaN else if 0 < now then PosInfinity else NegInfinity)
      else Num (now div (1000 * period)))"

text \<open>
  \<^verbatim>\<open>t & 0xff\<close>, stored into a \<^verbatim>\<open>Uint8Array\<close>: the operand is first taken to a 32-bit
  integer, which maps \<^verbatim>\<open>NaN\<close> and the infinities to 0.
\<close>

definition low_byte :: "number \<Rightarrow> byte" where
  "low_byte t = (case t of Num n \<Rightarrow> word_of_int n | _ \<Rightarrow> 0)"

text \<open>\<^verbatim>\<open>Math.floor(t / 256)\<close>\<close>

definition floor_div_256 :: "number \<Rightarrow> number" where
  "floor_div_256 t = (case t of Num n \<Rightarrow> Num (n div 256) | _ \<Rightarrow> t)"

text \<open>The loop \<^verbatim>\<open>for (let i = 7; i >= 0; i--)\<close>; the first argument is \<open>i + 1\<close>.\<close>

fun fill_timeBuffer :: "nat \<Rightarrow> number \<Rightarrow> byte list \<Rightarrow> byte list" where
  "fill_timeBuffer 0 t timeBuffer = timeBuffer"
| "fill_timeBuffer (Suc i) t timeBuffer =
     fill_timeBuffer i (floor_div_256 t) (timeBuffer[i := low_byte t])"

text \<open>
  An element of a \<^verbatim>\<open>Uint8Array\<close> as the operand of a bitwise operator: out of range the
  read gives \<^verbatim>\<open>undefined\<close>, which the operator takes as 0.
\<close>

definition at :: "byte list \<Rightarrow> int \<Rightarrow> int32" where
  "at a i = (if 0 \<le> i \<and> i < int (length a) then ucast (a ! nat i) else 0)"

definition truncation_offset :: "byte list \<Rightarrow> int" where
  "truncation_offset hmac = sint (at hmac (int (length hmac) - 1) AND 0x0f)"

definition truncation_value :: "byte list \<Rightarrow> int" where
  "truncation_value hmac =
     (let offset = truncation_offset hmac in
      sint (push_bit 24 (at hmac offset AND 0x7f)
         OR push_bit 16 (at hmac (offset + 1) AND 0xff)
         OR push_bit 8 (at hmac (offset + 2) AND 0xff)
         OR (at hmac (offset + 3) AND 0xff)))"

text \<open>The remainder operator \<^verbatim>\<open>%\<close> on integers: the sign follows the dividend.\<close>

definition js_rem :: "int \<Rightarrow> int \<Rightarrow> int" where
  "js_rem a b = sgn a * (\<bar>a\<bar> mod \<bar>b\<bar>)"

function decimal :: "nat \<Rightarrow> string" where
  "decimal n = (if n < 10 then [''0123456789'' ! n] else decimal (n div 10) @ [''0123456789'' ! (n mod 10)])"
  by pat_completeness auto
termination
  by (relation "measure id") auto

declare decimal.simps [simp del]

text \<open>\<^verbatim>\<open>Number.prototype.toString\<close> on an integer.\<close>

definition toString :: "int \<Rightarrow> string" where
  "toString n = (if n < 0 then CHR ''-'' # decimal (nat (- n)) else decimal (nat n))"

definition padStart :: "nat \<Rightarrow> char \<Rightarrow> string \<Rightarrow> string" where
  "padStart targetLength c s = replicate (targetLength - length s) c @ s"

text \<open>
  \<open>digits\<close> is a natural number, \<open>period\<close> an integer. \<^verbatim>\<open>Math.pow(10, digits)\<close> is
  \<open>10 ^ digits\<close>: the double is exact up to \<open>10\<^sup>2\<^sup>2\<close>, and from \<open>10\<^sup>1\<^sup>0\<close> on the
  remainder leaves the 31-bit value as it is.
\<close>

definition generateTOTP :: "string \<Rightarrow> nat \<Rightarrow> int \<Rightarrow> int \<Rightarrow> error + string" where
  "generateTOTP secret digits period now =
     (let key = base32Decode secret;
          time = time_step now period;
          timeBuffer = fill_timeBuffer 8 time (replicate 8 0)
      in case hmacSha1 key timeBuffer of
           Inl e \<Rightarrow> Inl e
         | Inr hmac \<Rightarrow>
             (let code = js_rem (truncation_value hmac) (10 ^ digits)
              in Inr (padStart digits (CHR ''0'') (toString code))))"

section \<open>getTimeRemaining\<close>

text \<open>
  Lines 66 to 68: \<^verbatim>\<open>period - (Math.floor(Date.now() / 1000) % period)\<close>; a remainder by zero is
  \<^verbatim>\<open>NaN\<close>.
\<close>

definition getTimeRemaining :: "int \<Rightarrow> int \<Rightarrow> number" where
  "getTimeRemaining period now =
     (if period = 0 then NaN else Num (period - js_rem (now div 1000) period))"

section \<open>parseOtpAuthUrl\<close>

subsection \<open>The platform: URL\<close>

text \<open>
  \<^verbatim>\<open>new URL(url)\<close> is modelled from the URL Standard, for an address without a base.
  \<open>otpauth\<close> is not a special scheme: its host is an opaque host, kept as written. Of the
  URL record the model has the four members the source reads; the constructor's
  \<open>TypeError\<close> is \<^const>\<open>None\<close>. Two parts of the standard are left out, neither of
  which can give the host \<^verbatim>\<open>totp\<close> with the protocol \<^verbatim>\<open>otpauth:\<close>: for the special
  schemes (\<open>http\<close>, \<open>https\<close>, \<open>ws\<close>, \<open>wss\<close>, \<open>ftp\<close>, \<open>file\<close>) only the protocol is
  given, and an IPv6 literal in brackets is kept as written.
\<close>

record url =
  protocol :: string
  host :: string
  pathname :: string
  searchParams :: "(string \<times> string) list"

definition is_alpha :: "char \<Rightarrow> bool" where
  "is_alpha c \<longleftrightarrow> c \<in> set ''abcdefghijklmnopqrstuvwxyzABCDEFGHIJKLMNOPQRSTUVWXYZ''"

definition is_digit :: "char \<Rightarrow> bool" where
  "is_digit c \<longleftrightarrow> c \<in> set ''0123456789''"

definition toLowerCase_char :: "char \<Rightarrow> char" where
  "toLowerCase_char c =
     (case map_of (zip ''ABCDEFGHIJKLMNOPQRSTUVWXYZ'' ''abcdefghijklmnopqrstuvwxyz'') c of
        Some l \<Rightarrow> l
      | None \<Rightarrow> c)"

definition char_code :: "char \<Rightarrow> nat" where
  "char_code c = of_char c"

text \<open>A C0 control or space: the characters stripped from both ends of the input.\<close>

definition c0_or_space :: "char \<Rightarrow> bool" where
  "c0_or_space c \<longleftrightarrow> char_code c \<le> 0x20"

definition trim_c0_space :: "string \<Rightarrow> string" where
  "trim_c0_space s = rev (dropWhile c0_or_space (rev (dropWhile c0_or_space s)))"

text \<open>Tab, LF and CR are removed wherever they stand.\<close>

definition remove_tab_newline :: "string \<Rightarrow> string" where
  "remove_tab_newline s = filter (\<lambda>c. c \<notin> set [CHR 0x09, CHR 0x0A, CHR 0x0D]) s"

definition is_scheme_char :: "char \<Rightarrow> bool" where
  "is_scheme_char c \<longleftrightarrow> is_alpha c \<or> is_digit c \<or> c \<in> set ''+-.''"

definition special_schemes :: "string list" where
  "special_schemes = [''ftp'', ''file'', ''http'', ''https'', ''ws'', ''wss'']"

text \<open>Percent-encoding of the bytes in a set: \<open>%\<close> and two upper-case hexadecimal digits.\<close>

definition percent_encode :: "(char \<Rightarrow> bool) \<Rightarrow> string \<Rightarrow> string" where
  "percent_encode in_set s =
     concat (map (\<lambda>c. if in_set c
                        then [CHR ''%'', ''0123456789ABCDEF'' ! (char_code c div 16),
                              ''0123456789ABCDEF'' ! (char_code c mod 16)]
                        else [c]) s)"

definition c0_control_set :: "char \<Rightarrow> bool" where
  "c0_control_set c \<longleftrightarrow> char_code c < 0x20 \<or> 0x7E < char_code c"

definition query_set :: "char \<Rightarrow> bool" where
  "query_set c \<longleftrightarrow> c0_control_set c \<or> c \<in> set [CHR 0x20, CHR 0x22, CHR ''#'', CHR ''<'', CHR ''>'']"

definition path_set :: "char \<Rightarrow> bool" where
  "path_set c \<longleftrightarrow> query_set c \<or> c \<in> set [CHR ''?'', CHR ''^'', CHR 0x60, CHR ''{'', CHR ''}'']"

definition forbidden_host_code_point :: "char \<Rightarrow> bool" where
  "forbidden_host_code_point c \<longleftrightarrow>
     c \<in> set [CHR 0x00, CHR 0x09, CHR 0x0A, CHR 0x0D, CHR 0x20, CHR ''#'', CHR ''/'', CHR '':'',
              CHR ''<'', CHR ''>'', CHR ''?'', CHR ''@'', CHR ''['', CHR 0x5C, CHR '']'', CHR ''^'',
              CHR ''|'']"

text \<open>The host ends at the first \<open>:\<close> outside brackets; what follows is the port.\<close>

fun split_host_port :: "bool \<Rightarrow> string \<Rightarrow> string \<times> string option" where
  "split_host_port inside [] = ([], None)"
| "split_host_port inside (c # cs) =
     (if c = CHR '':'' \<and> \<not> inside then ([], Some cs)
      else (case split_host_port
                   (if c = CHR ''['' then True else if c = CHR '']'' then False else inside) cs of
              (h, p) \<Rightarrow> (c # h, p)))"

definition parse_opaque_host :: "string \<Rightarrow> string option" where
  "parse_opaque_host h =
     (if take 1 h = ''[''
      then (if last h = CHR '']'' then Some h else None)
      else if list_ex forbidden_host_code_point h then None
      else Some (percent_encode c0_control_set h))"

definition digits_value :: "string \<Rightarrow> nat" where
  "digits_value ds = foldl (\<lambda>a c. 10 * a + (char_code c - 48)) 0 ds"

text \<open>The port: no digits give no port; a character that is no digit, or a value above 65535, fails.\<close>

definition parse_port :: "string \<Rightarrow> nat option option" where
  "parse_port p =
     (if \<not> list_all is_digit p then None
      else if p = [] then Some None
      else if 65535 < digits_value p then None
      else Some (Some (digits_value p)))"

definition is_single_dot :: "string \<Rightarrow> bool" where
  "is_single_dot seg \<longleftrightarrow> map toLowerCase_char seg \<in> set [''.'', ''%2e'']"

definition is_double_dot :: "string \<Rightarrow> bool" where
  "is_double_dot seg \<longleftrightarrow> map toLowerCase_char seg \<in> set [''..'', ''.%2e'', ''%2e.'', ''%2e%2e'']"

text \<open>
  The path state, one segment at a time: a double-dot segment removes the last segment of
  the path, a single-dot segment adds nothing, and either adds the empty segment when it
  ends the path.
\<close>

fun path_segments :: "string list \<Rightarrow> string list \<Rightarrow> string list" where
  "path_segments [] path = path"
| "path_segments (seg # rest) path =
     (if is_double_dot seg
      then path_segments rest (butlast path @ (if rest = [] then [[]] else []))
      else if is_single_dot seg
      then path_segments rest (path @ (if rest = [] then [[]] else []))
      else path_segments rest (path @ [percent_encode path_set seg]))"

text \<open>\<^verbatim>\<open>String.prototype.split\<close> with a separator of one character.\<close>

fun split_on :: "char \<Rightarrow> string \<Rightarrow> string list" where
  "split_on sep [] = [[]]"
| "split_on sep (c # cs) =
     (if c = sep then [] # split_on sep cs
      else (case split_on sep cs of x # xs \<Rightarrow> (c # x) # xs | [] \<Rightarrow> [[c]]))"

text \<open>\<^verbatim>\<open>Array.prototype.join\<close> with a separator of one character.\<close>

fun join_with :: "char \<Rightarrow> string list \<Rightarrow> string" where
  "join_with sep [] = []"
| "join_with sep [x] = x"
| "join_with sep (x # y # ys) = x @ sep # join_with sep (y # ys)"

definition serialize_path :: "string list \<Rightarrow> string" where
  "serialize_path path = concat (map (\<lambda>seg. CHR ''/'' # seg) path)"

definition hex_value :: "char \<Rightarrow> nat option" where
  "hex_value c =
     map_of (zip ''0123456789abcdefABCDEF''
                 [0, 1, 2, 3, 4, 5, 6, 7, 8, 9, 10, 11, 12, 13, 14, 15, 10, 11, 12, 13, 14, 15]) c"

text \<open>Percent-decoding of a query: an escape that is not well formed stays as it is.\<close>

fun percent_decode :: "string \<Rightarrow> string" where
  "percent_decode (c # h # l # rest) =
     (if c = CHR ''%''
      then (case (hex_value h, hex_value l) of
              (Some a, Some b) \<Rightarrow> char_of (16 * a + b) # percent_decode rest
            | _ \<Rightarrow> c # percent_decode (h # l # rest))
      else c # percent_decode (h # l # rest))"
| "percent_decode cs = cs"

text \<open>
  The parser of \<^verbatim>\<open>application/x-www-form-urlencoded\<close>: the pairs between \<open>&\<close>, each
  split at its first \<open>=\<close>, with \<open>+\<close> for a space.
\<close>

definition form_decode :: "string \<Rightarrow> string" where
  "form_decode s = percent_decode (map (\<lambda>c. if c = CHR ''+'' then CHR 0x20 else c) s)"

definition parse_pair :: "string \<Rightarrow> string \<times> string" where
  "parse_pair s =
     (form_decode (takeWhile (\<lambda>c. c \<noteq> CHR ''='') s),
      form_decode (drop 1 (dropWhile (\<lambda>c. c \<noteq> CHR ''='') s)))"

definition parse_query :: "string \<Rightarrow> (string \<times> string) list" where
  "parse_query q = map parse_pair (filter (\<lambda>s. s \<noteq> []) (split_on (CHR ''&'') q))"

text \<open>\<^verbatim>\<open>searchParams.get(name)\<close>: the value of the first pair of that name, or \<^verbatim>\<open>null\<close>.\<close>

definition searchParams_get :: "url \<Rightarrow> string \<Rightarrow> string option" where
  "searchParams_get u name = map_of (searchParams u) name"

definition URL_new :: "string \<Rightarrow> url option" where
  "URL_new input =
     (let s = remove_tab_newline (trim_c0_space input);
          scheme = map toLowerCase_char (takeWhile is_scheme_char s);
          rest = dropWhile is_scheme_char s
      in if s = [] \<or> \<not> is_alpha (hd s) \<or> take 1 rest \<noteq> '':'' then None
         else
           (let body = takeWhile (\<lambda>c. c \<noteq> CHR ''#'') (drop 1 rest);
                hier = takeWhile (\<lambda>c. c \<noteq> CHR ''?'') body;
                query = drop 1 (dropWhile (\<lambda>c. c \<noteq> CHR ''?'') body);
                params = parse_query (percent_encode query_set query)
            in if scheme \<in> set special_schemes
               then Some \<lparr>protocol = scheme @ '':'', host = [], pathname = [], searchParams = []\<rparr>
               else if take 2 hier = ''//''
               then
                 (let authority = takeWhile (\<lambda>c. c \<noteq> CHR ''/'') (drop 2 hier);
                      path_part = dropWhile (\<lambda>c. c \<noteq> CHR ''/'') (drop 2 hier);
                      host_port = rev (takeWhile (\<lambda>c. c \<noteq> CHR ''@'') (rev authority))
                  in if CHR ''@'' \<in> set authority \<and> host_port = [] then None
                     else
                       (case split_host_port False host_port of
                          (h, p) \<Rightarrow>
                            if p \<noteq> None \<and> h = [] then None
                            else
                              (case parse_opaque_host h of
                                 None \<Rightarrow> None
                               | Some hst \<Rightarrow>
                                   (case parse_port (case p of None \<Rightarrow> [] | Some ds \<Rightarrow> ds) of
                                      None \<Rightarrow> None
                                    | Some port \<Rightarrow>
                                        Some \<lparr>protocol = scheme @ '':'',
                                          host = hst @ (case port of None \<Rightarrow> []
                                                        | Some n \<Rightarrow> CHR '':'' # decimal n),
                                          pathname =
                                            (if path_part = [] then []
                                             else serialize_path
                                                    (path_segments (split_on (CHR ''/'') (drop 1 path_part)) [])),
                                          searchParams = params\<rparr>))))
               else if take 1 hier = ''/''
               then Some \<lparr>protocol = scheme @ '':'', host = [],
                      pathname = serialize_path (path_segments (split_on (CHR ''/'') (drop 1 hier)) []),
                      searchParams = params\<rparr>
               else Some \<lparr>protocol = scheme @ '':'', host = [],
                      pathname = percent_encode c0_control_set hier, searchParams = params\<rparr>))"

subsection \<open>The platform: decodeURIComponent and parseInt\<close>

text \<open>
  A sequence of bytes is the UTF-8 form of one code point: not over-long, no surrogate,
  at most \<open>U+10FFFF\<close>.
\<close>

definition valid_utf8 :: "nat list \<Rightarrow> bool" where
  "valid_utf8 octets =
     (case octets of
        [a, b] \<Rightarrow> 0x80 \<le> (a mod 32) * 64 + b mod 64
      | [a, b, c] \<Rightarrow>
          (let cp = (a mod 16) * 4096 + (b mod 64) * 64 + c mod 64
           in 0x800 \<le> cp \<and> \<not> (0xD800 \<le> cp \<and> cp \<le> 0xDFFF))
      | [a, b, c, d] \<Rightarrow>
          (let cp = (a mod 8) * 262144 + (b mod 64) * 4096 + (c mod 64) * 64 + d mod 64
           in 0x10000 \<le> cp \<and> cp \<le> 0x10FFFF)
      | _ \<Rightarrow> False)"

text \<open>The number of bytes announced by a leading byte; 0 for a byte that cannot lead.\<close>

definition utf8_length :: "nat \<Rightarrow> nat" where
  "utf8_length b =
     (if b < 0x80 then 1 else if b < 0xC0 then 0 else if b < 0xE0 then 2
      else if b < 0xF0 then 3 else if b < 0xF8 then 4 else 0)"

text \<open>
  \<^verbatim>\<open>decodeURIComponent\<close>: \<open>pending\<close> holds the bytes of a character begun, \<open>k\<close> the
  number of continuation bytes still due. A \<open>%\<close> without two hexadecimal digits, a
  character begun and not finished, and bytes that are not UTF-8 throw \<open>URIError\<close>,
  which is \<^const>\<open>None\<close>.
\<close>

fun decode_escapes :: "nat list \<Rightarrow> nat \<Rightarrow> string \<Rightarrow> string option" where
  "decode_escapes pending k [] = (if k = 0 then Some [] else None)"
| "decode_escapes pending k (c # cs) =
     (if c = CHR ''%''
      then (case cs of
              h # l # rest \<Rightarrow>
                (case (hex_value h, hex_value l) of
                   (Some a, Some b) \<Rightarrow>
                     (let B = 16 * a + b in
                      if k = 0
                      then (if B < 0x80
                            then map_option ((#) (char_of B)) (decode_escapes [] 0 rest)
                            else if utf8_length B = 0 then None
                            else decode_escapes [B] (utf8_length B - 1) rest)
                      else if B div 64 \<noteq> 2 then None
                      else if k = 1
                      then (if valid_utf8 (pending @ [B])
                            then map_option ((@) (map char_of (pending @ [B])))
                                   (decode_escapes [] 0 rest)
                            else None)
                      else decode_escapes (pending @ [B]) (k - 1) rest)
                 | _ \<Rightarrow> None)
            | _ \<Rightarrow> None)
      else if k = 0 then map_option ((#) c) (decode_escapes [] 0 cs)
      else None)"

definition decodeURIComponent :: "string \<Rightarrow> string option" where
  "decodeURIComponent s = decode_escapes [] 0 s"

text \<open>
  \<^verbatim>\<open>parseInt(s, 10)\<close>: leading white space, a sign, then the longest run of decimal
  digits; \<^verbatim>\<open>NaN\<close> when there is no digit.
\<close>

definition parseInt :: "string \<Rightarrow> number" where
  "parseInt s =
     (let t = dropWhile isWhiteSpace s;
          negative = (take 1 t = ''-'');
          u = (if take 1 t = ''-'' \<or> take 1 t = ''+'' then drop 1 t else t);
          ds = takeWhile is_digit u
      in if ds = [] then NaN
         else Num (if negative then - int (digits_value ds) else int (digits_value ds)))"

subsection \<open>The source\<close>

text \<open>Lines 70 to 97. The object returned is a record; \<^verbatim>\<open>null\<close> is \<^const>\<open>None\<close>.\<close>

record otpauth =
  issuer :: string
  account :: string
  secret :: string
  digits :: number
  period :: number

text \<open>\<^verbatim>\<open>value || fallback\<close> on a string or \<^verbatim>\<open>null\<close>: \<^verbatim>\<open>null\<close> and the empty string are falsy.\<close>

definition or_else :: "string option \<Rightarrow> string \<Rightarrow> string" where
  "or_else v fallback = (case v of None \<Rightarrow> fallback | Some s \<Rightarrow> if s = [] then fallback else s)"

definition parseOtpAuthUrl :: "string \<Rightarrow> otpauth option" where
  "parseOtpAuthUrl u =
     (case URL_new u of
        None \<Rightarrow> None
      | Some parsed \<Rightarrow>
          if protocol parsed \<noteq> ''otpauth:'' then None
          else if host parsed \<noteq> ''totp'' then None
          else
            (case decodeURIComponent (drop 1 (pathname parsed)) of
               None \<Rightarrow> None
             | Some path \<Rightarrow>
                 (case searchParams_get parsed ''secret'' of
                    None \<Rightarrow> None
                  | Some sec \<Rightarrow>
                      if sec = [] then None
                      else
                        (let iss = or_else (searchParams_get parsed ''issuer'') [];
                             parts = split_on (CHR '':'') path;
                             iss' = (if CHR '':'' \<in> set path \<and> iss = [] then hd parts else iss);
                             acc = (if CHR '':'' \<in> set path then join_with (CHR '':'') (tl parts) else path);
                             dig = parseInt (or_else (searchParams_get parsed ''digits'') ''6'');
                             per = parseInt (or_else (searchParams_get parsed ''period'') ''30'')
                         in Some \<lparr>issuer = iss', account = acc, secret = sec,
                                  digits = dig, period = per\<rparr>))))"

section \<open>Properties of base32Decode\<close>

lemma indexOf_absent: "indexOf xs c = -1 \<longleftrightarrow> c \<notin> set xs"
  and indexOf_nonneg: "-1 \<le> indexOf xs c"
  and indexOf_less: "indexOf xs c < int (length xs)"
  by (induction xs) (auto simp: Let_def)

lemma length_accumulate:
  "bits < 8 \<Longrightarrow> length (accumulate vs bits buf) = (bits + 5 * length vs) div 8"
proof (induction vs arbitrary: bits buf)
  case Nil
  then show ?case by simp
next
  case (Cons v vs)
  show ?case
  proof (cases "bits + 5 \<ge> 8")
    case True
    with Cons.prems have "bits + 5 - 8 < 8" by arith
    from Cons.IH [OF this] True show ?thesis
      by (simp add: Let_def)
  next
    case False
    then have "bits + 5 < 8" by arith
    from Cons.IH [OF this] False show ?thesis
      by (simp add: Let_def add.commute add.left_commute)
  qed
qed

lemma shift_add_or:
  fixes x v :: nat
  assumes "v < 32"
  shows "x * 32 + v = push_bit 5 x OR v"
proof -
  have v: "take_bit 5 v = v"
    using assms by (simp add: take_bit_nat_eq_self)
  have "push_bit 5 x + take_bit 5 v = push_bit 5 x OR take_bit 5 v"
    by (rule disjunctive_add) (auto simp: bit_simps)
  then show ?thesis
    by (simp add: v push_bit_eq_mult)
qed

lemma stepA:
  fixes val :: int32
  assumes "v < 32" "bits + 5 \<le> 32"
  shows "unat (take_bit (bits + 5) (push_bit 5 val OR word_of_int (int v)))
       = unat (take_bit bits val) * 32 + v"
proof -
  have v: "take_bit 5 v = v"
    using assms by (simp add: take_bit_nat_eq_self)
  have "unat (take_bit (bits + 5) (push_bit 5 val OR word_of_nat (take_bit 5 v)))
      = push_bit 5 (unat (take_bit bits val)) OR take_bit 5 v"
    using assms(2) by (intro bit_eqI) (auto simp: bit_simps)
  then show ?thesis
    using assms(1) by (simp add: shift_add_or v)
qed

lemma stepB:
  fixes val :: int32
  assumes "s \<le> 4"
  shows "(ucast (signed_drop_bit s val AND 0xff) :: byte) = word_of_nat (unat (take_bit (s + 8) val) div 2 ^ s)"
proof -
  have m: "(0xff :: int32) = mask 8"
    by (simp add: mask_eq_exp_minus_1)
  have "unat (take_bit (s + 8) val) div 2 ^ s = drop_bit s (take_bit (s + 8) (unat val))"
    by (simp add: drop_bit_eq_div unsigned_take_bit_eq)
  then show ?thesis
    unfolding m using assms
    by (intro bit_eqI) (auto simp: bit_simps)
qed

lemma stepC:
  fixes val :: int32
  shows "unat (take_bit s val) = unat (take_bit (s + 8) val) mod 2 ^ s"
  by (simp add: unsigned_take_bit_eq flip: take_bit_eq_mod)


lemma decode_loop_accumulate:
  "bits < 8 \<Longrightarrow>
   decode_loop cs bits val outp =
     outp @ accumulate (map (\<lambda>c. nat (indexOf alphabet c)) (filter (\<lambda>c. c \<in> set alphabet) cs))
                bits (unat (take_bit bits val))"
proof (induction cs arbitrary: bits val outp)
  case Nil
  then show ?case by simp
next
  case (Cons c cs)
  show ?case
  proof (cases "c \<in> set alphabet")
    case False
    then have "indexOf alphabet c = -1"
      by (simp add: indexOf_absent)
    with False Cons.IH [OF Cons.prems] show ?thesis
      by simp
  next
    case True
    define v where "v = nat (indexOf alphabet c)"
    define val' where "val' = push_bit 5 val OR word_of_int (int v)"
    from True have ne: "indexOf alphabet c \<noteq> -1"
      by (simp add: indexOf_absent)
    with indexOf_nonneg [of alphabet c] have idx: "indexOf alphabet c = int v"
      by (simp add: v_def)
    have "length alphabet = 32"
      by (simp add: alphabet_def)
    with indexOf_less [of alphabet c] have v32: "v < 32"
      by (simp add: v_def)
    from Cons.prems have le: "bits + 5 \<le> 32"
      by simp
    have buf: "unat (take_bit (bits + 5) val') = unat (take_bit bits val) * 32 + v"
      unfolding val'_def by (rule stepA [OF v32 le])
    have step: "decode_loop (c # cs) bits val outp =
        (if bits + 5 \<ge> 8
         then decode_loop cs (bits + 5 - 8) val'
                (outp @ [ucast (signed_drop_bit ((bits + 5 - 8) mod 32) val' AND 0xff)])
         else decode_loop cs (bits + 5) val' outp)"
      using ne by (simp add: Let_def idx val'_def)
    have syms: "map (\<lambda>c. nat (indexOf alphabet c)) (filter (\<lambda>c. c \<in> set alphabet) (c # cs))
        = v # map (\<lambda>c. nat (indexOf alphabet c)) (filter (\<lambda>c. c \<in> set alphabet) cs)"
      using True by (simp add: v_def)
    show ?thesis
    proof (cases "bits + 5 \<ge> 8")
      case False
      then have "bits + 5 < 8" by simp
      from Cons.IH [OF this, of val' outp] False show ?thesis
        unfolding step syms by (simp add: Let_def buf)
    next
      case True
      define s where "s = bits + 5 - 8"
      from True Cons.prems have s: "s \<le> 4" "s < 8" "s + 8 = bits + 5" "s mod 32 = s"
        by (simp_all add: s_def)
      have byte: "(ucast (signed_drop_bit s val' AND 0xff) :: byte)
          = word_of_nat ((unat (take_bit bits val) * 32 + v) div 2 ^ s)"
        using stepB [OF s(1), of val'] by (simp add: s(3) buf)
      have keep: "unat (take_bit s val') = (unat (take_bit bits val) * 32 + v) mod 2 ^ s"
        using stepC [of s val'] by (simp add: s(3) buf)
      from Cons.IH [OF s(2), of val' "outp @ [ucast (signed_drop_bit s val' AND 0xff)]"] True
      show ?thesis
        unfolding step syms by (simp add: Let_def s byte keep flip: s_def)
    qed
  qed
qed

text \<open>
  Claim C2. For every input string, \<^verbatim>\<open>base32Decode\<close> works on the upper-cased input
  without its trailing \<open>=\<close> and without white space, skips every character outside
  the alphabet \<open>A\<close>--\<open>Z\<close>, \<open>2\<close>--\<open>7\<close>, and returns what the bit buffer of the
  specification returns on the remaining symbols: five bits per symbol, a byte as soon as
  eight bits are held, the bits left at the end dropped. The result has
  \<open>\<lfloor>5 * n / 8\<rfloor>\<close> bytes for \<open>n\<close> valid symbols, and \<^verbatim>\<open>MFRGG===\<close> in any letter case
  decodes to the bytes of \<^verbatim>\<open>abc\<close>.
\<close>

theorem base32Decode_spec:
  "base32Decode encoded = spec_decode encoded
   \<and> length (base32Decode encoded)
       = (5 * length (filter (\<lambda>c. c \<in> set alphabet) (cleanedInput encoded))) div 8
   \<and> (toUpperCase encoded = ''MFRGG==='' \<longrightarrow> base32Decode encoded = [0x61, 0x62, 0x63])"
proof (intro conjI impI)
  show eq: "base32Decode encoded = spec_decode encoded"
    by (simp add: base32Decode_def spec_decode_def symbols_def decode_loop_accumulate)
  show "length (base32Decode encoded)
       = (5 * length (filter (\<lambda>c. c \<in> set alphabet) (cleanedInput encoded))) div 8"
    by (simp add: eq spec_decode_def symbols_def length_accumulate)
  assume "toUpperCase encoded = ''MFRGG===''"
  then have "cleanedInput encoded = ''MFRGG''"
    by (simp add: cleanedInput_def strip_padding_def remove_whitespace_def isWhiteSpace_def)
  then show "base32Decode encoded = [0x61, 0x62, 0x63]"
    by (simp add: base32Decode_def alphabet_def Let_def)
qed

theorem base32Decode_spec_witness:
  "toUpperCase ''mfRgg==='' = ''MFRGG===''
   \<and> base32Decode ''mfRgg==='' = spec_decode ''mfRgg===''
   \<and> length (base32Decode ''mfRgg==='') = 3
   \<and> base32Decode ''mfRgg==='' = [0x61, 0x62, 0x63]"
proof -
  have up: "toUpperCase ''mfRgg==='' = ''MFRGG===''"
    by (simp add: toUpperCase_def toUpperCase_char_def)
  have "cleanedInput ''mfRgg==='' = ''MFRGG''"
    by (simp add: up cleanedInput_def strip_padding_def remove_whitespace_def isWhiteSpace_def)
  then have n: "(5 * length (filter (\<lambda>c. c \<in> set alphabet) (cleanedInput ''mfRgg===''))) div 8 = 3"
    by (simp add: alphabet_def)
  note spec = base32Decode_spec [of "''mfRgg===''"]
  from spec have a: "base32Decode ''mfRgg==='' = spec_decode ''mfRgg===''"
    by (rule conjunct1)
  from spec have b: "length (base32Decode ''mfRgg==='') = 3"
    unfolding n by (elim conjE)
  from spec up have c: "base32Decode ''mfRgg==='' = [0x61, 0x62, 0x63]"
    by (elim conjE) (erule mp)
  from up a b c show ?thesis
    by (intro conjI)
qed

section \<open>Dynamic truncation and rendering\<close>

lemma sint_eq_uint_31:
  fixes w :: int32
  assumes "\<not> bit w 31"
  shows "sint w = uint w" and "uint w < 2 ^ 31"
proof -
  have "take_bit 31 w = w"
  proof (rule bit_eqI)
    fix n
    assume "possible_bit TYPE(int32) n"
    show "bit (take_bit 31 w) n \<longleftrightarrow> bit w n"
    proof (cases "n < 31")
      case True
      then show ?thesis by (simp add: bit_simps)
    next
      case False
      have "\<not> bit w n"
      proof (cases "n = 31")
        case True
        with assms show ?thesis by simp
      next
        case False
        with \<open>\<not> n < 31\<close> have "32 \<le> n" by simp
        then show ?thesis using bit_imp_le_length [of w n] by auto
      qed
      with False show ?thesis by (simp add: bit_simps)
    qed
  qed
  then have "uint w = take_bit 31 (uint w)"
    by (metis unsigned_take_bit_eq)
  then show lt: "uint w < 2 ^ 31"
    by (metis take_bit_int_less_exp)
  have "- (2 ^ 31) \<le> uint w"
    by (rule order_trans [of _ 0]) simp_all
  with lt show "sint w = uint w"
    by (simp add: sint_uint signed_take_bit_int_eq_self)
qed

lemma truncation_offset_range: "0 \<le> truncation_offset hmac \<and> truncation_offset hmac \<le> 15"
proof -
  define w where "w = at hmac (int (length hmac) - 1) AND 0x0f"
  have m: "(0x0f :: int32) = mask 4"
    by (simp add: mask_eq_exp_minus_1)
  have w4: "w = take_bit 4 (at hmac (int (length hmac) - 1))"
    by (simp add: w_def m take_bit_eq_mask)
  then have "\<not> bit w 31"
    by (simp add: bit_simps)
  then have s: "sint w = uint w"
    by (rule sint_eq_uint_31)
  have "uint w = take_bit 4 (uint (at hmac (int (length hmac) - 1)))"
    by (simp add: w4 unsigned_take_bit_eq)
  then have "uint w < 2 ^ 4"
    by (metis take_bit_int_less_exp)
  moreover have "truncation_offset hmac = sint w"
    unfolding truncation_offset_def w_def ..
  ultimately show ?thesis
    by (simp add: s)
qed

lemma truncation_value_range: "0 \<le> truncation_value hmac \<and> truncation_value hmac < 2 ^ 31"
proof -
  define off where "off = truncation_offset hmac"
  define w where "w = push_bit 24 (at hmac off AND 0x7f)
         OR push_bit 16 (at hmac (off + 1) AND 0xff)
         OR push_bit 8 (at hmac (off + 2) AND 0xff)
         OR (at hmac (off + 3) AND 0xff)"
  have m: "(0x7f :: int32) = mask 7" "(0xff :: int32) = mask 8"
    by (simp_all add: mask_eq_exp_minus_1)
  have "\<not> bit w 31"
    by (simp add: w_def m bit_simps)
  then have "sint w = uint w" "uint w < 2 ^ 31"
    by (rule sint_eq_uint_31)+
  moreover have "truncation_value hmac = sint w"
    unfolding truncation_value_def Let_def w_def off_def ..
  ultimately show ?thesis
    by simp
qed

lemma at_in_range: "0 \<le> i \<Longrightarrow> i < int (length a) \<Longrightarrow> at a i = ucast (a ! nat i)"
  by (simp add: at_def)

lemma js_rem_nonneg: "0 \<le> a \<Longrightarrow> 0 < b \<Longrightarrow> js_rem a b = a mod b"
  by (cases "a = 0") (simp_all add: js_rem_def)

lemma length_decimal: "0 < d \<Longrightarrow> n < 10 ^ d \<Longrightarrow> length (decimal n) \<le> d"
proof (induction n arbitrary: d rule: decimal.induct)
  case (1 n)
  show ?case
  proof (cases "n < 10")
    case True
    with "1.prems" show ?thesis
      by (subst decimal.simps) simp
  next
    case False
    obtain e where d: "d = Suc e"
      using "1.prems"(1) by (cases d) auto
    with False "1.prems"(2) have e: "0 < e"
      by (cases e) auto
    from "1.prems"(2) have "n div 10 < 10 ^ e"
      by (simp add: d less_mult_imp_div_less mult.commute)
    from "1.IH" [OF False e this] False show ?thesis
      by (subst decimal.simps) (simp add: d)
  qed
qed

lemma replicate_numeral: "replicate (numeral k) x = x # replicate (pred_numeral k) x"
  by (simp add: numeral_eq_Suc)

lemma length_padStart: "length s \<le> n \<Longrightarrow> length (padStart n c s) = n"
  by (simp add: padStart_def)

lemma js_rem_range: "0 \<le> a \<Longrightarrow> 0 < b \<Longrightarrow> 0 \<le> js_rem a b \<and> js_rem a b < b"
  by (simp add: js_rem_nonneg)

lemma length_toString:
  assumes "0 < d" and "0 \<le> v" and "v < 10 ^ d"
  shows "length (toString v) \<le> d"
proof -
  from assms(2,3) have "nat v < 10 ^ d"
    by (simp add: nat_less_iff)
  with assms(1) have "length (decimal (nat v)) \<le> d"
    by (rule length_decimal)
  with assms(2) show ?thesis
    by (simp add: toString_def)
qed

text \<open>The two outcomes of \<^const>\<open>generateTOTP\<close>: the key is empty, or a code is rendered.\<close>

lemma generateTOTP_cases:
  "generateTOTP s d p now =
     (if base32Decode s = [] then Inl DataError
      else Inr (padStart d (CHR ''0'')
        (toString (js_rem (truncation_value
           (hmac_sha1 (base32Decode s) (fill_timeBuffer 8 (time_step now p) (replicate 8 0))))
           (10 ^ d)))))"
  by (simp add: generateTOTP_def hmacSha1_def Let_def)

subsection \<open>Reading a decimal string\<close>

lemma digit_char:
  assumes "k < 10"
  shows "is_digit (''0123456789'' ! k)" and "char_code (''0123456789'' ! k) - 48 = k"
proof -
  from assms have "k < Suc (Suc (Suc (Suc (Suc (Suc (Suc (Suc (Suc (Suc 0)))))))))"
    by simp
  then consider "k = 0" | "k = 1" | "k = 2" | "k = 3" | "k = 4"
    | "k = 5" | "k = 6" | "k = 7" | "k = 8" | "k = 9"
    by (auto simp: less_Suc_eq)
  then have "is_digit (''0123456789'' ! k) \<and> char_code (''0123456789'' ! k) - 48 = k"
    by cases (simp_all add: is_digit_def char_code_def)
  then show "is_digit (''0123456789'' ! k)" and "char_code (''0123456789'' ! k) - 48 = k"
    by simp_all
qed

lemma digits_value_snoc: "digits_value (ds @ [c]) = 10 * digits_value ds + (char_code c - 48)"
  by (simp add: digits_value_def)

lemma decimal_digits: "list_all is_digit (decimal n) \<and> digits_value (decimal n) = n"
proof (induction n rule: decimal.induct)
  case (1 n)
  show ?case
  proof (cases "n < 10")
    case True
    then show ?thesis
      by (subst (1 2) decimal.simps) (simp add: digit_char digits_value_def)
  next
    case False
    have "n mod 10 < 10"
      by simp
    with "1.IH" [OF False] False show ?thesis
      by (subst (1 2) decimal.simps) (simp add: digit_char digits_value_snoc)
  qed
qed

lemma digits_value_zeros: "digits_value (replicate k (CHR ''0'') @ ds) = digits_value ds"
proof -
  have "foldl (\<lambda>a c. 10 * a + (char_code c - 48)) 0 (replicate k (CHR ''0'')) = 0"
    by (induction k) (simp_all add: char_code_def)
  then show ?thesis
    by (simp add: digits_value_def)
qed

lemma list_all_zeros: "list_all is_digit (replicate k (CHR ''0''))"
  by (induction k) (simp_all add: is_digit_def)

lemma padStart_decimal:
  "list_all is_digit (padStart d (CHR ''0'') (decimal n))
   \<and> digits_value (padStart d (CHR ''0'') (decimal n)) = n"
  by (simp add: padStart_def digits_value_zeros decimal_digits list_all_zeros)

section \<open>Evaluating SHA-1 and HMAC\<close>

lemma steps_numeral:
  "steps p (numeral k) (w, (a, b, c, d, e)) =
     steps p (pred_numeral k)
       (tl w @ [rotl 1 (w ! 13 XOR w ! 8 XOR w ! 2 XOR w ! 0)],
        (rotl 5 a + sha1_f p b c d + e + sha1_k p + hd w, a, rotl 30 b, c, d))"
  by (simp add: numeral_eq_Suc)

lemma steps_add: "steps p (m + n) x = steps p n (steps p m x)"
proof (induction m arbitrary: x)
  case 0
  then show ?case by simp
next
  case (Suc m)
  obtain w a b c d e where x: "x = (w, (a, b, c, d, e))"
    by (metis prod_cases5 surj_pair)
  show ?case
    unfolding x by (simp add: Suc.IH)
qed

lemma steps_20: "steps p 20 x = steps p 10 (steps p 10 x)"
  using steps_add [of p 10 10 x] by simp

lemma length_be64: "length (be64 n) = 8"
  by (simp add: be64_def)

lemma length_digest_of: "length (digest_of s) = 20"
  by (cases s) (simp add: digest_of_def bytes_of_def)

lemma blocks_2: "blocks 2 m = [take 64 m, take 64 (drop 64 m)]"
  by (simp add: numeral_2_eq_2)

text \<open>A message of one full block and at most 55 further bytes is hashed in two blocks.\<close>

lemma sha1_two_blocks:
  assumes "length b = 64" and "length m \<le> 55"
  shows "sha1 (b @ m) =
    digest_of (compress (compress sha1_init b)
      (m @ 0x80 # replicate (55 - length m) 0 @ be64 (512 + 8 * length m)))"
proof -
  have "55 - length m < 64"
    by (rule le_less_trans [OF diff_le_self]) simp
  then have "(64 + (55 - length m)) mod 64 = 55 - length m"
    by (simp only: mod_add_self1 mod_less)
  moreover have "119 - length m = 64 + (55 - length m)"
    using assms(2) by simp
  moreover have "length m mod 64 = length m"
    using assms(2) by simp
  ultimately have r: "(119 - length m mod 64) mod 64 = 55 - length m"
    by (simp only:)
  have p: "sha1_pad (b @ m) = b @ (m @ 0x80 # replicate (55 - length m) 0 @ be64 (512 + 8 * length m))"
    by (simp add: sha1_pad_def assms(1) r)
  have l: "length (sha1_pad (b @ m)) div 64 = 2"
    unfolding p using assms by (simp add: length_be64)
  show ?thesis
    unfolding sha1_def Let_def l blocks_2
    unfolding p using assms by (simp add: length_be64)
qed

text \<open>HMAC with a key of at most one block and a message of at most 55 bytes.\<close>

lemma hmac_sha1_short:
  assumes "length key \<le> 64" and "length msg \<le> 55"
  shows "hmac_sha1 key msg =
    digest_of (compress (compress sha1_init (map (\<lambda>b. b XOR 0x5c) (key @ replicate (64 - length key) 0)))
      (digest_of (compress (compress sha1_init (map (\<lambda>b. b XOR 0x36) (key @ replicate (64 - length key) 0)))
         (msg @ 0x80 # replicate (55 - length msg) 0 @ be64 (512 + 8 * length msg)))
       @ 0x80 # replicate 35 0 @ be64 672))"
proof -
  define k where "k = key @ replicate (64 - length key) 0"
  define inner where "inner = compress (compress sha1_init (map (\<lambda>b. b XOR 0x36) k))
    (msg @ 0x80 # replicate (55 - length msg) 0 @ be64 (512 + 8 * length msg))"
  have len: "length (map f k) = 64" for f :: "byte \<Rightarrow> byte"
    using assms(1) by (simp add: k_def)
  have k0: "(if length key > 64 then sha1 key else key) = key"
    using assms(1) by simp
  have i: "sha1 (map (\<lambda>b. b XOR 0x36) k @ msg) = digest_of inner"
    unfolding inner_def by (rule sha1_two_blocks [OF len assms(2)])
  have o: "sha1 (map (\<lambda>b. b XOR 0x5c) k @ digest_of inner) =
      digest_of (compress (compress sha1_init (map (\<lambda>b. b XOR 0x5c) k))
        (digest_of inner @ 0x80 # replicate 35 0 @ be64 672))"
    using sha1_two_blocks [OF len, of "digest_of inner" "\<lambda>b. b XOR 0x5c"]
    by (simp add: length_digest_of)
  show ?thesis
    unfolding hmac_sha1_def Let_def k0
    unfolding k_def [symmetric] i o
    unfolding inner_def ..
qed

lemma length_hmac_sha1: "length (hmac_sha1 key msg) = 20"
  by (simp add: hmac_sha1_def sha1_def Let_def length_digest_of)

subsection \<open>The test key of RFC 6238\<close>

text \<open>
  The key is the ASCII text \<^verbatim>\<open>12345678901234567890\<close>. Each compression is evaluated in
  eight runs of ten steps.
\<close>

lemma rfc_ipad_words:
  "words_of
     [0x07, 0x04, 0x05, 0x02, 0x03, 0x00, 0x01, 0x0E, 0x0F, 0x06, 0x07, 0x04, 0x05, 0x02, 0x03, 0x00,
     0x01, 0x0E, 0x0F, 0x06, 0x36, 0x36, 0x36, 0x36, 0x36, 0x36, 0x36, 0x36, 0x36, 0x36, 0x36, 0x36,
     0x36, 0x36, 0x36, 0x36, 0x36, 0x36, 0x36, 0x36, 0x36, 0x36, 0x36, 0x36, 0x36, 0x36, 0x36, 0x36,
     0x36, 0x36, 0x36, 0x36, 0x36, 0x36, 0x36, 0x36, 0x36, 0x36, 0x36, 0x36, 0x36, 0x36, 0x36, 0x36]
   = [0x07040502, 0x0300010E, 0x0F060704, 0x05020300, 0x010E0F06, 0x36363636, 0x36363636, 0x36363636,
     0x36363636, 0x36363636, 0x36363636, 0x36363636, 0x36363636, 0x36363636, 0x36363636, 0x36363636]"
  by (simp add: be32_def)

lemma rfc_ipad_steps1:
  "steps Ch 10
     ([0x07040502, 0x0300010E, 0x0F060704, 0x05020300, 0x010E0F06, 0x36363636, 0x36363636, 0x36363636,
      0x36363636, 0x36363636, 0x36363636, 0x36363636, 0x36363636, 0x36363636, 0x36363636, 0x36363636],
      (0x67452301, 0xEFCDAB89, 0x98BADCFE, 0x10325476, 0xC3D2E1F0))
   = ([0x36363636, 0x36363636, 0x36363636, 0x36363636, 0x36363636, 0x36363636, 0x1004040C, 0x0C04041C,
      0x1C101004, 0x2A0C0E18, 0x1A141634, 0x544C4C64, 0x3874705C, 0x58444004, 0x889090D0, 0x68E0E880],
      (0xF67942C0, 0xE47C0E51, 0x921E2D94, 0x33502F55, 0x82B8371D))"
  by (simp add: steps_numeral rotl_def)

lemma rfc_ipad_steps2:
  "steps Ch 10
     ([0x36363636, 0x36363636, 0x36363636, 0x36363636, 0x36363636, 0x36363636, 0x1004040C, 0x0C04041C,
      0x1C101004, 0x2A0C0E18, 0x1A141634, 0x544C4C64, 0x3874705C, 0x58444004, 0x889090D0, 0x68E0E880],
      (0xF67942C0, 0xE47C0E51, 0x921E2D94, 0x33502F55, 0x82B8371D))
   = ([0x1A141634, 0x544C4C64, 0x3874705C, 0x58444004, 0x889090D0, 0x68E0E880, 0x88A8A000, 0x45393D91,
      0xE5E9FD68, 0xB9C9D8C9, 0xB6FEFFEE, 0x0F3F1E8D, 0x7A9AB822, 0xF02C3AD5, 0x0327717B, 0x83C78F9E],
      (0xF85A57FC, 0xAC591E50, 0xEFBFCF47, 0x64CCAF35, 0x3694E1FA))"
  by (simp add: steps_numeral rotl_def)

lemma rfc_ipad_steps3:
  "steps Parity1 10
     ([0x1A141634, 0x544C4C64, 0x3874705C, 0x58444004, 0x889090D0, 0x68E0E880, 0x88A8A000, 0x45393D91,
      0xE5E9FD68, 0xB9C9D8C9, 0xB6FEFFEE, 0x0F3F1E8D, 0x7A9AB822, 0xF02C3AD5, 0x0327717B, 0x83C78F9E],
      (0xF85A57FC, 0xAC591E50, 0xEFBFCF47, 0x64CCAF35, 0x3694E1FA))
   = ([0xB6FEFFEE, 0x0F3F1E8D, 0x7A9AB822, 0xF02C3AD5, 0x0327717B, 0x83C78F9E, 0x6F4B43AA, 0x6DCD4BA5,
      0x0BBB21F9, 0xA1A1EB46, 0x2EDF86AE, 0xAC9D9C7B, 0x9F8F8EAB, 0xA3D1D8D0, 0x2183BAAF, 0x89680694],
      (0xFCC72A87, 0x7F962CE1, 0x3CA16EA6, 0x83A321E5, 0x32FAA273))"
  by (simp add: steps_numeral rotl_def)

lemma rfc_ipad_steps4:
  "steps Parity1 10
     ([0xB6FEFFEE, 0x0F3F1E8D, 0x7A9AB822, 0xF02C3AD5, 0x0327717B, 0x83C78F9E, 0x6F4B43AA, 0x6DCD4BA5,
      0x0BBB21F9, 0xA1A1EB46, 0x2EDF86AE, 0xAC9D9C7B, 0x9F8F8EAB, 0xA3D1D8D0, 0x2183BAAF, 0x89680694],
      (0xFCC72A87, 0x7F962CE1, 0x3CA16EA6, 0x83A321E5, 0x32FAA273))
   = ([0x2EDF86AE, 0xAC9D9C7B, 0x9F8F8EAB, 0xA3D1D8D0, 0x2183BAAF, 0x89680694, 0xC81D7DCA, 0xFE62EB62,
      0xBC1492C7, 0x2ED6A9F4, 0x1B02AE30, 0xE39F1C59, 0xD74AE210, 0xBC0C108E, 0x1DCD8D88, 0x4828FC9E],
      (0x0EC3EEBD, 0x519EDDBB, 0xFACDC1A7, 0xD89B4586, 0x71D10BCB))"
  by (simp add: steps_numeral rotl_def)

lemma rfc_ipad_steps5:
  "steps Maj 10
     ([0x2EDF86AE, 0xAC9D9C7B, 0x9F8F8EAB, 0xA3D1D8D0, 0x2183BAAF, 0x89680694, 0xC81D7DCA, 0xFE62EB62,
      0xBC1492C7, 0x2ED6A9F4, 0x1B02AE30, 0xE39F1C59, 0xD74AE210, 0xBC0C108E, 0x1DCD8D88, 0x4828FC9E],
      (0x0EC3EEBD, 0x519EDDBB, 0xFACDC1A7, 0xD89B4586, 0x71D10BCB))
   = ([0x1B02AE30, 0xE39F1C59, 0xD74AE210, 0xBC0C108E, 0x1DCD8D88, 0x4828FC9E, 0x62911499, 0x78AEC1AE,
      0xDA4CCD55, 0x576FAD09, 0x8CF5C9B6, 0x2294605A, 0x7D579F18, 0x28D2EF7C, 0xCE269069, 0x9161D637],
      (0xBD2EE6A3, 0x6A226660, 0x816D572E, 0x7BCB9EDB, 0x057FCE52))"
  by (simp add: steps_numeral rotl_def)

lemma rfc_ipad_steps6:
  "steps Maj 10
     ([0x1B02AE30, 0xE39F1C59, 0xD74AE210, 0xBC0C108E, 0x1DCD8D88, 0x4828FC9E, 0x62911499, 0x78AEC1AE,
      0xDA4CCD55, 0x576FAD09, 0x8CF5C9B6, 0x2294605A, 0x7D579F18, 0x28D2EF7C, 0xCE269069, 0x9161D637],
      (0xBD2EE6A3, 0x6A226660, 0x816D572E, 0x7BCB9EDB, 0x057FCE52))
   = ([0x8CF5C9B6, 0x2294605A, 0x7D579F18, 0x28D2EF7C, 0xCE269069, 0x9161D637, 0x7DACDC12, 0x8DB4636F,
      0xAE26E033, 0x5638A0B1, 0x1F7ECACD, 0x6CE464FF, 0x4187D228, 0x43BCE0BB, 0x8FE3781C, 0x7390F829],
      (0x2E104B6C, 0xB30FA3F7, 0xEDADAA36, 0xDB5E5B1E, 0x9B648C86))"
  by (simp add: steps_numeral rotl_def)

lemma rfc_ipad_steps7:
  "steps Parity2 10
     ([0x8CF5C9B6, 0x2294605A, 0x7D579F18, 0x28D2EF7C, 0xCE269069, 0x9161D637, 0x7DACDC12, 0x8DB4636F,
      0xAE26E033, 0x5638A0B1, 0x1F7ECACD, 0x6CE464FF, 0x4187D228, 0x43BCE0BB, 0x8FE3781C, 0x7390F829],
      (0x2E104B6C, 0xB30FA3F7, 0xEDADAA36, 0xDB5E5B1E, 0x9B648C86))
   = ([0x1F7ECACD, 0x6CE464FF, 0x4187D228, 0x43BCE0BB, 0x8FE3781C, 0x7390F829, 0x3870AC4C, 0xA73AAF17,
      0xBF3E7B2B, 0xDA4FE3F1, 0xAA6E6288, 0xC0AE5D91, 0x0C4D4F99, 0x04E4B2FE, 0x930DB646, 0x23564981],
      (0x7116C769, 0xA220BFC4, 0x0A9379E2, 0xE37E4C48, 0xD368D37F))"
  by (simp add: steps_numeral rotl_def)

lemma rfc_ipad_steps8:
  "steps Parity2 10
     ([0x1F7ECACD, 0x6CE464FF, 0x4187D228, 0x43BCE0BB, 0x8FE3781C, 0x7390F829, 0x3870AC4C, 0xA73AAF17,
      0xBF3E7B2B, 0xDA4FE3F1, 0xAA6E6288, 0xC0AE5D91, 0x0C4D4F99, 0x04E4B2FE, 0x930DB646, 0x23564981],
      (0x7116C769, 0xA220BFC4, 0x0A9379E2, 0xE37E4C48, 0xD368D37F))
   = ([0xAA6E6288, 0xC0AE5D91, 0x0C4D4F99, 0x04E4B2FE, 0x930DB646, 0x23564981, 0xCA47A261, 0xCC35A3E6,
      0x8EB9027A, 0x758BCEC4, 0xEFD6705E, 0xBDEFCF74, 0xC3915FCA, 0x63EAEA73, 0xC5F0E96C, 0x2A8A8498],
      (0x6482E98B, 0x05CC3723, 0x24FDEB34, 0xCA636D4D, 0x34954E35))"
  by (simp add: steps_numeral rotl_def)

lemma rfc_ipad:
  "compress (0x67452301, 0xEFCDAB89, 0x98BADCFE, 0x10325476, 0xC3D2E1F0)
     [0x07, 0x04, 0x05, 0x02, 0x03, 0x00, 0x01, 0x0E, 0x0F, 0x06, 0x07, 0x04, 0x05, 0x02, 0x03, 0x00,
     0x01, 0x0E, 0x0F, 0x06, 0x36, 0x36, 0x36, 0x36, 0x36, 0x36, 0x36, 0x36, 0x36, 0x36, 0x36, 0x36,
     0x36, 0x36, 0x36, 0x36, 0x36, 0x36, 0x36, 0x36, 0x36, 0x36, 0x36, 0x36, 0x36, 0x36, 0x36, 0x36,
     0x36, 0x36, 0x36, 0x36, 0x36, 0x36, 0x36, 0x36, 0x36, 0x36, 0x36, 0x36, 0x36, 0x36, 0x36, 0x36]
   = (0xCBC80C8C, 0xF599E2AC, 0xBDB8C832, 0xDA95C1C3, 0xF8683025)"
  unfolding compress_def rfc_ipad_words steps_20
    rfc_ipad_steps1 rfc_ipad_steps2 rfc_ipad_steps3 rfc_ipad_steps4
    rfc_ipad_steps5 rfc_ipad_steps6 rfc_ipad_steps7 rfc_ipad_steps8
  by (simp add: add_state_def)

lemma rfc_opad_words:
  "words_of
     [0x6D, 0x6E, 0x6F, 0x68, 0x69, 0x6A, 0x6B, 0x64, 0x65, 0x6C, 0x6D, 0x6E, 0x6F, 0x68, 0x69, 0x6A,
     0x6B, 0x64, 0x65, 0x6C, 0x5C, 0x5C, 0x5C, 0x5C, 0x5C, 0x5C, 0x5C, 0x5C, 0x5C, 0x5C, 0x5C, 0x5C,
     0x5C, 0x5C, 0x5C, 0x5C, 0x5C, 0x5C, 0x5C, 0x5C, 0x5C, 0x5C, 0x5C, 0x5C, 0x5C, 0x5C, 0x5C, 0x5C,
     0x5C, 0x5C, 0x5C, 0x5C, 0x5C, 0x5C, 0x5C, 0x5C, 0x5C, 0x5C, 0x5C, 0x5C, 0x5C, 0x5C, 0x5C, 0x5C]
   = [0x6D6E6F68, 0x696A6B64, 0x656C6D6E, 0x6F68696A, 0x6B64656C, 0x5C5C5C5C, 0x5C5C5C5C, 0x5C5C5C5C,
     0x5C5C5C5C, 0x5C5C5C5C, 0x5C5C5C5C, 0x5C5C5C5C, 0x5C5C5C5C, 0x5C5C5C5C, 0x5C5C5C5C, 0x5C5C5C5C]"
  by (simp add: be32_def)

lemma rfc_opad_steps1:
  "steps Ch 10
     ([0x6D6E6F68, 0x696A6B64, 0x656C6D6E, 0x6F68696A, 0x6B64656C, 0x5C5C5C5C, 0x5C5C5C5C, 0x5C5C5C5C,
      0x5C5C5C5C, 0x5C5C5C5C, 0x5C5C5C5C, 0x5C5C5C5C, 0x5C5C5C5C, 0x5C5C5C5C, 0x5C5C5C5C, 0x5C5C5C5C],
      (0x67452301, 0xEFCDAB89, 0x98BADCFE, 0x10325476, 0xC3D2E1F0))
   = ([0x5C5C5C5C, 0x5C5C5C5C, 0x5C5C5C5C, 0x5C5C5C5C, 0x5C5C5C5C, 0x5C5C5C5C, 0x1004040C, 0x0C04041C,
      0x1C101004, 0xFED8DACC, 0xCEC0C2E0, 0x809898B0, 0x45090D21, 0x25393D79, 0x21393979, 0x921A127A],
      (0xD5C18836, 0x6BB7FD64, 0x9BEE87C5, 0x7E7C565E, 0xF994B38C))"
  by (simp add: steps_numeral rotl_def)

lemma rfc_opad_steps2:
  "steps Ch 10
     ([0x5C5C5C5C, 0x5C5C5C5C, 0x5C5C5C5C, 0x5C5C5C5C, 0x5C5C5C5C, 0x5C5C5C5C, 0x1004040C, 0x0C04041C,
      0x1C101004, 0xFED8DACC, 0xCEC0C2E0, 0x809898B0, 0x45090D21, 0x25393D79, 0x21393979, 0x921A127A],
      (0xD5C18836, 0x6BB7FD64, 0x9BEE87C5, 0x7E7C565E, 0xF994B38C))
   = ([0xCEC0C2E0, 0x809898B0, 0x45090D21, 0x25393D79, 0x21393979, 0x921A127A, 0x72525AFA, 0xBFC3C76B,
      0xB9B5A134, 0xE5958495, 0x6D252435, 0x99A9881B, 0x917153C9, 0x1BC7D13E, 0x7256000A, 0xA1E5ADBC],
      (0xE391130D, 0xBF92A45C, 0xD985BBBC, 0x440CF792, 0x58046195))"
  by (simp add: steps_numeral rotl_def)

lemma rfc_opad_steps3:
  "steps Parity1 10
     ([0xCEC0C2E0, 0x809898B0, 0x45090D21, 0x25393D79, 0x21393979, 0x921A127A, 0x72525AFA, 0xBFC3C76B,
      0xB9B5A134, 0xE5958495, 0x6D252435, 0x99A9881B, 0x917153C9, 0x1BC7D13E, 0x7256000A, 0xA1E5ADBC],
      (0xE391130D, 0xBF92A45C, 0xD985BBBC, 0x440CF792, 0x58046195))
   = ([0x6D252435, 0x99A9881B, 0x917153C9, 0x1BC7D13E, 0x7256000A, 0xA1E5ADBC, 0x53777F96, 0x64C442AC,
      0x51E17BA3, 0xFBFBB11C, 0x4DBCE5CD, 0xCFFEFF18, 0x849495B0, 0x6C1E171F, 0x90320B1E, 0x38D9B725],
      (0xC492D61D, 0x5C8B1278, 0xA6EA1781, 0xFB544BD3, 0x40E06348))"
  by (simp add: steps_numeral rotl_def)

lemma rfc_opad_steps4:
  "steps Parity1 10
     ([0x6D252435, 0x99A9881B, 0x917153C9, 0x1BC7D13E, 0x7256000A, 0xA1E5ADBC, 0x53777F96, 0x64C442AC,
      0x51E17BA3, 0xFBFBB11C, 0x4DBCE5CD, 0xCFFEFF18, 0x849495B0, 0x6C1E171F, 0x90320B1E, 0x38D9B725],
      (0xC492D61D, 0x5C8B1278, 0xA6EA1781, 0xFB544BD3, 0x40E06348))
   = ([0x4DBCE5CD, 0xCFFEFF18, 0x849495B0, 0x6C1E171F, 0x90320B1E, 0x38D9B725, 0x83563681, 0xD34FC64F,
      0x2C840257, 0xED156A37, 0xEDF458C6, 0x0B77F4B1, 0xFF62CA38, 0x942438A6, 0x28F8B8BD, 0x305084E6],
      (0x1100B3EC, 0xFD16397C, 0xBE236441, 0x71D3058E, 0xF18D8687))"
  by (simp add: steps_numeral rotl_def)

lemma rfc_opad_steps5:
  "steps Maj 10
     ([0x4DBCE5CD, 0xCFFEFF18, 0x849495B0, 0x6C1E171F, 0x90320B1E, 0x38D9B725, 0x83563681, 0xD34FC64F,
      0x2C840257, 0xED156A37, 0xEDF458C6, 0x0B77F4B1, 0xFF62CA38, 0x942438A6, 0x28F8B8BD, 0x305084E6],
      (0x1100B3EC, 0xFD16397C, 0xBE236441, 0x71D3058E, 0xF18D8687))
   = ([0xEDF458C6, 0x0B77F4B1, 0xFF62CA38, 0x942438A6, 0x28F8B8BD, 0x305084E6, 0xE3109518, 0xCC1A751A,
      0x9204851D, 0x79418327, 0x4039057A, 0xDB6D99A3, 0xFCD61E99, 0x9C665BC8, 0xF21AAC55, 0xAD5DEA0B],
      (0x16B96C1F, 0x73A6AF7D, 0x733D08A3, 0x3474A256, 0xF8F8B11D))"
  by (simp add: steps_numeral rotl_def)

lemma rfc_opad_steps6:
  "steps Maj 10
     ([0xEDF458C6, 0x0B77F4B1, 0xFF62CA38, 0x942438A6, 0x28F8B8BD, 0x305084E6, 0xE3109518, 0xCC1A751A,
      0x9204851D, 0x79418327, 0x4039057A, 0xDB6D99A3, 0xFCD61E99, 0x9C665BC8, 0xF21AAC55, 0xAD5DEA0B],
      (0x16B96C1F, 0x73A6AF7D, 0x733D08A3, 0x3474A256, 0xF8F8B11D))
   = ([0x4039057A, 0xDB6D99A3, 0xFCD61E99, 0x9C665BC8, 0xF21AAC55, 0xAD5DEA0B, 0x39E89856, 0x2811C6CA,
      0x75FD3BE8, 0x8DE37B6A, 0x3E5FEBEC, 0x2BA323B8, 0x1DDB8E74, 0x4CB3EFB4, 0x80EC7713, 0x2FCCA475],
      (0x181F6F18, 0x77F8D026, 0x8EFE08BB, 0xF180D7DA, 0x5578CCEF))"
  by (simp add: steps_numeral rotl_def)

lemma rfc_opad_steps7:
  "steps Parity2 10
     ([0x4039057A, 0xDB6D99A3, 0xFCD61E99, 0x9C665BC8, 0xF21AAC55, 0xAD5DEA0B, 0x39E89856, 0x2811C6CA,
      0x75FD3BE8, 0x8DE37B6A, 0x3E5FEBEC, 0x2BA323B8, 0x1DDB8E74, 0x4CB3EFB4, 0x80EC7713, 0x2FCCA475],
      (0x181F6F18, 0x77F8D026, 0x8EFE08BB, 0xF180D7DA, 0x5578CCEF))
   = ([0x3E5FEBEC, 0x2BA323B8, 0x1DDB8E74, 0x4CB3EFB4, 0x80EC7713, 0x2FCCA475, 0x0B439F7F, 0x94099C24,
      0x3EBFFAAA, 0x23B61A08, 0x84404CA6, 0xEE8073BF, 0xDE9F9D4B, 0x1CFCAAE6, 0x5CC27989, 0xD9ACB37B],
      (0xFE8DEBE3, 0xC01F71B4, 0xAA63C338, 0x7214E196, 0xB3E76A52))"
  by (simp add: steps_numeral rotl_def)

lemma rfc_opad_steps8:
  "steps Parity2 10
     ([0x3E5FEBEC, 0x2BA323B8, 0x1DDB8E74, 0x4CB3EFB4, 0x80EC7713, 0x2FCCA475, 0x0B439F7F, 0x94099C24,
      0x3EBFFAAA, 0x23B61A08, 0x84404CA6, 0xEE8073BF, 0xDE9F9D4B, 0x1CFCAAE6, 0x5CC27989, 0xD9ACB37B],
      (0xFE8DEBE3, 0xC01F71B4, 0xAA63C338, 0x7214E196, 0xB3E76A52))
   = ([0x84404CA6, 0xEE8073BF, 0xDE9F9D4B, 0x1CFCAAE6, 0x5CC27989, 0xD9ACB37B, 0x038E6BA8, 0x30C95F1A,
      0x81B60D75, 0x1CE2A7AD, 0xCBF2547A, 0x4D1F3F84, 0xEBB977E2, 0x4BC2C25B, 0xE8DDC441, 0x2C8C829E],
      (0x31789ACC, 0x6912D075, 0x14A200EC, 0x2A8DEE95, 0x3A3D8635))"
  by (simp add: steps_numeral rotl_def)

lemma rfc_opad:
  "compress (0x67452301, 0xEFCDAB89, 0x98BADCFE, 0x10325476, 0xC3D2E1F0)
     [0x6D, 0x6E, 0x6F, 0x68, 0x69, 0x6A, 0x6B, 0x64, 0x65, 0x6C, 0x6D, 0x6E, 0x6F, 0x68, 0x69, 0x6A,
     0x6B, 0x64, 0x65, 0x6C, 0x5C, 0x5C, 0x5C, 0x5C, 0x5C, 0x5C, 0x5C, 0x5C, 0x5C, 0x5C, 0x5C, 0x5C,
     0x5C, 0x5C, 0x5C, 0x5C, 0x5C, 0x5C, 0x5C, 0x5C, 0x5C, 0x5C, 0x5C, 0x5C, 0x5C, 0x5C, 0x5C, 0x5C,
     0x5C, 0x5C, 0x5C, 0x5C, 0x5C, 0x5C, 0x5C, 0x5C, 0x5C, 0x5C, 0x5C, 0x5C, 0x5C, 0x5C, 0x5C, 0x5C]
   = (0x98BDBDCD, 0x58E07BFE, 0xAD5CDDEA, 0x3AC0430B, 0xFE106825)"
  unfolding compress_def rfc_opad_words steps_20
    rfc_opad_steps1 rfc_opad_steps2 rfc_opad_steps3 rfc_opad_steps4
    rfc_opad_steps5 rfc_opad_steps6 rfc_opad_steps7 rfc_opad_steps8
  by (simp add: add_state_def)

lemma rfc_inner_t0_words:
  "words_of
     [0x00, 0x00, 0x00, 0x00, 0x00, 0x00, 0x00, 0x00, 0x80, 0x00, 0x00, 0x00, 0x00, 0x00, 0x00, 0x00,
     0x00, 0x00, 0x00, 0x00, 0x00, 0x00, 0x00, 0x00, 0x00, 0x00, 0x00, 0x00, 0x00, 0x00, 0x00, 0x00,
     0x00, 0x00, 0x00, 0x00, 0x00, 0x00, 0x00, 0x00, 0x00, 0x00, 0x00, 0x00, 0x00, 0x00, 0x00, 0x00,
     0x00, 0x00, 0x00, 0x00, 0x00, 0x00, 0x00, 0x00, 0x00, 0x00, 0x00, 0x00, 0x00, 0x00, 0x02, 0x40]
   = [0x00000000, 0x00000000, 0x80000000, 0x00000000, 0x00000000, 0x00000000, 0x00000000, 0x00000000,
     0x00000000, 0x00000000, 0x00000000, 0x00000000, 0x00000000, 0x00000000, 0x00000000, 0x00000240]"
  by (simp add: be32_def)

lemma rfc_inner_t0_steps1:
  "steps Ch 10
     ([0x00000000, 0x00000000, 0x80000000, 0x00000000, 0x00000000, 0x00000000, 0x00000000, 0x00000000,
      0x00000000, 0x00000000, 0x00000000, 0x00000000, 0x00000000, 0x00000000, 0x00000000, 0x00000240],
      (0xCBC80C8C, 0xF599E2AC, 0xBDB8C832, 0xDA95C1C3, 0xF8683025))
   = ([0x00000000, 0x00000000, 0x00000000, 0x00000000, 0x00000000, 0x00000240, 0x00000001, 0x00000000,
      0x00000481, 0x00000002, 0x00000000, 0x00000902, 0x00000004, 0x00000480, 0x00001206, 0x00000008],
      (0x024011F6, 0x8EF32014, 0x5EBD6ED7, 0xA5B493B6, 0x615C1105))"
  by (simp add: steps_numeral rotl_def)

lemma rfc_inner_t0_steps2:
  "steps Ch 10
     ([0x00000000, 0x00000000, 0x00000000, 0x00000000, 0x00000000, 0x00000240, 0x00000001, 0x00000000,
      0x00000481, 0x00000002, 0x00000000, 0x00000902, 0x00000004, 0x00000480, 0x00001206, 0x00000008],
      (0x024011F6, 0x8EF32014, 0x5EBD6ED7, 0xA5B493B6, 0x615C1105))
   = ([0x00000000, 0x00000902, 0x00000004, 0x00000480, 0x00001206, 0x00000008, 0x00000002, 0x00002408,
      0x00000010, 0x00001680, 0x0000481A, 0x00000DA0, 0x0000000C, 0x00009020, 0x00001246, 0x00005A08],
      (0x4806A9A9, 0x5EF4E186, 0xB7EC0AAA, 0xB4294F8E, 0xB1943750))"
  by (simp add: steps_numeral rotl_def)

lemma rfc_inner_t0_steps3:
  "steps Parity1 10
     ([0x00000000, 0x00000902, 0x00000004, 0x00000480, 0x00001206, 0x00000008, 0x00000002, 0x00002408,
      0x00000010, 0x00001680, 0x0000481A, 0x00000DA0, 0x0000000C, 0x00009020, 0x00001246, 0x00005A08],
      (0x4806A9A9, 0x5EF4E186, 0xB7EC0AAA, 0xB4294F8E, 0xB1943750))
   = ([0x0000481A, 0x00000DA0, 0x0000000C, 0x00009020, 0x00001246, 0x00005A08, 0x00012068, 0x00001288,
      0x00000020, 0x00025280, 0x00000100, 0x00016800, 0x000481A8, 0x0000D300, 0x000000C4, 0x00091000],
      (0xBB45A32E, 0x0E73F322, 0xB7C2DCBB, 0xC4B4A97A, 0x35D334E4))"
  by (simp add: steps_numeral rotl_def)

lemma rfc_inner_t0_steps4:
  "steps Parity1 10
     ([0x0000481A, 0x00000DA0, 0x0000000C, 0x00009020, 0x00001246, 0x00005A08, 0x00012068, 0x00001288,
      0x00000020, 0x00025280, 0x00000100, 0x00016800, 0x000481A8, 0x0000D300, 0x000000C4, 0x00091000],
      (0xBB45A32E, 0x0E73F322, 0xB7C2DCBB, 0xC4B4A97A, 0x35D334E4))
   = ([0x00000100, 0x00016800, 0x000481A8, 0x0000D300, 0x000000C4, 0x00091000, 0x0001366C, 0x00059F88,
      0x00120694, 0x00012888, 0x0000581C, 0x00253A28, 0x00001008, 0x00161028, 0x00481AC8, 0x000D6A00],
      (0x0E830DDD, 0xEDF49A31, 0x95592F83, 0xC92985BF, 0x1142779A))"
  by (simp add: steps_numeral rotl_def)

lemma rfc_inner_t0_steps5:
  "steps Maj 10
     ([0x00000100, 0x00016800, 0x000481A8, 0x0000D300, 0x000000C4, 0x00091000, 0x0001366C, 0x00059F88,
      0x00120694, 0x00012888, 0x0000581C, 0x00253A28, 0x00001008, 0x00161028, 0x00481AC8, 0x000D6A00],
      (0x0E830DDD, 0xEDF49A31, 0x95592F83, 0xC92985BF, 0x1142779A))
   = ([0x0000581C, 0x00253A28, 0x00001008, 0x00161028, 0x00481AC8, 0x000D6A00, 0x00012C28, 0x00911280,
      0x001366E0, 0x005BAA00, 0x01206840, 0x0013F280, 0x00010060, 0x02536A80, 0x00010040, 0x01680080],
      (0xCC38F356, 0xA755055B, 0x19F1A4AE, 0x663BF780, 0x873B459C))"
  by (simp add: steps_numeral rotl_def)

lemma rfc_inner_t0_steps6:
  "steps Maj 10
     ([0x0000581C, 0x00253A28, 0x00001008, 0x00161028, 0x00481AC8, 0x000D6A00, 0x00012C28, 0x00911280,
      0x001366E0, 0x005BAA00, 0x01206840, 0x0013F280, 0x00010060, 0x02536A80, 0x00010040, 0x01680080],
      (0xCC38F356, 0xA755055B, 0x19F1A4AE, 0x663BF780, 0x873B459C))
   = ([0x01206840, 0x0013F280, 0x00010060, 0x02536A80, 0x00010040, 0x01680080, 0x048088E8, 0x00D30080,
      0x0000C400, 0x09100080, 0x01366C00, 0x059FAC00, 0x12069410, 0x0129A800, 0x00585490, 0x253B9820],
      (0x93671EBB, 0x2CF06EC6, 0x80C94671, 0x82FF4686, 0xEBAFD5EF))"
  by (simp add: steps_numeral rotl_def)

lemma rfc_inner_t0_steps7:
  "steps Parity2 10
     ([0x01206840, 0x0013F280, 0x00010060, 0x02536A80, 0x00010040, 0x01680080, 0x048088E8, 0x00D30080,
      0x0000C400, 0x09100080, 0x01366C00, 0x059FAC00, 0x12069410, 0x0129A800, 0x00585490, 0x253B9820],
      (0x93671EBB, 0x2CF06EC6, 0x80C94671, 0x82FF4686, 0xEBAFD5EF))
   = ([0x01366C00, 0x059FAC00, 0x12069410, 0x0129A800, 0x00585490, 0x253B9820, 0x00100840, 0x16119820,
      0x481BE800, 0x0D699C80, 0x012D0930, 0x91128000, 0x136309F0, 0x5BAB2220, 0x20684081, 0x13FA7AA0],
      (0x0664E720, 0x18C43C25, 0xCB74DF70, 0x10524C06, 0x20EE410E))"
  by (simp add: steps_numeral rotl_def)

lemma rfc_inner_t0_steps8:
  "steps Parity2 10
     ([0x01366C00, 0x059FAC00, 0x12069410, 0x0129A800, 0x00585490, 0x253B9820, 0x00100840, 0x16119820,
      0x481BE800, 0x0D699C80, 0x012D0930, 0x91128000, 0x136309F0, 0x5BAB2220, 0x20684081, 0x13FA7AA0],
      (0x0664E720, 0x18C43C25, 0xCB74DF70, 0x10524C06, 0x20EE410E))
   = ([0x012D0930, 0x91128000, 0x136309F0, 0x5BAB2220, 0x20684081, 0x13FA7AA0, 0x01006460, 0x536FB002,
      0x01136620, 0x6801A881, 0x8089CA44, 0xD3248800, 0x00C41080, 0x10176889, 0x36241AA1, 0x9FA17805],
      (0x3CC9CD32, 0x1421341B, 0x0AB965C1, 0x8E42A18D, 0x6E161979))"
  by (simp add: steps_numeral rotl_def)

lemma rfc_inner_t0:
  "compress (0xCBC80C8C, 0xF599E2AC, 0xBDB8C832, 0xDA95C1C3, 0xF8683025)
     [0x00, 0x00, 0x00, 0x00, 0x00, 0x00, 0x00, 0x00, 0x80, 0x00, 0x00, 0x00, 0x00, 0x00, 0x00, 0x00,
     0x00, 0x00, 0x00, 0x00, 0x00, 0x00, 0x00, 0x00, 0x00, 0x00, 0x00, 0x00, 0x00, 0x00, 0x00, 0x00,
     0x00, 0x00, 0x00, 0x00, 0x00, 0x00, 0x00, 0x00, 0x00, 0x00, 0x00, 0x00, 0x00, 0x00, 0x00, 0x00,
     0x00, 0x00, 0x00, 0x00, 0x00, 0x00, 0x00, 0x00, 0x00, 0x00, 0x00, 0x00, 0x00, 0x00, 0x02, 0x40]
   = (0x0891D9BE, 0x09BB16C7, 0xC8722DF3, 0x68D86350, 0x667E499E)"
  unfolding compress_def rfc_inner_t0_words steps_20
    rfc_inner_t0_steps1 rfc_inner_t0_steps2 rfc_inner_t0_steps3
    rfc_inner_t0_steps4 rfc_inner_t0_steps5 rfc_inner_t0_steps6
    rfc_inner_t0_steps7 rfc_inner_t0_steps8
  by (simp add: add_state_def)

lemma rfc_outer_t0_words:
  "words_of
     [0x08, 0x91, 0xD9, 0xBE, 0x09, 0xBB, 0x16, 0xC7, 0xC8, 0x72, 0x2D, 0xF3, 0x68, 0xD8, 0x63, 0x50,
     0x66, 0x7E, 0x49, 0x9E, 0x80, 0x00, 0x00, 0x00, 0x00, 0x00, 0x00, 0x00, 0x00, 0x00, 0x00, 0x00,
     0x00, 0x00, 0x00, 0x00, 0x00, 0x00, 0x00, 0x00, 0x00, 0x00, 0x00, 0x00, 0x00, 0x00, 0x00, 0x00,
     0x00, 0x00, 0x00, 0x00, 0x00, 0x00, 0x00, 0x00, 0x00, 0x00, 0x00, 0x00, 0x00, 0x00, 0x02, 0xA0]
   = [0x0891D9BE, 0x09BB16C7, 0xC8722DF3, 0x68D86350, 0x667E499E, 0x80000000, 0x00000000, 0x00000000,
     0x00000000, 0x00000000, 0x00000000, 0x00000000, 0x00000000, 0x00000000, 0x00000000, 0x000002A0]"
  by (simp add: be32_def)

lemma rfc_outer_t0_steps1:
  "steps Ch 10
     ([0x0891D9BE, 0x09BB16C7, 0xC8722DF3, 0x68D86350, 0x667E499E, 0x80000000, 0x00000000, 0x00000000,
      0x00000000, 0x00000000, 0x00000000, 0x00000000, 0x00000000, 0x00000000, 0x00000000, 0x000002A0],
      (0x98BDBDCD, 0x58E07BFE, 0xAD5CDDEA, 0x3AC0430B, 0xFE106825))
   = ([0x00000000, 0x00000000, 0x00000000, 0x00000000, 0x00000000, 0x000002A0, 0x81C7E89B, 0xC2C6EB2E,
      0x5C18CD9B, 0xD23F1796, 0x49714561, 0xB8319B37, 0xA47E2F2D, 0x92E28F82, 0x73ECE758, 0xCD718806],
      (0x2A3F8E81, 0x01E9F6F0, 0xFFB6461A, 0xE117801F, 0xD4F14848))"
  by (simp add: steps_numeral rotl_def)

lemma rfc_outer_t0_steps2:
  "steps Ch 10
     ([0x00000000, 0x00000000, 0x00000000, 0x00000000, 0x00000000, 0x000002A0, 0x81C7E89B, 0xC2C6EB2E,
      0x5C18CD9B, 0xD23F1796, 0x49714561, 0xB8319B37, 0xA47E2F2D, 0x92E28F82, 0x73ECE758, 0xCD718806],
      (0x2A3F8E81, 0x01E9F6F0, 0xFFB6461A, 0xE117801F, 0xD4F14848))
   = ([0x49714561, 0xB8319B37, 0xA47E2F2D, 0x92E28F82, 0x73ECE758, 0xCD718806, 0x9DF48433, 0x43A7E19D,
      0x08019ACF, 0x4B8A3B48, 0xCC3C4C56, 0xB04BF986, 0xCB73F221, 0x236871D0, 0x71ADEA9E, 0xC5B53E3B],
      (0xB9C05442, 0xD10CF874, 0x4BD014B6, 0xC6D7F459, 0x9F263CFA))"
  by (simp add: steps_numeral rotl_def)

lemma rfc_outer_t0_steps3:
  "steps Parity1 10
     ([0x49714561, 0xB8319B37, 0xA47E2F2D, 0x92E28F82, 0x73ECE758, 0xCD718806, 0x9DF48433, 0x43A7E19D,
      0x08019ACF, 0x4B8A3B48, 0xCC3C4C56, 0xB04BF986, 0xCB73F221, 0x236871D0, 0x71ADEA9E, 0xC5B53E3B],
      (0xB9C05442, 0xD10CF874, 0x4BD014B6, 0xC6D7F459, 0x9F263CFA))
   = ([0xCC3C4C56, 0xB04BF986, 0xCB73F221, 0x236871D0, 0x71ADEA9E, 0xC5B53E3B, 0x8CCD02A7, 0x21E98AC6,
      0xBC377431, 0xC62BF94A, 0x09043718, 0x2312D8F4, 0x44E61A50, 0x8939A7ED, 0xD7C41994, 0x3D9CA4B1],
      (0x8222D8EC, 0x31CCE382, 0x51FE0B68, 0x0BE3C1E4, 0xBA3DD2A4))"
  by (simp add: steps_numeral rotl_def)

lemma rfc_outer_t0_steps4:
  "steps Parity1 10
     ([0xCC3C4C56, 0xB04BF986, 0xCB73F221, 0x236871D0, 0x71ADEA9E, 0xC5B53E3B, 0x8CCD02A7, 0x21E98AC6,
      0xBC377431, 0xC62BF94A, 0x09043718, 0x2312D8F4, 0x44E61A50, 0x8939A7ED, 0xD7C41994, 0x3D9CA4B1],
      (0x8222D8EC, 0x31CCE382, 0x51FE0B68, 0x0BE3C1E4, 0xBA3DD2A4))
   = ([0x09043718, 0x2312D8F4, 0x44E61A50, 0x8939A7ED, 0xD7C41994, 0x3D9CA4B1, 0x6482DB56, 0x0598D111,
      0x1C8D162D, 0x429A9893, 0x783C46F1, 0xE3D00A7A, 0x4B49EF23, 0x44C52399, 0x64C3240A, 0x57D03F19],
      (0xC40278DC, 0x15C44406, 0x27B3A924, 0x306F134B, 0x9B10DEC2))"
  by (simp add: steps_numeral rotl_def)

lemma rfc_outer_t0_steps5:
  "steps Maj 10
     ([0x09043718, 0x2312D8F4, 0x44E61A50, 0x8939A7ED, 0xD7C41994, 0x3D9CA4B1, 0x6482DB56, 0x0598D111,
      0x1C8D162D, 0x429A9893, 0x783C46F1, 0xE3D00A7A, 0x4B49EF23, 0x44C52399, 0x64C3240A, 0x57D03F19],
      (0xC40278DC, 0x15C44406, 0x27B3A924, 0x306F134B, 0x9B10DEC2))
   = ([0x783C46F1, 0xE3D00A7A, 0x4B49EF23, 0x44C52399, 0x64C3240A, 0x57D03F19, 0x2B5431F8, 0x18E58701,
      0x799CF459, 0xF84271BC, 0xC1D555C1, 0x0ABB44C0, 0xC91D319B, 0xA20E46B5, 0x8ABC4BC8, 0xE16448E6],
      (0xC526BC59, 0xD9E63C1A, 0xF9FB8F7F, 0x09675A0B, 0xE5842E3D))"
  by (simp add: steps_numeral rotl_def)

lemma rfc_outer_t0_steps6:
  "steps Maj 10
     ([0x783C46F1, 0xE3D00A7A, 0x4B49EF23, 0x44C52399, 0x64C3240A, 0x57D03F19, 0x2B5431F8, 0x18E58701,
      0x799CF459, 0xF84271BC, 0xC1D555C1, 0x0ABB44C0, 0xC91D319B, 0xA20E46B5, 0x8ABC4BC8, 0xE16448E6],
      (0xC526BC59, 0xD9E63C1A, 0xF9FB8F7F, 0x09675A0B, 0xE5842E3D))
   = ([0xC1D555C1, 0x0ABB44C0, 0xC91D319B, 0xA20E46B5, 0x8ABC4BC8, 0xE16448E6, 0xD1CE367D, 0xABD6272F,
      0x1E77AC1C, 0x90C0DC7B, 0x5AB8068C, 0xE698A563, 0x9168A424, 0xB6F771AE, 0x1E3E650D, 0x908F6CEF],
      (0xFC07C792, 0x6B93AAFE, 0x7B8FA056, 0x6F0CB03C, 0x602C748D))"
  by (simp add: steps_numeral rotl_def)

lemma rfc_outer_t0_steps7:
  "steps Parity2 10
     ([0xC1D555C1, 0x0ABB44C0, 0xC91D319B, 0xA20E46B5, 0x8ABC4BC8, 0xE16448E6, 0xD1CE367D, 0xABD6272F,
      0x1E77AC1C, 0x90C0DC7B, 0x5AB8068C, 0xE698A563, 0x9168A424, 0xB6F771AE, 0x1E3E650D, 0x908F6CEF],
      (0xFC07C792, 0x6B93AAFE, 0x7B8FA056, 0x6F0CB03C, 0x602C748D))
   = ([0x5AB8068C, 0xE698A563, 0x9168A424, 0xB6F771AE, 0x1E3E650D, 0x908F6CEF, 0x409173D1, 0x4C977606,
      0x132C2061, 0xCAC7B1C3, 0x0D1B5F2F, 0xDED27C0D, 0x36809D5E, 0x4D059129, 0xB5194A99, 0x189F2480],
      (0xC9C36700, 0x9FC2C05C, 0xDE3B6B50, 0x4021720E, 0x6B6817D5))"
  by (simp add: steps_numeral rotl_def)

lemma rfc_outer_t0_steps8:
  "steps Parity2 10
     ([0x5AB8068C, 0xE698A563, 0x9168A424, 0xB6F771AE, 0x1E3E650D, 0x908F6CEF, 0x409173D1, 0x4C977606,
      0x132C2061, 0xCAC7B1C3, 0x0D1B5F2F, 0xDED27C0D, 0x36809D5E, 0x4D059129, 0xB5194A99, 0x189F2480],
      (0xC9C36700, 0x9FC2C05C, 0xDE3B6B50, 0x4021720E, 0x6B6817D5))
   = ([0x0D1B5F2F, 0xDED27C0D, 0x36809D5E, 0x4D059129, 0xB5194A99, 0x189F2480, 0x2BF227C1, 0x5F625F2E,
      0x35A5750D, 0xA6B08D1B, 0x6E9BA958, 0x4971FD9B, 0x80292864, 0xE0A8943B, 0xF9694A28, 0x96BD7509],
      (0x33D6114B, 0xF7AD1895, 0x9F07D873, 0x50E72374, 0xB9BD7C8B))"
  by (simp add: steps_numeral rotl_def)

lemma rfc_outer_t0:
  "compress (0x98BDBDCD, 0x58E07BFE, 0xAD5CDDEA, 0x3AC0430B, 0xFE106825)
     [0x08, 0x91, 0xD9, 0xBE, 0x09, 0xBB, 0x16, 0xC7, 0xC8, 0x72, 0x2D, 0xF3, 0x68, 0xD8, 0x63, 0x50,
     0x66, 0x7E, 0x49, 0x9E, 0x80, 0x00, 0x00, 0x00, 0x00, 0x00, 0x00, 0x00, 0x00, 0x00, 0x00, 0x00,
     0x00, 0x00, 0x00, 0x00, 0x00, 0x00, 0x00, 0x00, 0x00, 0x00, 0x00, 0x00, 0x00, 0x00, 0x00, 0x00,
     0x00, 0x00, 0x00, 0x00, 0x00, 0x00, 0x00, 0x00, 0x00, 0x00, 0x00, 0x00, 0x00, 0x00, 0x02, 0xA0]
   = (0xCC93CF18, 0x508D9493, 0x4C64B65D, 0x8BA7667F, 0xB7CDE4B0)"
  unfolding compress_def rfc_outer_t0_words steps_20
    rfc_outer_t0_steps1 rfc_outer_t0_steps2 rfc_outer_t0_steps3
    rfc_outer_t0_steps4 rfc_outer_t0_steps5 rfc_outer_t0_steps6
    rfc_outer_t0_steps7 rfc_outer_t0_steps8
  by (simp add: add_state_def)

lemma rfc_inner_t1_words:
  "words_of
     [0x00, 0x00, 0x00, 0x00, 0x00, 0x00, 0x00, 0x01, 0x80, 0x00, 0x00, 0x00, 0x00, 0x00, 0x00, 0x00,
     0x00, 0x00, 0x00, 0x00, 0x00, 0x00, 0x00, 0x00, 0x00, 0x00, 0x00, 0x00, 0x00, 0x00, 0x00, 0x00,
     0x00, 0x00, 0x00, 0x00, 0x00, 0x00, 0x00, 0x00, 0x00, 0x00, 0x00, 0x00, 0x00, 0x00, 0x00, 0x00,
     0x00, 0x00, 0x00, 0x00, 0x00, 0x00, 0x00, 0x00, 0x00, 0x00, 0x00, 0x00, 0x00, 0x00, 0x02, 0x40]
   = [0x00000000, 0x00000001, 0x80000000, 0x00000000, 0x00000000, 0x00000000, 0x00000000, 0x00000000,
     0x00000000, 0x00000000, 0x00000000, 0x00000000, 0x00000000, 0x00000000, 0x00000000, 0x00000240]"
  by (simp add: be32_def)

lemma rfc_inner_t1_steps1:
  "steps Ch 10
     ([0x00000000, 0x00000001, 0x80000000, 0x00000000, 0x00000000, 0x00000000, 0x00000000, 0x00000000,
      0x00000000, 0x00000000, 0x00000000, 0x00000000, 0x00000000, 0x00000000, 0x00000000, 0x00000240],
      (0xCBC80C8C, 0xF599E2AC, 0xBDB8C832, 0xDA95C1C3, 0xF8683025))
   = ([0x00000000, 0x00000000, 0x00000000, 0x00000000, 0x00000000, 0x00000240, 0x00000001, 0x00000002,
      0x00000481, 0x00000002, 0x00000004, 0x00000902, 0x00000004, 0x00000488, 0x00001206, 0x0000000C],
      (0x11B5870B, 0xBAE9A486, 0xDEC9758D, 0x463373EA, 0x21600807))"
  by (simp add: steps_numeral rotl_def)

lemma rfc_inner_t1_steps2:
  "steps Ch 10
     ([0x00000000, 0x00000000, 0x00000000, 0x00000000, 0x00000000, 0x00000240, 0x00000001, 0x00000002,
      0x00000481, 0x00000002, 0x00000004, 0x00000902, 0x00000004, 0x00000488, 0x00001206, 0x0000000C],
      (0x11B5870B, 0xBAE9A486, 0xDEC9758D, 0x463373EA, 0x21600807))
   = ([0x00000004, 0x00000902, 0x00000004, 0x00000488, 0x00001206, 0x0000000C, 0x00000012, 0x00002408,
      0x00000010, 0x000016A0, 0x0000481A, 0x00000DB4, 0x0000004C, 0x0000902C, 0x00001246, 0x00005A88],
      (0xB3976CE5, 0xC0B085D5, 0x9D249C6F, 0x67E8A8CE, 0x943CE3F6))"
  by (simp add: steps_numeral rotl_def)

lemma rfc_inner_t1_steps3:
  "steps Parity1 10
     ([0x00000004, 0x00000902, 0x00000004, 0x00000488, 0x00001206, 0x0000000C, 0x00000012, 0x00002408,
      0x00000010, 0x000016A0, 0x0000481A, 0x00000DB4, 0x0000004C, 0x0000902C, 0x00001246, 0x00005A88],
      (0xB3976CE5, 0xC0B085D5, 0x9D249C6F, 0x67E8A8CE, 0x943CE3F6))
   = ([0x0000481A, 0x00000DB4, 0x0000004C, 0x0000902C, 0x00001246, 0x00005A88, 0x00012078, 0x000012D8,
      0x00000120, 0x00025290, 0x00000100, 0x00016A10, 0x000481A8, 0x0000D240, 0x000004C4, 0x000910C8],
      (0xD59093B3, 0x1B9F27E2, 0x1D27E751, 0xEFA880F9, 0x333C875B))"
  by (simp add: steps_numeral rotl_def)

lemma rfc_inner_t1_steps4:
  "steps Parity1 10
     ([0x0000481A, 0x00000DB4, 0x0000004C, 0x0000902C, 0x00001246, 0x00005A88, 0x00012078, 0x000012D8,
      0x00000120, 0x00025290, 0x00000100, 0x00016A10, 0x000481A8, 0x0000D240, 0x000004C4, 0x000910C8],
      (0xD59093B3, 0x1B9F27E2, 0x1D27E751, 0xEFA880F9, 0x333C875B))
   = ([0x00000100, 0x00016A10, 0x000481A8, 0x0000D240, 0x000004C4, 0x000910C8, 0x0001366C, 0x00059798,
      0x00120784, 0x00012DB0, 0x0000481C, 0x00253B28, 0x00001058, 0x00163138, 0x00481AC8, 0x000D7E80],
      (0x371D3D6E, 0xD66D6183, 0x65FCD2A7, 0x1DB7B2E5, 0xDD6F66E0))"
  by (simp add: steps_numeral rotl_def)

lemma rfc_inner_t1_steps5:
  "steps Maj 10
     ([0x00000100, 0x00016A10, 0x000481A8, 0x0000D240, 0x000004C4, 0x000910C8, 0x0001366C, 0x00059798,
      0x00120784, 0x00012DB0, 0x0000481C, 0x00253B28, 0x00001058, 0x00163138, 0x00481AC8, 0x000D7E80],
      (0x371D3D6E, 0xD66D6183, 0x65FCD2A7, 0x1DB7B2E5, 0xDD6F66E0))
   = ([0x0000481C, 0x00253B28, 0x00001058, 0x00163138, 0x00481AC8, 0x000D7E80, 0x00016C28, 0x00911E50,
      0x001367E0, 0x005B2B10, 0x01207940, 0x0013A310, 0x00000060, 0x02537BD0, 0x00010140, 0x016A1150],
      (0x806CA433, 0x4F094762, 0xF6DF7C2D, 0x054D5FE0, 0x502023CA))"
  by (simp add: steps_numeral rotl_def)

lemma rfc_inner_t1_steps6:
  "steps Maj 10
     ([0x0000481C, 0x00253B28, 0x00001058, 0x00163138, 0x00481AC8, 0x000D7E80, 0x00016C28, 0x00911E50,
      0x001367E0, 0x005B2B10, 0x01207940, 0x0013A310, 0x00000060, 0x02537BD0, 0x00010140, 0x016A1150],
      (0x806CA433, 0x4F094762, 0xF6DF7C2D, 0x054D5FE0, 0x502023CA))
   = ([0x01207940, 0x0013A310, 0x00000060, 0x02537BD0, 0x00010140, 0x016A1150, 0x048088E8, 0x00D24080,
      0x0004C500, 0x0910C880, 0x01366C00, 0x0597BC00, 0x12078410, 0x012C9020, 0x00485490, 0x253A9920],
      (0xD280D918, 0x5243A663, 0xC0317EC8, 0xBA00A1D3, 0xF3973F9F))"
  by (simp add: steps_numeral rotl_def)

lemma rfc_inner_t1_steps7:
  "steps Parity2 10
     ([0x01207940, 0x0013A310, 0x00000060, 0x02537BD0, 0x00010140, 0x016A1150, 0x048088E8, 0x00D24080,
      0x0004C500, 0x0910C880, 0x01366C00, 0x0597BC00, 0x12078410, 0x012C9020, 0x00485490, 0x253A9920],
      (0xD280D918, 0x5243A663, 0xC0317EC8, 0xBA00A1D3, 0xF3973F9F))
   = ([0x01366C00, 0x0597BC00, 0x12078410, 0x012C9020, 0x00485490, 0x253A9920, 0x00105800, 0x163089A0,
      0x481BE800, 0x0D7D1D00, 0x016D0830, 0x911E53E0, 0x136208F0, 0x5B2A3220, 0x207945C1, 0x13ABEBA0],
      (0x348A8ED9, 0x9AE39102, 0xD1A19E9B, 0x4393D25E, 0x9C601ED2))"
  by (simp add: steps_numeral rotl_def)

lemma rfc_inner_t1_steps8:
  "steps Parity2 10
     ([0x01366C00, 0x0597BC00, 0x12078410, 0x012C9020, 0x00485490, 0x253A9920, 0x00105800, 0x163089A0,
      0x481BE800, 0x0D7D1D00, 0x016D0830, 0x911E53E0, 0x136208F0, 0x5B2A3220, 0x207945C1, 0x13ABEBA0],
      (0x348A8ED9, 0x9AE39102, 0xD1A19E9B, 0x4393D25E, 0x9C601ED2))
   = ([0x016D0830, 0x911E53E0, 0x136208F0, 0x5B2A3220, 0x207945C1, 0x13ABEBA0, 0x00006460, 0x537EE9C2,
      0x01126620, 0x6A107D01, 0x8089DB44, 0xD2648900, 0x04C51180, 0x10DF4889, 0x36241AA1, 0x97B16D45],
      (0xE2717E46, 0xEF9FF3B0, 0x9FEA126A, 0xAFCB727E, 0x9ED10A67))"
  by (simp add: steps_numeral rotl_def)

lemma rfc_inner_t1:
  "compress (0xCBC80C8C, 0xF599E2AC, 0xBDB8C832, 0xDA95C1C3, 0xF8683025)
     [0x00, 0x00, 0x00, 0x00, 0x00, 0x00, 0x00, 0x01, 0x80, 0x00, 0x00, 0x00, 0x00, 0x00, 0x00, 0x00,
     0x00, 0x00, 0x00, 0x00, 0x00, 0x00, 0x00, 0x00, 0x00, 0x00, 0x00, 0x00, 0x00, 0x00, 0x00, 0x00,
     0x00, 0x00, 0x00, 0x00, 0x00, 0x00, 0x00, 0x00, 0x00, 0x00, 0x00, 0x00, 0x00, 0x00, 0x00, 0x00,
     0x00, 0x00, 0x00, 0x00, 0x00, 0x00, 0x00, 0x00, 0x00, 0x00, 0x00, 0x00, 0x00, 0x00, 0x02, 0x40]
   = (0xAE398AD2, 0xE539D65C, 0x5DA2DA9C, 0x8A613441, 0x97393A8C)"
  unfolding compress_def rfc_inner_t1_words steps_20
    rfc_inner_t1_steps1 rfc_inner_t1_steps2 rfc_inner_t1_steps3
    rfc_inner_t1_steps4 rfc_inner_t1_steps5 rfc_inner_t1_steps6
    rfc_inner_t1_steps7 rfc_inner_t1_steps8
  by (simp add: add_state_def)

lemma rfc_outer_t1_words:
  "words_of
     [0xAE, 0x39, 0x8A, 0xD2, 0xE5, 0x39, 0xD6, 0x5C, 0x5D, 0xA2, 0xDA, 0x9C, 0x8A, 0x61, 0x34, 0x41,
     0x97, 0x39, 0x3A, 0x8C, 0x80, 0x00, 0x00, 0x00, 0x00, 0x00, 0x00, 0x00, 0x00, 0x00, 0x00, 0x00,
     0x00, 0x00, 0x00, 0x00, 0x00, 0x00, 0x00, 0x00, 0x00, 0x00, 0x00, 0x00, 0x00, 0x00, 0x00, 0x00,
     0x00, 0x00, 0x00, 0x00, 0x00, 0x00, 0x00, 0x00, 0x00, 0x00, 0x00, 0x00, 0x00, 0x00, 0x02, 0xA0]
   = [0xAE398AD2, 0xE539D65C, 0x5DA2DA9C, 0x8A613441, 0x97393A8C, 0x80000000, 0x00000000, 0x00000000,
     0x00000000, 0x00000000, 0x00000000, 0x00000000, 0x00000000, 0x00000000, 0x00000000, 0x000002A0]"
  by (simp add: be32_def)

lemma rfc_outer_t1_steps1:
  "steps Ch 10
     ([0xAE398AD2, 0xE539D65C, 0x5DA2DA9C, 0x8A613441, 0x97393A8C, 0x80000000, 0x00000000, 0x00000000,
      0x00000000, 0x00000000, 0x00000000, 0x00000000, 0x00000000, 0x00000000, 0x00000000, 0x000002A0],
      (0x98BDBDCD, 0x58E07BFE, 0xAD5CDDEA, 0x3AC0430B, 0xFE106825))
   = ([0x00000000, 0x00000000, 0x00000000, 0x00000000, 0x00000000, 0x000002A0, 0xE736A09D, 0xDEB1C43A,
      0x9537C561, 0xDAAF29B9, 0x9311FD6C, 0x2A6F8AC2, 0xB55E5373, 0x2623FF99, 0x9AB254BF, 0xD7DF2E92],
      (0xAE23ABB4, 0xA706D49C, 0x12C20F72, 0xB164B515, 0x980BA27E))"
  by (simp add: steps_numeral rotl_def)

lemma rfc_outer_t1_steps2:
  "steps Ch 10
     ([0x00000000, 0x00000000, 0x00000000, 0x00000000, 0x00000000, 0x000002A0, 0xE736A09D, 0xDEB1C43A,
      0x9537C561, 0xDAAF29B9, 0x9311FD6C, 0x2A6F8AC2, 0xB55E5373, 0x2623FF99, 0x9AB254BF, 0xD7DF2E92],
      (0xAE23ABB4, 0xA706D49C, 0x12C20F72, 0xB164B515, 0x980BA27E))
   = ([0x9311FD6C, 0x2A6F8AC2, 0xB55E5373, 0x2623FF99, 0x9AB254BF, 0xD7DF2E92, 0x662875F1, 0x803AFA0C,
      0x899DA7FC, 0x988FFB26, 0xA4A413C5, 0xE21F3DFE, 0xE07994CA, 0xEECBA1A8, 0x0422E005, 0x21079B7B],
      (0xDAD5D65C, 0x028D40F9, 0x124D66D0, 0x5CD33244, 0x1EC11825))"
  by (simp add: steps_numeral rotl_def)

lemma rfc_outer_t1_steps3:
  "steps Parity1 10
     ([0x9311FD6C, 0x2A6F8AC2, 0xB55E5373, 0x2623FF99, 0x9AB254BF, 0xD7DF2E92, 0x662875F1, 0x803AFA0C,
      0x899DA7FC, 0x988FFB26, 0xA4A413C5, 0xE21F3DFE, 0xE07994CA, 0xEECBA1A8, 0x0422E005, 0x21079B7B],
      (0xDAD5D65C, 0x028D40F9, 0x124D66D0, 0x5CD33244, 0x1EC11825))
   = ([0xA4A413C5, 0xE21F3DFE, 0xE07994CA, 0xEECBA1A8, 0x0422E005, 0x21079B7B, 0x82335096, 0x21C2DCF1,
      0x549F1EE5, 0x23A178C7, 0x7A42D2EA, 0xDB62D7A7, 0x906C959F, 0x87E09176, 0xE8D06610, 0x967D1F6D],
      (0x0BCC68CF, 0x2A7C62A2, 0xE3A93B29, 0xDBA5CDA3, 0xEE31AE7C))"
  by (simp add: steps_numeral rotl_def)

lemma rfc_outer_t1_steps4:
  "steps Parity1 10
     ([0xA4A413C5, 0xE21F3DFE, 0xE07994CA, 0xEECBA1A8, 0x0422E005, 0x21079B7B, 0x82335096, 0x21C2DCF1,
      0x549F1EE5, 0x23A178C7, 0x7A42D2EA, 0xDB62D7A7, 0x906C959F, 0x87E09176, 0xE8D06610, 0x967D1F6D],
      (0x0BCC68CF, 0x2A7C62A2, 0xE3A93B29, 0xDBA5CDA3, 0xEE31AE7C))
   = ([0x7A42D2EA, 0xDB62D7A7, 0x906C959F, 0x87E09176, 0xE8D06610, 0x967D1F6D, 0x2F441139, 0x8F4B0503,
      0x10C97290, 0x77D5F89A, 0x326C401F, 0x2FD948D9, 0x9353A1F2, 0x4CE5F689, 0x5C812BDE, 0xC9B61723],
      (0x58F80AEC, 0x7B946A37, 0xF2229F8F, 0xC5BBD530, 0x0F482DB1))"
  by (simp add: steps_numeral rotl_def)

lemma rfc_outer_t1_steps5:
  "steps Maj 10
     ([0x7A42D2EA, 0xDB62D7A7, 0x906C959F, 0x87E09176, 0xE8D06610, 0x967D1F6D, 0x2F441139, 0x8F4B0503,
      0x10C97290, 0x77D5F89A, 0x326C401F, 0x2FD948D9, 0x9353A1F2, 0x4CE5F689, 0x5C812BDE, 0xC9B61723],
      (0x58F80AEC, 0x7B946A37, 0xF2229F8F, 0xC5BBD530, 0x0F482DB1))
   = ([0x326C401F, 0x2FD948D9, 0x9353A1F2, 0x4CE5F689, 0x5C812BDE, 0xC9B61723, 0x6C0586D9, 0xEFAD2B2A,
      0x06CD4967, 0xA4828036, 0x76D5FBE3, 0xA63D4B00, 0x8F1D9083, 0x8FFA22B2, 0xD13BFEAD, 0x717817D4],
      (0x11FD5D61, 0xF1808101, 0x02858C49, 0xB0425B7C, 0x1AAA44A5))"
  by (simp add: steps_numeral rotl_def)

lemma rfc_outer_t1_steps6:
  "steps Maj 10
     ([0x326C401F, 0x2FD948D9, 0x9353A1F2, 0x4CE5F689, 0x5C812BDE, 0xC9B61723, 0x6C0586D9, 0xEFAD2B2A,
      0x06CD4967, 0xA4828036, 0x76D5FBE3, 0xA63D4B00, 0x8F1D9083, 0x8FFA22B2, 0xD13BFEAD, 0x717817D4],
      (0x11FD5D61, 0xF1808101, 0x02858C49, 0xB0425B7C, 0x1AAA44A5))
   = ([0x76D5FBE3, 0xA63D4B00, 0x8F1D9083, 0x8FFA22B2, 0xD13BFEAD, 0x717817D4, 0x50111470, 0x2D0B8196,
      0x90FECC37, 0xE6FF7DB4, 0x25257825, 0x723FA518, 0xBA18994E, 0x3EE589DA, 0xA46C07D8, 0x2B59A7DD],
      (0x2E5C1CE8, 0x011DEECB, 0x5BF77406, 0x5567269E, 0x50F3BA6E))"
  by (simp add: steps_numeral rotl_def)

lemma rfc_outer_t1_steps7:
  "steps Parity2 10
     ([0x76D5FBE3, 0xA63D4B00, 0x8F1D9083, 0x8FFA22B2, 0xD13BFEAD, 0x717817D4, 0x50111470, 0x2D0B8196,
      0x90FECC37, 0xE6FF7DB4, 0x25257825, 0x723FA518, 0xBA18994E, 0x3EE589DA, 0xA46C07D8, 0x2B59A7DD],
      (0x2E5C1CE8, 0x011DEECB, 0x5BF77406, 0x5567269E, 0x50F3BA6E))
   = ([0x25257825, 0x723FA518, 0xBA18994E, 0x3EE589DA, 0xA46C07D8, 0x2B59A7DD, 0xAFA65D1A, 0xD6A827BC,
      0xA0B563AC, 0x46379AC8, 0xDB34A85F, 0x8446F869, 0x45688AAE, 0x7733E740, 0x3C7622C3, 0x0E00EB7C],
      (0xFF5E4344, 0x6F08FBEF, 0x491F5DCF, 0x92E2C065, 0x5B1478A1))"
  by (simp add: steps_numeral rotl_def)

lemma rfc_outer_t1_steps8:
  "steps Parity2 10
     ([0x25257825, 0x723FA518, 0xBA18994E, 0x3EE589DA, 0xA46C07D8, 0x2B59A7DD, 0xAFA65D1A, 0xD6A827BC,
      0xA0B563AC, 0x46379AC8, 0xDB34A85F, 0x8446F869, 0x45688AAE, 0x7733E740, 0x3C7622C3, 0x0E00EB7C],
      (0xFF5E4344, 0x6F08FBEF, 0x491F5DCF, 0x92E2C065, 0x5B1478A1))
   = ([0xDB34A85F, 0x8446F869, 0x45688AAE, 0x7733E740, 0x3C7622C3, 0x0E00EB7C, 0x9176CB0E, 0x6D372992,
      0x9681BB6B, 0x01183AC0, 0x472BF3FC, 0x3887B894, 0x64FA4D6A, 0xB3694BE9, 0xA4E170D3, 0x97780CB3],
      (0xDCE6CC4C, 0x7BEB6502, 0xB6F1ACD7, 0xFEBEA769, 0x7C1CCB86))"
  by (simp add: steps_numeral rotl_def)

lemma rfc_outer_t1:
  "compress (0x98BDBDCD, 0x58E07BFE, 0xAD5CDDEA, 0x3AC0430B, 0xFE106825)
     [0xAE, 0x39, 0x8A, 0xD2, 0xE5, 0x39, 0xD6, 0x5C, 0x5D, 0xA2, 0xDA, 0x9C, 0x8A, 0x61, 0x34, 0x41,
     0x97, 0x39, 0x3A, 0x8C, 0x80, 0x00, 0x00, 0x00, 0x00, 0x00, 0x00, 0x00, 0x00, 0x00, 0x00, 0x00,
     0x00, 0x00, 0x00, 0x00, 0x00, 0x00, 0x00, 0x00, 0x00, 0x00, 0x00, 0x00, 0x00, 0x00, 0x00, 0x00,
     0x00, 0x00, 0x00, 0x00, 0x00, 0x00, 0x00, 0x00, 0x00, 0x00, 0x00, 0x00, 0x00, 0x00, 0x02, 0xA0]
   = (0x75A48A19, 0xD4CBE100, 0x644E8AC1, 0x397EEA74, 0x7A2D33AB)"
  unfolding compress_def rfc_outer_t1_words steps_20
    rfc_outer_t1_steps1 rfc_outer_t1_steps2 rfc_outer_t1_steps3
    rfc_outer_t1_steps4 rfc_outer_t1_steps5 rfc_outer_t1_steps6
    rfc_outer_t1_steps7 rfc_outer_t1_steps8
  by (simp add: add_state_def)

lemma rfc_inner_t37037036_words:
  "words_of
     [0x00, 0x00, 0x00, 0x00, 0x02, 0x35, 0x23, 0xEC, 0x80, 0x00, 0x00, 0x00, 0x00, 0x00, 0x00, 0x00,
     0x00, 0x00, 0x00, 0x00, 0x00, 0x00, 0x00, 0x00, 0x00, 0x00, 0x00, 0x00, 0x00, 0x00, 0x00, 0x00,
     0x00, 0x00, 0x00, 0x00, 0x00, 0x00, 0x00, 0x00, 0x00, 0x00, 0x00, 0x00, 0x00, 0x00, 0x00, 0x00,
     0x00, 0x00, 0x00, 0x00, 0x00, 0x00, 0x00, 0x00, 0x00, 0x00, 0x00, 0x00, 0x00, 0x00, 0x02, 0x40]
   = [0x00000000, 0x023523EC, 0x80000000, 0x00000000, 0x00000000, 0x00000000, 0x00000000, 0x00000000,
     0x00000000, 0x00000000, 0x00000000, 0x00000000, 0x00000000, 0x00000000, 0x00000000, 0x00000240]"
  by (simp add: be32_def)

lemma rfc_inner_t37037036_steps1:
  "steps Ch 10
     ([0x00000000, 0x023523EC, 0x80000000, 0x00000000, 0x00000000, 0x00000000, 0x00000000, 0x00000000,
      0x00000000, 0x00000000, 0x00000000, 0x00000000, 0x00000000, 0x00000000, 0x00000000, 0x00000240],
      (0xCBC80C8C, 0xF599E2AC, 0xBDB8C832, 0xDA95C1C3, 0xF8683025))
   = ([0x00000000, 0x00000000, 0x00000000, 0x00000000, 0x00000000, 0x00000240, 0x00000001, 0x046A47D8,
      0x00000481, 0x00000002, 0x08D48FB0, 0x00000902, 0x00000004, 0x11A91BE0, 0x00001206, 0x08D48FB8],
      (0x6FA70449, 0x82D507D7, 0xA8C22CEB, 0x7DD0A302, 0xDD8398AD))"
  by (simp add: steps_numeral rotl_def)

lemma rfc_inner_t37037036_steps2:
  "steps Ch 10
     ([0x00000000, 0x00000000, 0x00000000, 0x00000000, 0x00000000, 0x00000240, 0x00000001, 0x046A47D8,
      0x00000481, 0x00000002, 0x08D48FB0, 0x00000902, 0x00000004, 0x11A91BE0, 0x00001206, 0x08D48FB8],
      (0x6FA70449, 0x82D507D7, 0xA8C22CEB, 0x7DD0A302, 0xDD8398AD))
   = ([0x08D48FB0, 0x00000902, 0x00000004, 0x11A91BE0, 0x00001206, 0x08D48FB8, 0x23523EC2, 0x00002408,
      0x00000010, 0x46A46B00, 0x0000481A, 0x2B86BCD0, 0x8D48FB0C, 0x197D00F0, 0x00001246, 0x1A91AC09],
      (0xC245BDC0, 0xAA1907F8, 0x288233A4, 0x861974B8, 0x99A8FED2))"
  by (simp add: steps_numeral rotl_def)

lemma rfc_inner_t37037036_steps3:
  "steps Parity1 10
     ([0x08D48FB0, 0x00000902, 0x00000004, 0x11A91BE0, 0x00001206, 0x08D48FB8, 0x23523EC2, 0x00002408,
      0x00000010, 0x46A46B00, 0x0000481A, 0x2B86BCD0, 0x8D48FB0C, 0x197D00F0, 0x00001246, 0x1A91AC09],
      (0xC245BDC0, 0xAA1907F8, 0x288233A4, 0x861974B8, 0x99A8FED2))
   = ([0x0000481A, 0x2B86BCD0, 0x8D48FB0C, 0x197D00F0, 0x00001246, 0x1A91AC09, 0x23531EA8, 0xAE1AD748,
      0x3523EC22, 0x23506C40, 0x00000100, 0x49148EC4, 0x000481A8, 0xB86BC402, 0xD48FB0CC, 0x86790261],
      (0xE30C1403, 0x33657DBE, 0x960CF9A3, 0x057B32DF, 0x45170448))"
  by (simp add: steps_numeral rotl_def)

lemma rfc_inner_t37037036_steps4:
  "steps Parity1 10
     ([0x0000481A, 0x2B86BCD0, 0x8D48FB0C, 0x197D00F0, 0x00001246, 0x1A91AC09, 0x23531EA8, 0xAE1AD748,
      0x3523EC22, 0x23506C40, 0x00000100, 0x49148EC4, 0x000481A8, 0xB86BC402, 0xD48FB0CC, 0x86790261],
      (0xE30C1403, 0x33657DBE, 0x960CF9A3, 0x057B32DF, 0x45170448))
   = ([0x00000100, 0x49148EC4, 0x000481A8, 0xB86BC402, 0xD48FB0CC, 0x86790261, 0x0001366C, 0x8A48C159,
      0x1663D456, 0x95F228A2, 0x523E983F, 0x3506D62A, 0xAE1AD5C8, 0xB21A42AC, 0x00481AC8, 0x9C2DEC2A],
      (0x67D424E4, 0x2F7E6074, 0x4F0437D0, 0x432730FA, 0xB8B227DB))"
  by (simp add: steps_numeral rotl_def)

lemma rfc_inner_t37037036_steps5:
  "steps Maj 10
     ([0x00000100, 0x49148EC4, 0x000481A8, 0xB86BC402, 0xD48FB0CC, 0x86790261, 0x0001366C, 0x8A48C159,
      0x1663D456, 0x95F228A2, 0x523E983F, 0x3506D62A, 0xAE1AD5C8, 0xB21A42AC, 0x00481AC8, 0x9C2DEC2A],
      (0x67D424E4, 0x2F7E6074, 0x4F0437D0, 0x432730FA, 0xB8B227DB))
   = ([0x523E983F, 0x3506D62A, 0xAE1AD5C8, 0xB21A42AC, 0x00481AC8, 0x9C2DEC2A, 0x48FA2CA5, 0xC98AF158,
      0x35308AE2, 0x87DC79D8, 0x663D4461, 0x163616ED, 0x23ED0255, 0xCB548361, 0x3522EC42, 0x95261B0A],
      (0xF330BFBD, 0x62B07D1D, 0x5F084E8E, 0x04AF1781, 0xB8C1EE03))"
  by (simp add: steps_numeral rotl_def)

lemma rfc_inner_t37037036_steps6:
  "steps Maj 10
     ([0x523E983F, 0x3506D62A, 0xAE1AD5C8, 0xB21A42AC, 0x00481AC8, 0x9C2DEC2A, 0x48FA2CA5, 0xC98AF158,
      0x35308AE2, 0x87DC79D8, 0x663D4461, 0x163616ED, 0x23ED0255, 0xCB548361, 0x3522EC42, 0x95261B0A],
      (0xF330BFBD, 0x62B07D1D, 0x5F084E8E, 0x04AF1781, 0xB8C1EE03))
   = ([0x663D4461, 0x163616ED, 0x23ED0255, 0xCB548361, 0x3522EC42, 0x95261B0A, 0x048088E8, 0x6BC40238,
      0xBA9320D6, 0x79026106, 0x01366C00, 0x48C17D8A, 0x63D45606, 0xB48DFF15, 0x3E9877C2, 0x33F47617],
      (0x242407C8, 0xEC2CCD5E, 0x1F2231B7, 0xDC7BBD19, 0xDA3D14E7))"
  by (simp add: steps_numeral rotl_def)

lemma rfc_inner_t37037036_steps7:
  "steps Parity2 10
     ([0x663D4461, 0x163616ED, 0x23ED0255, 0xCB548361, 0x3522EC42, 0x95261B0A, 0x048088E8, 0x6BC40238,
      0xBA9320D6, 0x79026106, 0x01366C00, 0x48C17D8A, 0x63D45606, 0xB48DFF15, 0x3E9877C2, 0x33F47617],
      (0x242407C8, 0xEC2CCD5E, 0x1F2231B7, 0xDC7BBD19, 0xDA3D14E7))
   = ([0x01366C00, 0x48C17D8A, 0x63D45606, 0xB48DFF15, 0x3E9877C2, 0x33F47617, 0x979D33EE, 0x35F10691,
      0x481BE800, 0x025DAC1F, 0xCF0E687A, 0x04E81C4E, 0x05ACE7C7, 0xDC78FAA7, 0x51A0C6EC, 0x033DFBB4],
      (0x433FD968, 0xDB639451, 0x007303BE, 0xD3090324, 0x08FD487D))"
  by (simp add: steps_numeral rotl_def)

lemma rfc_inner_t37037036_steps8:
  "steps Parity2 10
     ([0x01366C00, 0x48C17D8A, 0x63D45606, 0xB48DFF15, 0x3E9877C2, 0x33F47617, 0x979D33EE, 0x35F10691,
      0x481BE800, 0x025DAC1F, 0xCF0E687A, 0x04E81C4E, 0x05ACE7C7, 0xDC78FAA7, 0x51A0C6EC, 0x033DFBB4],
      (0x433FD968, 0xDB639451, 0x007303BE, 0xD3090324, 0x08FD487D))
   = ([0xCF0E687A, 0x04E81C4E, 0x05ACE7C7, 0xDC78FAA7, 0x51A0C6EC, 0x033DFBB4, 0xED025143, 0x5F63D0D9,
      0x22FF6415, 0xDD27881E, 0xE794E665, 0xF105DC69, 0xA6032A38, 0xA60B6EBF, 0x36241AA1, 0xFFAA9561],
      (0xDAFEDBA1, 0x1FDB3B1E, 0x040DF1E5, 0x452EF030, 0xD8A37F75))"
  by (simp add: steps_numeral rotl_def)

lemma rfc_inner_t37037036:
  "compress (0xCBC80C8C, 0xF599E2AC, 0xBDB8C832, 0xDA95C1C3, 0xF8683025)
     [0x00, 0x00, 0x00, 0x00, 0x02, 0x35, 0x23, 0xEC, 0x80, 0x00, 0x00, 0x00, 0x00, 0x00, 0x00, 0x00,
     0x00, 0x00, 0x00, 0x00, 0x00, 0x00, 0x00, 0x00, 0x00, 0x00, 0x00, 0x00, 0x00, 0x00, 0x00, 0x00,
     0x00, 0x00, 0x00, 0x00, 0x00, 0x00, 0x00, 0x00, 0x00, 0x00, 0x00, 0x00, 0x00, 0x00, 0x00, 0x00,
     0x00, 0x00, 0x00, 0x00, 0x00, 0x00, 0x00, 0x00, 0x00, 0x00, 0x00, 0x00, 0x00, 0x00, 0x02, 0x40]
   = (0xA6C6E82D, 0x15751DCA, 0xC1C6BA17, 0x1FC4B1F3, 0xD10BAF9A)"
  unfolding compress_def rfc_inner_t37037036_words steps_20
    rfc_inner_t37037036_steps1 rfc_inner_t37037036_steps2
    rfc_inner_t37037036_steps3 rfc_inner_t37037036_steps4
    rfc_inner_t37037036_steps5 rfc_inner_t37037036_steps6
    rfc_inner_t37037036_steps7 rfc_inner_t37037036_steps8
  by (simp add: add_state_def)

lemma rfc_outer_t37037036_words:
  "words_of
     [0xA6, 0xC6, 0xE8, 0x2D, 0x15, 0x75, 0x1D, 0xCA, 0xC1, 0xC6, 0xBA, 0x17, 0x1F, 0xC4, 0xB1, 0xF3,
     0xD1, 0x0B, 0xAF, 0x9A, 0x80, 0x00, 0x00, 0x00, 0x00, 0x00, 0x00, 0x00, 0x00, 0x00, 0x00, 0x00,
     0x00, 0x00, 0x00, 0x00, 0x00, 0x00, 0x00, 0x00, 0x00, 0x00, 0x00, 0x00, 0x00, 0x00, 0x00, 0x00,
     0x00, 0x00, 0x00, 0x00, 0x00, 0x00, 0x00, 0x00, 0x00, 0x00, 0x00, 0x00, 0x00, 0x00, 0x02, 0xA0]
   = [0xA6C6E82D, 0x15751DCA, 0xC1C6BA17, 0x1FC4B1F3, 0xD10BAF9A, 0x80000000, 0x00000000, 0x00000000,
     0x00000000, 0x00000000, 0x00000000, 0x00000000, 0x00000000, 0x00000000, 0x00000000, 0x000002A0]"
  by (simp add: be32_def)

lemma rfc_outer_t37037036_steps1:
  "steps Ch 10
     ([0xA6C6E82D, 0x15751DCA, 0xC1C6BA17, 0x1FC4B1F3, 0xD10BAF9A, 0x80000000, 0x00000000, 0x00000000,
      0x00000000, 0x00000000, 0x00000000, 0x00000000, 0x00000000, 0x00000000, 0x00000000, 0x000002A0],
      (0x98BDBDCD, 0x58E07BFE, 0xAD5CDDEA, 0x3AC0430B, 0xFE106825))
   = ([0x00000000, 0x00000000, 0x00000000, 0x00000000, 0x00000000, 0x000002A0, 0xCE00A474, 0x15635872,
      0x219A2E5A, 0xA3882B0E, 0x88D1EFD1, 0x43345CB5, 0x4710561D, 0x11A3DAE3, 0x1A69F183, 0xA4E61CDE],
      (0x36F022C4, 0x34FB1810, 0xB00FB8A2, 0xDE05C9B3, 0x4A0752A9))"
  by (simp add: steps_numeral rotl_def)

lemma rfc_outer_t37037036_steps2:
  "steps Ch 10
     ([0x00000000, 0x00000000, 0x00000000, 0x00000000, 0x00000000, 0x000002A0, 0xCE00A474, 0x15635872,
      0x219A2E5A, 0xA3882B0E, 0x88D1EFD1, 0x43345CB5, 0x4710561D, 0x11A3DAE3, 0x1A69F183, 0xA4E61CDE],
      (0x36F022C4, 0x34FB1810, 0xB00FB8A2, 0xDE05C9B3, 0x4A0752A9))
   = ([0x88D1EFD1, 0x43345CB5, 0x4710561D, 0x11A3DAE3, 0x1A69F183, 0xA4E61CDE, 0x6073E972, 0x73C3B51B,
      0x586FE61E, 0x468F6ECE, 0xF5A68EE5, 0xB95ECC5E, 0x66F82AC7, 0xCF57C28F, 0xE0CDC94E, 0xEB0FD0CF],
      (0x09865391, 0x491E6BF4, 0xAC31B843, 0xA57AA973, 0xDABDD95E))"
  by (simp add: steps_numeral rotl_def)

lemma rfc_outer_t37037036_steps3:
  "steps Parity1 10
     ([0x88D1EFD1, 0x43345CB5, 0x4710561D, 0x11A3DAE3, 0x1A69F183, 0xA4E61CDE, 0x6073E972, 0x73C3B51B,
      0x586FE61E, 0x468F6ECE, 0xF5A68EE5, 0xB95ECC5E, 0x66F82AC7, 0xCF57C28F, 0xE0CDC94E, 0xEB0FD0CF],
      (0x09865391, 0x491E6BF4, 0xAC31B843, 0xA57AA973, 0xDABDD95E))
   = ([0xF5A68EE5, 0xB95ECC5E, 0x66F82AC7, 0xCF57C28F, 0xE0CDC94E, 0xEB0FD0CF, 0xB1F33ABA, 0xE9AA43AD,
      0x87A1F368, 0x7BD061B3, 0xEA90E337, 0x3FA73045, 0x46034F23, 0x69A7D05A, 0x473AC408, 0xA0F15C3C],
      (0xA7B404D0, 0x0DB47C34, 0x48F3CBF1, 0x9988E1F4, 0x192011A5))"
  by (simp add: steps_numeral rotl_def)

lemma rfc_outer_t37037036_steps4:
  "steps Parity1 10
     ([0xF5A68EE5, 0xB95ECC5E, 0x66F82AC7, 0xCF57C28F, 0xE0CDC94E, 0xEB0FD0CF, 0xB1F33ABA, 0xE9AA43AD,
      0x87A1F368, 0x7BD061B3, 0xEA90E337, 0x3FA73045, 0x46034F23, 0x69A7D05A, 0x473AC408, 0xA0F15C3C],
      (0xA7B404D0, 0x0DB47C34, 0x48F3CBF1, 0x9988E1F4, 0x192011A5))
   = ([0xEA90E337, 0x3FA73045, 0x46034F23, 0x69A7D05A, 0x473AC408, 0xA0F15C3C, 0xFAB10E20, 0x95C756D4,
      0x98A8B905, 0xC29C584B, 0x05F5D407, 0xE755F47B, 0x67E8AB23, 0x6EFD544A, 0xE1ABD408, 0x6CB15803],
      (0x10369F80, 0x97CED7B8, 0x1770E8BA, 0xAA560CD4, 0x4D836068))"
  by (simp add: steps_numeral rotl_def)

lemma rfc_outer_t37037036_steps5:
  "steps Maj 10
     ([0xEA90E337, 0x3FA73045, 0x46034F23, 0x69A7D05A, 0x473AC408, 0xA0F15C3C, 0xFAB10E20, 0x95C756D4,
      0x98A8B905, 0xC29C584B, 0x05F5D407, 0xE755F47B, 0x67E8AB23, 0x6EFD544A, 0xE1ABD408, 0x6CB15803],
      (0x10369F80, 0x97CED7B8, 0x1770E8BA, 0xAA560CD4, 0x4D836068))
   = ([0x05F5D407, 0xE755F47B, 0x67E8AB23, 0x6EFD544A, 0xE1ABD408, 0x6CB15803, 0xB58C82B6, 0xEA6ED8B8,
      0xD0FA0E5E, 0x371FF557, 0x601B7366, 0x1662A1F9, 0x695B2CF5, 0xB7E24BF4, 0x7D669C9A, 0x4DF8B0FB],
      (0xE17AFC3E, 0xA4B601DB, 0x77EE13A6, 0x834B4800, 0xD6645C41))"
  by (simp add: steps_numeral rotl_def)

lemma rfc_outer_t37037036_steps6:
  "steps Maj 10
     ([0x05F5D407, 0xE755F47B, 0x67E8AB23, 0x6EFD544A, 0xE1ABD408, 0x6CB15803, 0xB58C82B6, 0xEA6ED8B8,
      0xD0FA0E5E, 0x371FF557, 0x601B7366, 0x1662A1F9, 0x695B2CF5, 0xB7E24BF4, 0x7D669C9A, 0x4DF8B0FB],
      (0xE17AFC3E, 0xA4B601DB, 0x77EE13A6, 0x834B4800, 0xD6645C41))
   = ([0x601B7366, 0x1662A1F9, 0x695B2CF5, 0xB7E24BF4, 0x7D669C9A, 0x4DF8B0FB, 0x0A0A751C, 0x87A393F9,
      0x5741796D, 0x3C49B158, 0x75BFD365, 0xCCF96444, 0x48B34254, 0xCA6C9CE3, 0xEC24D8C0, 0xDCDB0A07],
      (0x2E8F68D1, 0xF426731B, 0x26FE03E8, 0x048ABD12, 0xDA9BF17D))"
  by (simp add: steps_numeral rotl_def)

lemma rfc_outer_t37037036_steps7:
  "steps Parity2 10
     ([0x601B7366, 0x1662A1F9, 0x695B2CF5, 0xB7E24BF4, 0x7D669C9A, 0x4DF8B0FB, 0x0A0A751C, 0x87A393F9,
      0x5741796D, 0x3C49B158, 0x75BFD365, 0xCCF96444, 0x48B34254, 0xCA6C9CE3, 0xEC24D8C0, 0xDCDB0A07],
      (0x2E8F68D1, 0xF426731B, 0x26FE03E8, 0x048ABD12, 0xDA9BF17D))
   = ([0x75BFD365, 0xCCF96444, 0x48B34254, 0xCA6C9CE3, 0xEC24D8C0, 0xDCDB0A07, 0x28DB743B, 0xE3DB072A,
      0x7AB2D21B, 0x3C71D6E0, 0xB80959F1, 0xF50ADBF4, 0x1A3C04A3, 0xBE70E2AF, 0xFE5E0B8F, 0x12AFAD2A],
      (0x593E00BF, 0x7D0139AE, 0x6A803943, 0x70563B0F, 0xFE59C1E0))"
  by (simp add: steps_numeral rotl_def)

lemma rfc_outer_t37037036_steps8:
  "steps Parity2 10
     ([0x75BFD365, 0xCCF96444, 0x48B34254, 0xCA6C9CE3, 0xEC24D8C0, 0xDCDB0A07, 0x28DB743B, 0xE3DB072A,
      0x7AB2D21B, 0x3C71D6E0, 0xB80959F1, 0xF50ADBF4, 0x1A3C04A3, 0xBE70E2AF, 0xFE5E0B8F, 0x12AFAD2A],
      (0x593E00BF, 0x7D0139AE, 0x6A803943, 0x70563B0F, 0xFE59C1E0))
   = ([0xB80959F1, 0xF50ADBF4, 0x1A3C04A3, 0xBE70E2AF, 0xFE5E0B8F, 0x12AFAD2A, 0xF39D430B, 0x89744B91,
      0x1C62DC9E, 0x20401C36, 0xAF6FC792, 0x3A246639, 0x18EF6333, 0xC4D576E4, 0x16055DB0, 0xB1C04B6C],
      (0x8ECE4518, 0xDD307C4E, 0x9360B34B, 0x7213CD05, 0x1430A1EF))"
  by (simp add: steps_numeral rotl_def)

lemma rfc_outer_t37037036:
  "compress (0x98BDBDCD, 0x58E07BFE, 0xAD5CDDEA, 0x3AC0430B, 0xFE106825)
     [0xA6, 0xC6, 0xE8, 0x2D, 0x15, 0x75, 0x1D, 0xCA, 0xC1, 0xC6, 0xBA, 0x17, 0x1F, 0xC4, 0xB1, 0xF3,
     0xD1, 0x0B, 0xAF, 0x9A, 0x80, 0x00, 0x00, 0x00, 0x00, 0x00, 0x00, 0x00, 0x00, 0x00, 0x00, 0x00,
     0x00, 0x00, 0x00, 0x00, 0x00, 0x00, 0x00, 0x00, 0x00, 0x00, 0x00, 0x00, 0x00, 0x00, 0x00, 0x00,
     0x00, 0x00, 0x00, 0x00, 0x00, 0x00, 0x00, 0x00, 0x00, 0x00, 0x00, 0x00, 0x00, 0x00, 0x02, 0xA0]
   = (0x278C02E5, 0x3610F84C, 0x40BD9135, 0xACD41010, 0x12410A14)"
  unfolding compress_def rfc_outer_t37037036_words steps_20
    rfc_outer_t37037036_steps1 rfc_outer_t37037036_steps2
    rfc_outer_t37037036_steps3 rfc_outer_t37037036_steps4
    rfc_outer_t37037036_steps5 rfc_outer_t37037036_steps6
    rfc_outer_t37037036_steps7 rfc_outer_t37037036_steps8
  by (simp add: add_state_def)

lemma rfc_inner_t37037037_words:
  "words_of
     [0x00, 0x00, 0x00, 0x00, 0x02, 0x35, 0x23, 0xED, 0x80, 0x00, 0x00, 0x00, 0x00, 0x00, 0x00, 0x00,
     0x00, 0x00, 0x00, 0x00, 0x00, 0x00, 0x00, 0x00, 0x00, 0x00, 0x00, 0x00, 0x00, 0x00, 0x00, 0x00,
     0x00, 0x00, 0x00, 0x00, 0x00, 0x00, 0x00, 0x00, 0x00, 0x00, 0x00, 0x00, 0x00, 0x00, 0x00, 0x00,
     0x00, 0x00, 0x00, 0x00, 0x00, 0x00, 0x00, 0x00, 0x00, 0x00, 0x00, 0x00, 0x00, 0x00, 0x02, 0x40]
   = [0x00000000, 0x023523ED, 0x80000000, 0x00000000, 0x00000000, 0x00000000, 0x00000000, 0x00000000,
     0x00000000, 0x00000000, 0x00000000, 0x00000000, 0x00000000, 0x00000000, 0x00000000, 0x00000240]"
  by (simp add: be32_def)

lemma rfc_inner_t37037037_steps1:
  "steps Ch 10
     ([0x00000000, 0x023523ED, 0x80000000, 0x00000000, 0x00000000, 0x00000000, 0x00000000, 0x00000000,
      0x00000000, 0x00000000, 0x00000000, 0x00000000, 0x00000000, 0x00000000, 0x00000000, 0x00000240],
      (0xCBC80C8C, 0xF599E2AC, 0xBDB8C832, 0xDA95C1C3, 0xF8683025))
   = ([0x00000000, 0x00000000, 0x00000000, 0x00000000, 0x00000000, 0x00000240, 0x00000001, 0x046A47DA,
      0x00000481, 0x00000002, 0x08D48FB4, 0x00000902, 0x00000004, 0x11A91BE8, 0x00001206, 0x08D48FBC],
      (0x46720823, 0x790251E2, 0xDACEFD35, 0xBEA14636, 0x8D87A9AD))"
  by (simp add: steps_numeral rotl_def)

lemma rfc_inner_t37037037_steps2:
  "steps Ch 10
     ([0x00000000, 0x00000000, 0x00000000, 0x00000000, 0x00000000, 0x00000240, 0x00000001, 0x046A47DA,
      0x00000481, 0x00000002, 0x08D48FB4, 0x00000902, 0x00000004, 0x11A91BE8, 0x00001206, 0x08D48FBC],
      (0x46720823, 0x790251E2, 0xDACEFD35, 0xBEA14636, 0x8D87A9AD))
   = ([0x08D48FB4, 0x00000902, 0x00000004, 0x11A91BE8, 0x00001206, 0x08D48FBC, 0x23523ED2, 0x00002408,
      0x00000010, 0x46A46B20, 0x0000481A, 0x2B86BCC4, 0x8D48FB4C, 0x197D00FC, 0x00001246, 0x1A91AC89],
      (0x128CF838, 0xC68DEA6B, 0x83A419C8, 0x12ABF12E, 0xBA558843))"
  by (simp add: steps_numeral rotl_def)

lemma rfc_inner_t37037037_steps3:
  "steps Parity1 10
     ([0x08D48FB4, 0x00000902, 0x00000004, 0x11A91BE8, 0x00001206, 0x08D48FBC, 0x23523ED2, 0x00002408,
      0x00000010, 0x46A46B20, 0x0000481A, 0x2B86BCC4, 0x8D48FB4C, 0x197D00FC, 0x00001246, 0x1A91AC89],
      (0x128CF838, 0xC68DEA6B, 0x83A419C8, 0x12ABF12E, 0xBA558843))
   = ([0x0000481A, 0x2B86BCC4, 0x8D48FB4C, 0x197D00FC, 0x00001246, 0x1A91AC89, 0x23531EB8, 0xAE1AD718,
      0x3523ED22, 0x23506C50, 0x00000100, 0x49148CD4, 0x000481A8, 0xB86BC542, 0xD48FB4CC, 0x867902A9],
      (0xC6286F83, 0x7E6AFBDF, 0x3A75AD76, 0xCD472B19, 0xE6AA8E4A))"
  by (simp add: steps_numeral rotl_def)

lemma rfc_inner_t37037037_steps4:
  "steps Parity1 10
     ([0x0000481A, 0x2B86BCC4, 0x8D48FB4C, 0x197D00FC, 0x00001246, 0x1A91AC89, 0x23531EB8, 0xAE1AD718,
      0x3523ED22, 0x23506C50, 0x00000100, 0x49148CD4, 0x000481A8, 0xB86BC542, 0xD48FB4CC, 0x867902A9],
      (0xC6286F83, 0x7E6AFBDF, 0x3A75AD76, 0xCD472B19, 0xE6AA8E4A))
   = ([0x00000100, 0x49148CD4, 0x000481A8, 0xB86BC542, 0xD48FB4CC, 0x867902A9, 0x0001366C, 0x8A48C949,
      0x1663D546, 0x95F22D9A, 0x523E883F, 0x3506D72A, 0xAE1AD598, 0xB21A63BC, 0x00481AC8, 0x9C2DF8AA],
      (0x34FA3488, 0xF97AF456, 0x4F26BC70, 0xEB516213, 0x7599F5A8))"
  by (simp add: steps_numeral rotl_def)

lemma rfc_inner_t37037037_steps5:
  "steps Maj 10
     ([0x00000100, 0x49148CD4, 0x000481A8, 0xB86BC542, 0xD48FB4CC, 0x867902A9, 0x0001366C, 0x8A48C949,
      0x1663D546, 0x95F22D9A, 0x523E883F, 0x3506D72A, 0xAE1AD598, 0xB21A63BC, 0x00481AC8, 0x9C2DF8AA],
      (0x34FA3488, 0xF97AF456, 0x4F26BC70, 0xEB516213, 0x7599F5A8))
   = ([0x523E883F, 0x3506D72A, 0xAE1AD598, 0xB21A63BC, 0x00481AC8, 0x9C2DF8AA, 0x48FA6CA5, 0xC98AFD88,
      0x35308BE2, 0x87DCF8C8, 0x663D5561, 0x1636477D, 0x23EC0255, 0xCB549231, 0x3522ED42, 0x95240ADA],
      (0x77C99975, 0xDE9F36FD, 0x0C92D8AE, 0x52681D75, 0xE698BE32))"
  by (simp add: steps_numeral rotl_def)

lemma rfc_inner_t37037037_steps6:
  "steps Maj 10
     ([0x523E883F, 0x3506D72A, 0xAE1AD598, 0xB21A63BC, 0x00481AC8, 0x9C2DF8AA, 0x48FA6CA5, 0xC98AFD88,
      0x35308BE2, 0x87DCF8C8, 0x663D5561, 0x1636477D, 0x23EC0255, 0xCB549231, 0x3522ED42, 0x95240ADA],
      (0x77C99975, 0xDE9F36FD, 0x0C92D8AE, 0x52681D75, 0xE698BE32))
   = ([0x663D5561, 0x1636477D, 0x23EC0255, 0xCB549231, 0x3522ED42, 0x95240ADA, 0x048088E8, 0x6BC54238,
      0xBA9721D6, 0x7902A906, 0x01366C00, 0x48C96D8A, 0x63D54606, 0xB488C735, 0x3E8877C2, 0x33F57717],
      (0x125AA910, 0x8DEDA839, 0xEB5EE0F3, 0xB1C751BD, 0x687702C4))"
  by (simp add: steps_numeral rotl_def)

lemma rfc_inner_t37037037_steps7:
  "steps Parity2 10
     ([0x663D5561, 0x1636477D, 0x23EC0255, 0xCB549231, 0x3522ED42, 0x95240ADA, 0x048088E8, 0x6BC54238,
      0xBA9721D6, 0x7902A906, 0x01366C00, 0x48C96D8A, 0x63D54606, 0xB488C735, 0x3E8877C2, 0x33F57717],
      (0x125AA910, 0x8DEDA839, 0xEB5EE0F3, 0xB1C751BD, 0x687702C4))
   = ([0x01366C00, 0x48C96D8A, 0x63D54606, 0xB488C735, 0x3E8877C2, 0x33F57717, 0x979D63AE, 0x35D01711,
      0x481BE800, 0x02492D9F, 0xCF4E697A, 0x04E4CFAE, 0x05ADE6C7, 0xDCF9EAA7, 0x51B1C3AC, 0x036C6AB4],
      (0x0296CA68, 0x3121C4A4, 0xC838A2DC, 0x9D6BA442, 0x38D08E27))"
  by (simp add: steps_numeral rotl_def)

lemma rfc_inner_t37037037_steps8:
  "steps Parity2 10
     ([0x01366C00, 0x48C96D8A, 0x63D54606, 0xB488C735, 0x3E8877C2, 0x33F57717, 0x979D63AE, 0x35D01711,
      0x481BE800, 0x02492D9F, 0xCF4E697A, 0x04E4CFAE, 0x05ADE6C7, 0xDCF9EAA7, 0x51B1C3AC, 0x036C6AB4],
      (0x0296CA68, 0x3121C4A4, 0xC838A2DC, 0x9D6BA442, 0x38D08E27))
   = ([0xCF4E697A, 0x04E4CFAE, 0x05ADE6C7, 0xDCF9EAA7, 0x51B1C3AC, 0x036C6AB4, 0xEC025143, 0x5F728919,
      0x22FE6415, 0xDF365D9E, 0xE794F765, 0xF045DD69, 0xA2022B38, 0xA6C34EBF, 0x36241AA1, 0xF7BA8021],
      (0x68E3336D, 0xBBDA8B2F, 0xDCEDA476, 0xD4F6CC46, 0xE27670FB))"
  by (simp add: steps_numeral rotl_def)

lemma rfc_inner_t37037037:
  "compress (0xCBC80C8C, 0xF599E2AC, 0xBDB8C832, 0xDA95C1C3, 0xF8683025)
     [0x00, 0x00, 0x00, 0x00, 0x02, 0x35, 0x23, 0xED, 0x80, 0x00, 0x00, 0x00, 0x00, 0x00, 0x00, 0x00,
     0x00, 0x00, 0x00, 0x00, 0x00, 0x00, 0x00, 0x00, 0x00, 0x00, 0x00, 0x00, 0x00, 0x00, 0x00, 0x00,
     0x00, 0x00, 0x00, 0x00, 0x00, 0x00, 0x00, 0x00, 0x00, 0x00, 0x00, 0x00, 0x00, 0x00, 0x00, 0x00,
     0x00, 0x00, 0x00, 0x00, 0x00, 0x00, 0x00, 0x00, 0x00, 0x00, 0x00, 0x00, 0x00, 0x00, 0x02, 0x40]
   = (0x34AB3FF9, 0xB1746DDB, 0x9AA66CA8, 0xAF8C8E09, 0xDADEA120)"
  unfolding compress_def rfc_inner_t37037037_words steps_20
    rfc_inner_t37037037_steps1 rfc_inner_t37037037_steps2
    rfc_inner_t37037037_steps3 rfc_inner_t37037037_steps4
    rfc_inner_t37037037_steps5 rfc_inner_t37037037_steps6
    rfc_inner_t37037037_steps7 rfc_inner_t37037037_steps8
  by (simp add: add_state_def)

lemma rfc_outer_t37037037_words:
  "words_of
     [0x34, 0xAB, 0x3F, 0xF9, 0xB1, 0x74, 0x6D, 0xDB, 0x9A, 0xA6, 0x6C, 0xA8, 0xAF, 0x8C, 0x8E, 0x09,
     0xDA, 0xDE, 0xA1, 0x20, 0x80, 0x00, 0x00, 0x00, 0x00, 0x00, 0x00, 0x00, 0x00, 0x00, 0x00, 0x00,
     0x00, 0x00, 0x00, 0x00, 0x00, 0x00, 0x00, 0x00, 0x00, 0x00, 0x00, 0x00, 0x00, 0x00, 0x00, 0x00,
     0x00, 0x00, 0x00, 0x00, 0x00, 0x00, 0x00, 0x00, 0x00, 0x00, 0x00, 0x00, 0x00, 0x00, 0x02, 0xA0]
   = [0x34AB3FF9, 0xB1746DDB, 0x9AA66CA8, 0xAF8C8E09, 0xDADEA120, 0x80000000, 0x00000000, 0x00000000,
     0x00000000, 0x00000000, 0x00000000, 0x00000000, 0x00000000, 0x00000000, 0x00000000, 0x000002A0]"
  by (simp add: be32_def)

lemma rfc_outer_t37037037_steps1:
  "steps Ch 10
     ([0x34AB3FF9, 0xB1746DDB, 0x9AA66CA8, 0xAF8C8E09, 0xDADEA120, 0x80000000, 0x00000000, 0x00000000,
      0x00000000, 0x00000000, 0x00000000, 0x00000000, 0x00000000, 0x00000000, 0x00000000, 0x000002A0],
      (0x98BDBDCD, 0x58E07BFE, 0xAD5CDDEA, 0x3AC0430B, 0xFE106825))
   = ([0x00000000, 0x00000000, 0x00000000, 0x00000000, 0x00000000, 0x000002A0, 0x5C1AA6A3, 0x3DF1C7A4,
      0x80F19E50, 0xE72C5154, 0xCE5ECD09, 0x01E33CA0, 0xCE58A2A9, 0x9CBD9F53, 0xBBF33406, 0xE752CA1B],
      (0x412797F8, 0x81B6D0F0, 0x34F18957, 0xB5CAE0AB, 0x78DC99EC))"
  by (simp add: steps_numeral rotl_def)

lemma rfc_outer_t37037037_steps2:
  "steps Ch 10
     ([0x00000000, 0x00000000, 0x00000000, 0x00000000, 0x00000000, 0x000002A0, 0x5C1AA6A3, 0x3DF1C7A4,
      0x80F19E50, 0xE72C5154, 0xCE5ECD09, 0x01E33CA0, 0xCE58A2A9, 0x9CBD9F53, 0xBBF33406, 0xE752CA1B],
      (0x412797F8, 0x81B6D0F0, 0x34F18957, 0xB5CAE0AB, 0x78DC99EC))
   = ([0xCE5ECD09, 0x01E33CA0, 0xCE58A2A9, 0x9CBD9F53, 0xBBF33406, 0xE752CA1B, 0x38980206, 0xB9BECAA4,
      0x52180E24, 0x72F6780C, 0x57F99D5C, 0xE6A8A8E7, 0x2BDCE9F2, 0xD4ED836E, 0x213FF371, 0xE95A9D44],
      (0x3C30029B, 0xA352EE1A, 0x642468D6, 0xFB3F43ED, 0xA4FBAE08))"
  by (simp add: steps_numeral rotl_def)

lemma rfc_outer_t37037037_steps3:
  "steps Parity1 10
     ([0xCE5ECD09, 0x01E33CA0, 0xCE58A2A9, 0x9CBD9F53, 0xBBF33406, 0xE752CA1B, 0x38980206, 0xB9BECAA4,
      0x52180E24, 0x72F6780C, 0x57F99D5C, 0xE6A8A8E7, 0x2BDCE9F2, 0xD4ED836E, 0x213FF371, 0xE95A9D44],
      (0x3C30029B, 0xA352EE1A, 0x642468D6, 0xFB3F43ED, 0xA4FBAE08))
   = ([0x57F99D5C, 0xE6A8A8E7, 0x2BDCE9F2, 0xD4ED836E, 0x213FF371, 0xE95A9D44, 0x0DE7C5D5, 0x9D2E511D,
      0x96112D6F, 0x214070F5, 0x6B331DDE, 0x38215D7C, 0xD5FF1F4C, 0x92426464, 0x604E17A2, 0xB91F3D75],
      (0x806FBBB3, 0x2FFCAD50, 0x796C1845, 0x69B68155, 0xB0A85C2B))"
  by (simp add: steps_numeral rotl_def)

lemma rfc_outer_t37037037_steps4:
  "steps Parity1 10
     ([0x57F99D5C, 0xE6A8A8E7, 0x2BDCE9F2, 0xD4ED836E, 0x213FF371, 0xE95A9D44, 0x0DE7C5D5, 0x9D2E511D,
      0x96112D6F, 0x214070F5, 0x6B331DDE, 0x38215D7C, 0xD5FF1F4C, 0x92426464, 0x604E17A2, 0xB91F3D75],
      (0x806FBBB3, 0x2FFCAD50, 0x796C1845, 0x69B68155, 0xB0A85C2B))
   = ([0x6B331DDE, 0x38215D7C, 0xD5FF1F4C, 0x92426464, 0x604E17A2, 0xB91F3D75, 0xF0EC7B4A, 0xE69699BC,
      0xB19E7451, 0xEAF47039, 0x3F6360A8, 0xAF51B8D8, 0x22991E42, 0x7424F86A, 0x453FE647, 0xBADD54EF],
      (0xD95AD4B8, 0x5FAB466E, 0x6A233C1E, 0xD7EEE957, 0x007C7B9A))"
  by (simp add: steps_numeral rotl_def)

lemma rfc_outer_t37037037_steps5:
  "steps Maj 10
     ([0x6B331DDE, 0x38215D7C, 0xD5FF1F4C, 0x92426464, 0x604E17A2, 0xB91F3D75, 0xF0EC7B4A, 0xE69699BC,
      0xB19E7451, 0xEAF47039, 0x3F6360A8, 0xAF51B8D8, 0x22991E42, 0x7424F86A, 0x453FE647, 0xBADD54EF],
      (0xD95AD4B8, 0x5FAB466E, 0x6A233C1E, 0xD7EEE957, 0x007C7B9A))
   = ([0x3F6360A8, 0xAF51B8D8, 0x22991E42, 0x7424F86A, 0x453FE647, 0xBADD54EF, 0xF6ED1D52, 0x0B515ECC,
      0x601E7952, 0xE5C3F936, 0x72D458CD, 0x97664BE2, 0xC31C20D5, 0x88D7CB4F, 0xDEEC8493, 0x1BD16DF1],
      (0x52160CB4, 0xDE99EA75, 0x35E0E2EE, 0x5CDB2E0E, 0x3F5D3CE5))"
  by (simp add: steps_numeral rotl_def)

lemma rfc_outer_t37037037_steps6:
  "steps Maj 10
     ([0x3F6360A8, 0xAF51B8D8, 0x22991E42, 0x7424F86A, 0x453FE647, 0xBADD54EF, 0xF6ED1D52, 0x0B515ECC,
      0x601E7952, 0xE5C3F936, 0x72D458CD, 0x97664BE2, 0xC31C20D5, 0x88D7CB4F, 0xDEEC8493, 0x1BD16DF1],
      (0x52160CB4, 0xDE99EA75, 0x35E0E2EE, 0x5CDB2E0E, 0x3F5D3CE5))
   = ([0x72D458CD, 0x97664BE2, 0xC31C20D5, 0x88D7CB4F, 0xDEEC8493, 0x1BD16DF1, 0xEA6799EF, 0xC0B47A2F,
      0x1D479A72, 0x67F0FD11, 0x60F543DF, 0x4838B63C, 0x5FDE3B04, 0x2B6D13A9, 0x612A1C99, 0xDB9FE7FF],
      (0xA26E26EB, 0x05986F42, 0xD246C246, 0xAF1833D6, 0x2FFC782D))"
  by (simp add: steps_numeral rotl_def)

lemma rfc_outer_t37037037_steps7:
  "steps Parity2 10
     ([0x72D458CD, 0x97664BE2, 0xC31C20D5, 0x88D7CB4F, 0xDEEC8493, 0x1BD16DF1, 0xEA6799EF, 0xC0B47A2F,
      0x1D479A72, 0x67F0FD11, 0x60F543DF, 0x4838B63C, 0x5FDE3B04, 0x2B6D13A9, 0x612A1C99, 0xDB9FE7FF],
      (0xA26E26EB, 0x05986F42, 0xD246C246, 0xAF1833D6, 0x2FFC782D))
   = ([0x60F543DF, 0x4838B63C, 0x5FDE3B04, 0x2B6D13A9, 0x612A1C99, 0xDB9FE7FF, 0x0FC5E387, 0x32D6C24A,
      0x4D3400CD, 0xA9F7E60B, 0xB307C864, 0x7A780975, 0x7FFBF21E, 0x9FB9514B, 0x101E66BE, 0xC5CAF6F2],
      (0xCCA0B57A, 0x65664E0A, 0x5C43AA04, 0xAAC04710, 0xC347BE41))"
  by (simp add: steps_numeral rotl_def)

lemma rfc_outer_t37037037_steps8:
  "steps Parity2 10
     ([0x60F543DF, 0x4838B63C, 0x5FDE3B04, 0x2B6D13A9, 0x612A1C99, 0xDB9FE7FF, 0x0FC5E387, 0x32D6C24A,
      0x4D3400CD, 0xA9F7E60B, 0xB307C864, 0x7A780975, 0x7FFBF21E, 0x9FB9514B, 0x101E66BE, 0xC5CAF6F2],
      (0xCCA0B57A, 0x65664E0A, 0x5C43AA04, 0xAAC04710, 0xC347BE41))
   = ([0xB307C864, 0x7A780975, 0x7FFBF21E, 0x9FB9514B, 0x101E66BE, 0xC5CAF6F2, 0xDB4C52BB, 0xB5784A41,
      0x90723216, 0xA38D5F30, 0x48D88E83, 0xCD048DD1, 0xE2C5B589, 0x2C66B860, 0xD0F62F87, 0x0864216D],
      (0x174B6D54, 0x77683322, 0xF043C3F3, 0x99D86ADD, 0xA9841FC8))"
  by (simp add: steps_numeral rotl_def)

lemma rfc_outer_t37037037:
  "compress (0x98BDBDCD, 0x58E07BFE, 0xAD5CDDEA, 0x3AC0430B, 0xFE106825)
     [0x34, 0xAB, 0x3F, 0xF9, 0xB1, 0x74, 0x6D, 0xDB, 0x9A, 0xA6, 0x6C, 0xA8, 0xAF, 0x8C, 0x8E, 0x09,
     0xDA, 0xDE, 0xA1, 0x20, 0x80, 0x00, 0x00, 0x00, 0x00, 0x00, 0x00, 0x00, 0x00, 0x00, 0x00, 0x00,
     0x00, 0x00, 0x00, 0x00, 0x00, 0x00, 0x00, 0x00, 0x00, 0x00, 0x00, 0x00, 0x00, 0x00, 0x00, 0x00,
     0x00, 0x00, 0x00, 0x00, 0x00, 0x00, 0x00, 0x00, 0x00, 0x00, 0x00, 0x00, 0x00, 0x00, 0x02, 0xA0]
   = (0xB0092B21, 0xD048AF20, 0x9DA0A1DD, 0xD498ADE8, 0xA79487ED)"
  unfolding compress_def rfc_outer_t37037037_words steps_20
    rfc_outer_t37037037_steps1 rfc_outer_t37037037_steps2
    rfc_outer_t37037037_steps3 rfc_outer_t37037037_steps4
    rfc_outer_t37037037_steps5 rfc_outer_t37037037_steps6
    rfc_outer_t37037037_steps7 rfc_outer_t37037037_steps8
  by (simp add: add_state_def)

lemma rfc_hmac_t0:
  "hmac_sha1 [0x31, 0x32, 0x33, 0x34, 0x35, 0x36, 0x37, 0x38, 0x39, 0x30, 0x31, 0x32, 0x33, 0x34, 0x35, 0x36,
    0x37, 0x38, 0x39, 0x30]
     [0x00, 0x00, 0x00, 0x00, 0x00, 0x00, 0x00, 0x00]
   = [0xCC, 0x93, 0xCF, 0x18, 0x50, 0x8D, 0x94, 0x93, 0x4C, 0x64, 0xB6, 0x5D, 0x8B, 0xA7, 0x66, 0x7F,
     0xB7, 0xCD, 0xE4, 0xB0]"
  by (simp add: hmac_sha1_short replicate_numeral sha1_init_def be64_def digest_of_def bytes_of_def
      rfc_ipad rfc_opad rfc_inner_t0 rfc_outer_t0)

lemma rfc_hmac_t1:
  "hmac_sha1 [0x31, 0x32, 0x33, 0x34, 0x35, 0x36, 0x37, 0x38, 0x39, 0x30, 0x31, 0x32, 0x33, 0x34, 0x35, 0x36,
    0x37, 0x38, 0x39, 0x30]
     [0x00, 0x00, 0x00, 0x00, 0x00, 0x00, 0x00, 0x01]
   = [0x75, 0xA4, 0x8A, 0x19, 0xD4, 0xCB, 0xE1, 0x00, 0x64, 0x4E, 0x8A, 0xC1, 0x39, 0x7E, 0xEA, 0x74,
     0x7A, 0x2D, 0x33, 0xAB]"
  by (simp add: hmac_sha1_short replicate_numeral sha1_init_def be64_def digest_of_def bytes_of_def
      rfc_ipad rfc_opad rfc_inner_t1 rfc_outer_t1)

lemma rfc_hmac_t37037036:
  "hmac_sha1 [0x31, 0x32, 0x33, 0x34, 0x35, 0x36, 0x37, 0x38, 0x39, 0x30, 0x31, 0x32, 0x33, 0x34, 0x35, 0x36,
    0x37, 0x38, 0x39, 0x30]
     [0x00, 0x00, 0x00, 0x00, 0x02, 0x35, 0x23, 0xEC]
   = [0x27, 0x8C, 0x02, 0xE5, 0x36, 0x10, 0xF8, 0x4C, 0x40, 0xBD, 0x91, 0x35, 0xAC, 0xD4, 0x10, 0x10,
     0x12, 0x41, 0x0A, 0x14]"
  by (simp add: hmac_sha1_short replicate_numeral sha1_init_def be64_def digest_of_def bytes_of_def
      rfc_ipad rfc_opad rfc_inner_t37037036 rfc_outer_t37037036)

lemma rfc_hmac_t37037037:
  "hmac_sha1 [0x31, 0x32, 0x33, 0x34, 0x35, 0x36, 0x37, 0x38, 0x39, 0x30, 0x31, 0x32, 0x33, 0x34, 0x35, 0x36,
    0x37, 0x38, 0x39, 0x30]
     [0x00, 0x00, 0x00, 0x00, 0x02, 0x35, 0x23, 0xED]
   = [0xB0, 0x09, 0x2B, 0x21, 0xD0, 0x48, 0xAF, 0x20, 0x9D, 0xA0, 0xA1, 0xDD, 0xD4, 0x98, 0xAD, 0xE8,
     0xA7, 0x94, 0x87, 0xED]"
  by (simp add: hmac_sha1_short replicate_numeral sha1_init_def be64_def digest_of_def bytes_of_def
      rfc_ipad rfc_opad rfc_inner_t37037037 rfc_outer_t37037037)

lemma rfc_inner_t1077665_words:
  "words_of
     [0x00, 0x00, 0x00, 0x00, 0x00, 0x10, 0x71, 0xA1, 0x80, 0x00, 0x00, 0x00, 0x00, 0x00, 0x00, 0x00,
     0x00, 0x00, 0x00, 0x00, 0x00, 0x00, 0x00, 0x00, 0x00, 0x00, 0x00, 0x00, 0x00, 0x00, 0x00, 0x00,
     0x00, 0x00, 0x00, 0x00, 0x00, 0x00, 0x00, 0x00, 0x00, 0x00, 0x00, 0x00, 0x00, 0x00, 0x00, 0x00,
     0x00, 0x00, 0x00, 0x00, 0x00, 0x00, 0x00, 0x00, 0x00, 0x00, 0x00, 0x00, 0x00, 0x00, 0x02, 0x40]
   = [0x00000000, 0x001071A1, 0x80000000, 0x00000000, 0x00000000, 0x00000000, 0x00000000, 0x00000000,
     0x00000000, 0x00000000, 0x00000000, 0x00000000, 0x00000000, 0x00000000, 0x00000000, 0x00000240]"
  by (simp add: be32_def)

lemma rfc_inner_t1077665_steps1:
  "steps Ch 10
     ([0x00000000, 0x001071A1, 0x80000000, 0x00000000, 0x00000000, 0x00000000, 0x00000000, 0x00000000,
      0x00000000, 0x00000000, 0x00000000, 0x00000000, 0x00000000, 0x00000000, 0x00000000, 0x00000240],
      (0xCBC80C8C, 0xF599E2AC, 0xBDB8C832, 0xDA95C1C3, 0xF8683025))
   = ([0x00000000, 0x00000000, 0x00000000, 0x00000000, 0x00000000, 0x00000240, 0x00000001, 0x0020E342,
      0x00000481, 0x00000002, 0x0041C684, 0x00000902, 0x00000004, 0x00838988, 0x00001206, 0x0041C68C],
      (0x35343800, 0x069FD12B, 0x0180C564, 0x01AA2E35, 0xE7E4CCC6))"
  by (simp add: steps_numeral rotl_def)

lemma rfc_inner_t1077665_steps2:
  "steps Ch 10
     ([0x00000000, 0x00000000, 0x00000000, 0x00000000, 0x00000000, 0x00000240, 0x00000001, 0x0020E342,
      0x00000481, 0x00000002, 0x0041C684, 0x00000902, 0x00000004, 0x00838988, 0x00001206, 0x0041C68C],
      (0x35343800, 0x069FD12B, 0x0180C564, 0x01AA2E35, 0xE7E4CCC6))
   = ([0x0041C684, 0x00000902, 0x00000004, 0x00838988, 0x00001206, 0x0041C68C, 0x01071A12, 0x00002408,
      0x00000010, 0x020E22A0, 0x0000481A, 0x0146D134, 0x041C684C, 0x00C2DBAC, 0x00001246, 0x08388A88],
      (0x8042150A, 0xF7CD35C0, 0xA1CA0E1E, 0x3BEAB2B1, 0x84E33B88))"
  by (simp add: steps_numeral rotl_def)

lemma rfc_inner_t1077665_steps3:
  "steps Parity1 10
     ([0x0041C684, 0x00000902, 0x00000004, 0x00838988, 0x00001206, 0x0041C68C, 0x01071A12, 0x00002408,
      0x00000010, 0x020E22A0, 0x0000481A, 0x0146D134, 0x041C684C, 0x00C2DBAC, 0x00001246, 0x08388A88],
      (0x8042150A, 0xF7CD35C0, 0xA1CA0E1E, 0x3BEAB2B1, 0x84E33B88))
   = ([0x0000481A, 0x0146D134, 0x041C684C, 0x00C2DBAC, 0x00001246, 0x08388A88, 0x01063A78, 0x051B60D8,
      0x1071A120, 0x01054890, 0x00000100, 0x21E53010, 0x000481A8, 0x146D1A40, 0x41C684C4, 0x0CAE25C8],
      (0x51E6E900, 0xC744B3C2, 0xFC993902, 0x59FDC42C, 0x17777BF4))"
  by (simp add: steps_numeral rotl_def)

lemma rfc_inner_t1077665_steps4:
  "steps Parity1 10
     ([0x0000481A, 0x0146D134, 0x041C684C, 0x00C2DBAC, 0x00001246, 0x08388A88, 0x01063A78, 0x051B60D8,
      0x1071A120, 0x01054890, 0x00000100, 0x21E53010, 0x000481A8, 0x146D1A40, 0x41C684C4, 0x0CAE25C8],
      (0x51E6E900, 0xC744B3C2, 0xFC993902, 0x59FDC42C, 0x17777BF4))
   = ([0x00000100, 0x21E53010, 0x000481A8, 0x146D1A40, 0x41C684C4, 0x0CAE25C8, 0x0001366C, 0x828F8D98,
      0x1164BD84, 0x523CAEB0, 0x071A481D, 0x10549B28, 0x051B6258, 0x1F548B3A, 0x00481AC8, 0x4EE92E81],
      (0x278B3ED4, 0x07275E85, 0xE676E46C, 0x3DE7EB67, 0xC97E0009))"
  by (simp add: steps_numeral rotl_def)

lemma rfc_inner_t1077665_steps5:
  "steps Maj 10
     ([0x00000100, 0x21E53010, 0x000481A8, 0x146D1A40, 0x41C684C4, 0x0CAE25C8, 0x0001366C, 0x828F8D98,
      0x1164BD84, 0x523CAEB0, 0x071A481D, 0x10549B28, 0x051B6258, 0x1F548B3A, 0x00481AC8, 0x4EE92E81],
      (0x278B3ED4, 0x07275E85, 0xE676E46C, 0x3DE7EB67, 0xC97E0009))
   = ([0x071A481D, 0x10549B28, 0x051B6258, 0x1F548B3A, 0x00481AC8, 0x4EE92E81, 0x1C696C2C, 0xCFF93C50,
      0x1062C7E0, 0x29FD9118, 0x164BD941, 0x022FC915, 0x71A00070, 0x1023A9D1, 0x1070A140, 0xF8621371],
      (0xA2684AA9, 0x017E81A0, 0x634FF0EE, 0x5FF6E222, 0x58854F50))"
  by (simp add: steps_numeral rotl_def)

lemma rfc_inner_t1077665_steps6:
  "steps Maj 10
     ([0x071A481D, 0x10549B28, 0x051B6258, 0x1F548B3A, 0x00481AC8, 0x4EE92E81, 0x1C696C2C, 0xCFF93C50,
      0x1062C7E0, 0x29FD9118, 0x164BD941, 0x022FC915, 0x71A00070, 0x1023A9D1, 0x1070A140, 0xF8621371],
      (0xA2684AA9, 0x017E81A0, 0x634FF0EE, 0x5FF6E222, 0x58854F50))
   = ([0x164BD941, 0x022FC915, 0x71A00070, 0x1023A9D1, 0x1070A140, 0xF8621371, 0x048088E8, 0x6D1A4094,
      0xD6F56541, 0xAE25C88C, 0x01366C00, 0x8F8DBC82, 0x64BD8401, 0x3EA1A472, 0x1A485597, 0x44EB3930],
      (0x3D49F0CC, 0x8AEE6AAF, 0x073758D7, 0x34E53E5E, 0xECFFCC34))"
  by (simp add: steps_numeral rotl_def)

lemma rfc_inner_t1077665_steps7:
  "steps Parity2 10
     ([0x164BD941, 0x022FC915, 0x71A00070, 0x1023A9D1, 0x1070A140, 0xF8621371, 0x048088E8, 0x6D1A4094,
      0xD6F56541, 0xAE25C88C, 0x01366C00, 0x8F8DBC82, 0x64BD8401, 0x3EA1A472, 0x1A485597, 0x44EB3930],
      (0x3D49F0CC, 0x8AEE6AAF, 0x073758D7, 0x34E53E5E, 0xECFFCC34))
   = ([0x01366C00, 0x8F8DBC82, 0x64BD8401, 0x3EA1A472, 0x1A485597, 0x44EB3930, 0x1F7E3005, 0x4CC3FBBF,
      0x481BE800, 0xF1646C4E, 0x791CAC2C, 0xC7843F2F, 0x72B3A8E0, 0xFD903A09, 0x1E720CD6, 0x3FB04EA2],
      (0xAA409158, 0x13647F76, 0xD9D722CC, 0x975E398B, 0x44AE5F4C))"
  by (simp add: steps_numeral rotl_def)

lemma rfc_inner_t1077665_steps8:
  "steps Parity2 10
     ([0x01366C00, 0x8F8DBC82, 0x64BD8401, 0x3EA1A472, 0x1A485597, 0x44EB3930, 0x1F7E3005, 0x4CC3FBBF,
      0x481BE800, 0xF1646C4E, 0x791CAC2C, 0xC7843F2F, 0x72B3A8E0, 0xFD903A09, 0x1E720CD6, 0x3FB04EA2],
      (0xAA409158, 0x13647F76, 0xD9D722CC, 0x975E398B, 0x44AE5F4C))
   = ([0x791CAC2C, 0xC7843F2F, 0x72B3A8E0, 0xFD903A09, 0x1E720CD6, 0x3FB04EA2, 0xA0007411, 0xBC74F0D0,
      0x70B26630, 0x3B9DACF8, 0x97E27B45, 0x0A153D6D, 0xE514F056, 0x2BEB442C, 0x36241AA1, 0xDF00A7CE],
      (0xECFB3948, 0x2880E736, 0x5F944A19, 0x45A00FCD, 0x59970136))"
  by (simp add: steps_numeral rotl_def)

lemma rfc_inner_t1077665:
  "compress (0xCBC80C8C, 0xF599E2AC, 0xBDB8C832, 0xDA95C1C3, 0xF8683025)
     [0x00, 0x00, 0x00, 0x00, 0x00, 0x10, 0x71, 0xA1, 0x80, 0x00, 0x00, 0x00, 0x00, 0x00, 0x00, 0x00,
     0x00, 0x00, 0x00, 0x00, 0x00, 0x00, 0x00, 0x00, 0x00, 0x00, 0x00, 0x00, 0x00, 0x00, 0x00, 0x00,
     0x00, 0x00, 0x00, 0x00, 0x00, 0x00, 0x00, 0x00, 0x00, 0x00, 0x00, 0x00, 0x00, 0x00, 0x00, 0x00,
     0x00, 0x00, 0x00, 0x00, 0x00, 0x00, 0x00, 0x00, 0x00, 0x00, 0x00, 0x00, 0x00, 0x00, 0x02, 0x40]
   = (0xB8C345D4, 0x1E1AC9E2, 0x1D4D124B, 0x2035D190, 0x51FF315B)"
  unfolding compress_def rfc_inner_t1077665_words steps_20
    rfc_inner_t1077665_steps1 rfc_inner_t1077665_steps2 rfc_inner_t1077665_steps3
    rfc_inner_t1077665_steps4 rfc_inner_t1077665_steps5 rfc_inner_t1077665_steps6
    rfc_inner_t1077665_steps7 rfc_inner_t1077665_steps8
  by (simp add: add_state_def)

lemma rfc_outer_t1077665_words:
  "words_of
     [0xB8, 0xC3, 0x45, 0xD4, 0x1E, 0x1A, 0xC9, 0xE2, 0x1D, 0x4D, 0x12, 0x4B, 0x20, 0x35, 0xD1, 0x90,
     0x51, 0xFF, 0x31, 0x5B, 0x80, 0x00, 0x00, 0x00, 0x00, 0x00, 0x00, 0x00, 0x00, 0x00, 0x00, 0x00,
     0x00, 0x00, 0x00, 0x00, 0x00, 0x00, 0x00, 0x00, 0x00, 0x00, 0x00, 0x00, 0x00, 0x00, 0x00, 0x00,
     0x00, 0x00, 0x00, 0x00, 0x00, 0x00, 0x00, 0x00, 0x00, 0x00, 0x00, 0x00, 0x00, 0x00, 0x02, 0xA0]
   = [0xB8C345D4, 0x1E1AC9E2, 0x1D4D124B, 0x2035D190, 0x51FF315B, 0x80000000, 0x00000000, 0x00000000,
     0x00000000, 0x00000000, 0x00000000, 0x00000000, 0x00000000, 0x00000000, 0x00000000, 0x000002A0]"
  by (simp add: be32_def)

lemma rfc_outer_t1077665_steps1:
  "steps Ch 10
     ([0xB8C345D4, 0x1E1AC9E2, 0x1D4D124B, 0x2035D190, 0x51FF315B, 0x80000000, 0x00000000, 0x00000000,
      0x00000000, 0x00000000, 0x00000000, 0x00000000, 0x00000000, 0x00000000, 0x00000000, 0x000002A0],
      (0x98BDBDCD, 0x58E07BFE, 0xAD5CDDEA, 0x3AC0430B, 0xFE106825))
   = ([0x00000000, 0x00000000, 0x00000000, 0x00000000, 0x00000000, 0x000002A0, 0x4B1CAF3F, 0x7C5E30E4,
      0x99644360, 0xD652FD5F, 0x5B42037E, 0x32C886C0, 0xACA5FABF, 0xB68403BC, 0xF3A853FE, 0xA1F794B7],
      (0x3A85CED0, 0xF94A60D4, 0xBA22DA16, 0xF5F701B3, 0xCB73D788))"
  by (simp add: steps_numeral rotl_def)

lemma rfc_outer_t1077665_steps2:
  "steps Ch 10
     ([0x00000000, 0x00000000, 0x00000000, 0x00000000, 0x00000000, 0x000002A0, 0x4B1CAF3F, 0x7C5E30E4,
      0x99644360, 0xD652FD5F, 0x5B42037E, 0x32C886C0, 0xACA5FABF, 0xB68403BC, 0xF3A853FE, 0xA1F794B7],
      (0x3A85CED0, 0xF94A60D4, 0xBA22DA16, 0xF5F701B3, 0xCB73D788))
   = ([0x5B42037E, 0x32C886C0, 0xACA5FABF, 0xB68403BC, 0xF3A853FE, 0xA1F794B7, 0x5FC081B8, 0x4BF55D42,
      0xF56B2F93, 0xDA100BB0, 0x58981185, 0x7F623CD6, 0xF7816823, 0xA6C69112, 0xC509FAE1, 0xB1DC9DFC],
      (0xB0CE9DC2, 0x8C2AF9E1, 0x2BE330F7, 0x7195EC2F, 0xB57A972A))"
  by (simp add: steps_numeral rotl_def)

lemma rfc_outer_t1077665_steps3:
  "steps Parity1 10
     ([0x5B42037E, 0x32C886C0, 0xACA5FABF, 0xB68403BC, 0xF3A853FE, 0xA1F794B7, 0x5FC081B8, 0x4BF55D42,
      0xF56B2F93, 0xDA100BB0, 0x58981185, 0x7F623CD6, 0xF7816823, 0xA6C69112, 0xC509FAE1, 0xB1DC9DFC],
      (0xB0CE9DC2, 0x8C2AF9E1, 0x2BE330F7, 0x7195EC2F, 0xB57A972A))
   = ([0x58981185, 0x7F623CD6, 0xF7816823, 0xA6C69112, 0xC509FAE1, 0xB1DC9DFC, 0x48948E81, 0x36AAE85B,
      0x6C924A71, 0x410A4AB8, 0xDA86A47C, 0x40AC252C, 0x5D503CE4, 0xF57EDEE5, 0x4B972B77, 0x9D11C7B3],
      (0xCFB0549C, 0xF84F5361, 0xE16AF9BB, 0xC7BCEE86, 0x7AB33ACF))"
  by (simp add: steps_numeral rotl_def)

lemma rfc_outer_t1077665_steps4:
  "steps Parity1 10
     ([0x58981185, 0x7F623CD6, 0xF7816823, 0xA6C69112, 0xC509FAE1, 0xB1DC9DFC, 0x48948E81, 0x36AAE85B,
      0x6C924A71, 0x410A4AB8, 0xDA86A47C, 0x40AC252C, 0x5D503CE4, 0xF57EDEE5, 0x4B972B77, 0x9D11C7B3],
      (0xCFB0549C, 0xF84F5361, 0xE16AF9BB, 0xC7BCEE86, 0x7AB33ACF))
   = ([0xDA86A47C, 0x40AC252C, 0x5D503CE4, 0xF57EDEE5, 0x4B972B77, 0x9D11C7B3, 0x6DEBDA64, 0xA6739817,
      0xEA3FE21A, 0x74BBE74C, 0xED7DA126, 0x306E92B1, 0x36541196, 0x0F9988EC, 0xD7234DB1, 0x2303CC2B],
      (0xEC71D403, 0xC08A2E32, 0xC44DA727, 0x2B01E437, 0xD1B2CC3A))"
  by (simp add: steps_numeral rotl_def)

lemma rfc_outer_t1077665_steps5:
  "steps Maj 10
     ([0xDA86A47C, 0x40AC252C, 0x5D503CE4, 0xF57EDEE5, 0x4B972B77, 0x9D11C7B3, 0x6DEBDA64, 0xA6739817,
      0xEA3FE21A, 0x74BBE74C, 0xED7DA126, 0x306E92B1, 0x36541196, 0x0F9988EC, 0xD7234DB1, 0x2303CC2B],
      (0xEC71D403, 0xC08A2E32, 0xC44DA727, 0x2B01E437, 0xD1B2CC3A))
   = ([0xED7DA126, 0x306E92B1, 0x36541196, 0x0F9988EC, 0xD7234DB1, 0x2303CC2B, 0xC4E1E4DC, 0x2C94A268,
      0xB172F53D, 0x39C0DE77, 0x797885DA, 0x0B1244EB, 0xD26F5770, 0x11666D55, 0x9163C617, 0x745D01CB],
      (0xA8A853C7, 0xCDF78854, 0x40E5BFB9, 0x746DB1AC, 0x8A01EF29))"
  by (simp add: steps_numeral rotl_def)

lemma rfc_outer_t1077665_steps6:
  "steps Maj 10
     ([0xED7DA126, 0x306E92B1, 0x36541196, 0x0F9988EC, 0xD7234DB1, 0x2303CC2B, 0xC4E1E4DC, 0x2C94A268,
      0xB172F53D, 0x39C0DE77, 0x797885DA, 0x0B1244EB, 0xD26F5770, 0x11666D55, 0x9163C617, 0x745D01CB],
      (0xA8A853C7, 0xCDF78854, 0x40E5BFB9, 0x746DB1AC, 0x8A01EF29))
   = ([0x797885DA, 0x0B1244EB, 0xD26F5770, 0x11666D55, 0x9163C617, 0x745D01CB, 0xF67A51B0, 0x2EA8047B,
      0xD8A5B06D, 0xA3E4A339, 0xDE0BF4CD, 0x8CA966F7, 0x8E28E99E, 0x7E051233, 0x65B28F41, 0x24A4EEF3],
      (0x11964240, 0xA3662954, 0xF5F74EA9, 0x3DCCAA2B, 0x9AC2208C))"
  by (simp add: steps_numeral rotl_def)

lemma rfc_outer_t1077665_steps7:
  "steps Parity2 10
     ([0x797885DA, 0x0B1244EB, 0xD26F5770, 0x11666D55, 0x9163C617, 0x745D01CB, 0xF67A51B0, 0x2EA8047B,
      0xD8A5B06D, 0xA3E4A339, 0xDE0BF4CD, 0x8CA966F7, 0x8E28E99E, 0x7E051233, 0x65B28F41, 0x24A4EEF3],
      (0x11964240, 0xA3662954, 0xF5F74EA9, 0x3DCCAA2B, 0x9AC2208C))
   = ([0xDE0BF4CD, 0x8CA966F7, 0x8E28E99E, 0x7E051233, 0x65B28F41, 0x24A4EEF3, 0x1B6EE1E8, 0xB8440B8D,
      0x734716B3, 0xE5F9D703, 0xA2EAEB68, 0xAF6E0260, 0x5D29733F, 0x160545B2, 0x655D4E51, 0x94417AF9],
      (0x4CAAE830, 0x14328948, 0xEF9C5E01, 0x8C73704C, 0x5E8D8A18))"
  by (simp add: steps_numeral rotl_def)

lemma rfc_outer_t1077665_steps8:
  "steps Parity2 10
     ([0xDE0BF4CD, 0x8CA966F7, 0x8E28E99E, 0x7E051233, 0x65B28F41, 0x24A4EEF3, 0x1B6EE1E8, 0xB8440B8D,
      0x734716B3, 0xE5F9D703, 0xA2EAEB68, 0xAF6E0260, 0x5D29733F, 0x160545B2, 0x655D4E51, 0x94417AF9],
      (0x4CAAE830, 0x14328948, 0xEF9C5E01, 0x8C73704C, 0x5E8D8A18))
   = ([0xA2EAEB68, 0xAF6E0260, 0x5D29733F, 0x160545B2, 0x655D4E51, 0x94417AF9, 0x6AC29CA4, 0xE411DB2C,
      0xBA63EE9D, 0x3E1AC409, 0x8FC98D75, 0x610C9CA2, 0x66DCFA06, 0x8C6A5604, 0xB4C7FBBB, 0x90B5E893],
      (0x06B57F94, 0x7B51E56B, 0x56B0D6E9, 0x0614716D, 0x31982083))"
  by (simp add: steps_numeral rotl_def)

lemma rfc_outer_t1077665:
  "compress (0x98BDBDCD, 0x58E07BFE, 0xAD5CDDEA, 0x3AC0430B, 0xFE106825)
     [0xB8, 0xC3, 0x45, 0xD4, 0x1E, 0x1A, 0xC9, 0xE2, 0x1D, 0x4D, 0x12, 0x4B, 0x20, 0x35, 0xD1, 0x90,
     0x51, 0xFF, 0x31, 0x5B, 0x80, 0x00, 0x00, 0x00, 0x00, 0x00, 0x00, 0x00, 0x00, 0x00, 0x00, 0x00,
     0x00, 0x00, 0x00, 0x00, 0x00, 0x00, 0x00, 0x00, 0x00, 0x00, 0x00, 0x00, 0x00, 0x00, 0x00, 0x00,
     0x00, 0x00, 0x00, 0x00, 0x00, 0x00, 0x00, 0x00, 0x00, 0x00, 0x00, 0x00, 0x00, 0x00, 0x02, 0xA0]
   = (0x9F733D61, 0xD4326169, 0x040DB4D3, 0x40D4B478, 0x2FA888A8)"
  unfolding compress_def rfc_outer_t1077665_words steps_20
    rfc_outer_t1077665_steps1 rfc_outer_t1077665_steps2 rfc_outer_t1077665_steps3
    rfc_outer_t1077665_steps4 rfc_outer_t1077665_steps5 rfc_outer_t1077665_steps6
    rfc_outer_t1077665_steps7 rfc_outer_t1077665_steps8
  by (simp add: add_state_def)

lemma rfc_hmac_t1077665:
  "hmac_sha1 [0x31, 0x32, 0x33, 0x34, 0x35, 0x36, 0x37, 0x38, 0x39, 0x30, 0x31, 0x32, 0x33, 0x34, 0x35, 0x36,
    0x37, 0x38, 0x39, 0x30]
     [0x00, 0x00, 0x00, 0x00, 0x00, 0x10, 0x71, 0xA1]
   = [0x9F, 0x73, 0x3D, 0x61, 0xD4, 0x32, 0x61, 0x69, 0x04, 0x0D, 0xB4, 0xD3, 0x40, 0xD4, 0xB4, 0x78,
     0x2F, 0xA8, 0x88, 0xA8]"
  by (simp add: hmac_sha1_short replicate_numeral sha1_init_def be64_def digest_of_def bytes_of_def
      rfc_ipad rfc_opad rfc_inner_t1077665 rfc_outer_t1077665)

section \<open>Evaluating generateTOTP\<close>

lemma rfc_key:
  "base32Decode ''GEZDGNBVGY3TQOJQGEZDGNBVGY3TQOJQ'' =
     [0x31, 0x32, 0x33, 0x34, 0x35, 0x36, 0x37, 0x38, 0x39, 0x30, 0x31, 0x32, 0x33, 0x34, 0x35, 0x36,
     0x37, 0x38, 0x39, 0x30]"
  by (simp add: base32Decode_def cleanedInput_def remove_whitespace_def strip_padding_def
      toUpperCase_def toUpperCase_char_def isWhiteSpace_def alphabet_def Let_def)

lemma low_byte_Num: "low_byte (Num n) = word_of_int (n mod 256)"
  by (simp add: low_byte_def word_of_int_eq_iff take_bit_eq_mod)

lemma low_byte_not_finite: "low_byte NaN = 0" "low_byte PosInfinity = 0" "low_byte NegInfinity = 0"
  by (simp_all add: low_byte_def)

lemma fill_timeBuffer_numeral:
  "fill_timeBuffer (numeral k) t buf =
     fill_timeBuffer (pred_numeral k) (floor_div_256 t) (buf[pred_numeral k := low_byte t])"
  by (simp add: numeral_eq_Suc)

lemmas timeBuffer_eval = fill_timeBuffer_numeral replicate_numeral low_byte_Num low_byte_not_finite
  floor_div_256_def time_step_def

lemma timeBuffer_59: "fill_timeBuffer 8 (time_step 59000 30) (replicate 8 0) = [0x00, 0x00, 0x00, 0x00, 0x00, 0x00, 0x00, 0x01]"
  by (simp add: timeBuffer_eval)

lemma timeBuffer_1111111109:
  "fill_timeBuffer 8 (time_step 1111111109000 30) (replicate 8 0) = [0x00, 0x00, 0x00, 0x00, 0x02, 0x35, 0x23, 0xEC]"
  by (simp add: timeBuffer_eval)

lemma timeBuffer_1111111111:
  "fill_timeBuffer 8 (time_step 1111111111000 30) (replicate 8 0) = [0x00, 0x00, 0x00, 0x00, 0x02, 0x35, 0x23, 0xED]"
  by (simp add: timeBuffer_eval)

lemma timeBuffer_period_0: "fill_timeBuffer 8 (time_step 59000 0) (replicate 8 0) = [0x00, 0x00, 0x00, 0x00, 0x00, 0x00, 0x00, 0x00]"
  by (simp add: timeBuffer_eval)

lemma timeBuffer_32329950000:
  "fill_timeBuffer 8 (time_step 32329950000 30) (replicate 8 0) = [0x00, 0x00, 0x00, 0x00, 0x00, 0x10, 0x71, 0xA1]"
  by (simp add: timeBuffer_eval)

lemmas render_eval = truncation_value_def truncation_offset_def at_def Let_def js_rem_def
  toString_def decimal.simps padStart_def

lemma rfc_totp_59: "generateTOTP ''GEZDGNBVGY3TQOJQGEZDGNBVGY3TQOJQ'' 8 30 59000 = Inr ''94287082''"
  unfolding generateTOTP_cases rfc_key timeBuffer_59 rfc_hmac_t1
  by (simp add: render_eval)

lemma rfc_totp_1111111109: "generateTOTP ''GEZDGNBVGY3TQOJQGEZDGNBVGY3TQOJQ'' 8 30 1111111109000 = Inr ''07081804''"
  unfolding generateTOTP_cases rfc_key timeBuffer_1111111109 rfc_hmac_t37037036
  by (simp add: render_eval)

lemma rfc_totp_1111111111: "generateTOTP ''GEZDGNBVGY3TQOJQGEZDGNBVGY3TQOJQ'' 8 30 1111111111000 = Inr ''14050471''"
  unfolding generateTOTP_cases rfc_key timeBuffer_1111111111 rfc_hmac_t37037037
  by (simp add: render_eval)

lemma rfc_totp_period_0: "generateTOTP ''GEZDGNBVGY3TQOJQGEZDGNBVGY3TQOJQ'' 6 0 59000 = Inr ''755224''"
  unfolding generateTOTP_cases rfc_key timeBuffer_period_0 rfc_hmac_t0
  by (simp add: render_eval)

text \<open>
  A time at which the RFC key gives a code with leading zeros: at step 1077665 the truncated
  value is 68007123.
\<close>

lemma rfc_value_32329950000:
  "js_rem (truncation_value (hmac_sha1 (base32Decode ''GEZDGNBVGY3TQOJQGEZDGNBVGY3TQOJQ'')
      (fill_timeBuffer 8 (time_step 32329950000 30) (replicate 8 0)))) (10 ^ 6) = 7123"
  unfolding rfc_key timeBuffer_32329950000 rfc_hmac_t1077665
  by (simp add: render_eval)

lemma rfc_totp_32329950000:
  "generateTOTP ''GEZDGNBVGY3TQOJQGEZDGNBVGY3TQOJQ'' 6 30 32329950000 = Inr ''007123''"
  unfolding generateTOTP_cases rfc_key timeBuffer_32329950000 rfc_hmac_t1077665
  by (simp add: render_eval replicate_numeral)

section \<open>Properties of generateTOTP\<close>

text \<open>
  Claim C1. For the test key of RFC 6238, whose base32 encoding is
  \<^verbatim>\<open>GEZDGNBVGY3TQOJQGEZDGNBVGY3TQOJQ\<close>, with eight digits and the period 30,
  \<^const>\<open>generateTOTP\<close> returns \<^verbatim>\<open>94287082\<close> at the Unix time 59 s,
  \<^verbatim>\<open>07081804\<close> at 1111111109 s and \<^verbatim>\<open>14050471\<close> at 1111111111 s. The clock
  is in milliseconds.
\<close>

theorem generateTOTP_rfc6238:
  "generateTOTP ''GEZDGNBVGY3TQOJQGEZDGNBVGY3TQOJQ'' 8 30 (59 * 1000) = Inr ''94287082''
   \<and> generateTOTP ''GEZDGNBVGY3TQOJQGEZDGNBVGY3TQOJQ'' 8 30 (1111111109 * 1000) = Inr ''07081804''
   \<and> generateTOTP ''GEZDGNBVGY3TQOJQGEZDGNBVGY3TQOJQ'' 8 30 (1111111111 * 1000) = Inr ''14050471''"
  using rfc_totp_59 rfc_totp_1111111109 rfc_totp_1111111111 by simp

text \<open>
  Claim C10. For every 20-byte digest the offset of the dynamic truncation, the low nibble
  of the last byte, is at most 15, so the four indices \<open>offset \<dots> offset + 3\<close> are at
  most 18 and every read is a read of the digest; the combined value, with the top bit of
  its first byte masked, is a non-negative integer below \<open>2\<^sup>3\<^sup>1\<close>, and for every
  positive \<open>digits\<close> the remainder by \<open>10 ^ digits\<close> is the mathematical one.
\<close>

theorem dynamic_truncation_safe:
  assumes "length hmac = 20"
  shows "0 \<le> truncation_offset hmac \<and> truncation_offset hmac \<le> 15
    \<and> truncation_offset hmac + 3 \<le> 18
    \<and> (\<forall>j\<in>{0, 1, 2, 3}.
          at hmac (truncation_offset hmac + j) = ucast (hmac ! nat (truncation_offset hmac + j)))
    \<and> 0 \<le> truncation_value hmac \<and> truncation_value hmac < 2 ^ 31
    \<and> (0 < d \<longrightarrow>
          js_rem (truncation_value hmac) (10 ^ d) = truncation_value hmac mod 10 ^ d
          \<and> 0 \<le> js_rem (truncation_value hmac) (10 ^ d)
          \<and> js_rem (truncation_value hmac) (10 ^ d) < 10 ^ d)"
proof -
  note off = truncation_offset_range [of hmac]
  note val = truncation_value_range [of hmac]
  have "at hmac (truncation_offset hmac + j) = ucast (hmac ! nat (truncation_offset hmac + j))"
    if "j \<in> {0, 1, 2, 3}" for j
    using that off assms by (intro at_in_range) auto
  moreover have "js_rem (truncation_value hmac) (10 ^ d) = truncation_value hmac mod 10 ^ d"
    using val by (simp add: js_rem_nonneg)
  ultimately show ?thesis
    using off val by simp
qed

theorem dynamic_truncation_safe_witness:
  "length (replicate 20 (0xFF :: byte)) = 20 \<and> 0 < (6 :: nat)
   \<and> truncation_offset (replicate 20 0xFF) = 15
   \<and> truncation_value (replicate 20 0xFF) < 2 ^ 31
   \<and> 0 \<le> js_rem (truncation_value (replicate 20 0xFF)) (10 ^ 6)
   \<and> js_rem (truncation_value (replicate 20 0xFF)) (10 ^ 6) < 10 ^ 6"
proof -
  have l: "length (replicate 20 (0xFF :: byte)) = 20"
    by simp
  have o: "truncation_offset (replicate 20 0xFF) = 15"
    by (simp add: truncation_offset_def at_def)
  from dynamic_truncation_safe [OF l, of 6] l o show ?thesis
    by simp
qed

text \<open>
  Claim C8. Let \<^const>\<open>generateTOTP\<close> succeed with the string \<open>c\<close> for \<open>digits\<close> 6, 7 or 8, at
  any secret, period and time. Let \<open>hmac\<close> be the HMAC that the code computes there and
  \<open>v\<close> the number that it renders, the truncated value of \<open>hmac\<close> modulo \<open>10 ^ digits\<close>. Then

  \<^item> \<open>c\<close> has exactly \<open>digits\<close> characters;
  \<^item> \<open>c\<close> is the decimal text of \<open>v\<close>, which has at most \<open>digits\<close> characters, with the
    missing characters in front of it, all \<open>0\<close>: the padding is on the left;
  \<^item> every character of \<open>c\<close> is a decimal digit, and \<open>c\<close> read as a decimal number is \<open>v\<close>;
  \<^item> at six digits, if \<open>v\<close> is 7123 then \<open>c\<close> is \<^verbatim>\<open>007123\<close>.
\<close>

theorem generateTOTP_fixed_width:
  assumes "generateTOTP s d p now = Inr c" and "d \<in> {6, 7, 8}"
  shows "let timeBuffer = fill_timeBuffer 8 (time_step now p) (replicate 8 0);
             hmac = hmac_sha1 (base32Decode s) timeBuffer;
             v = js_rem (truncation_value hmac) (10 ^ d)
         in hmacSha1 (base32Decode s) timeBuffer = Inr hmac
          \<and> 0 \<le> v \<and> v < 10 ^ d \<and> v = truncation_value hmac mod 10 ^ d
          \<and> length c = d
          \<and> length (toString v) \<le> d
          \<and> c = replicate (d - length (toString v)) (CHR ''0'') @ toString v
          \<and> list_all is_digit c \<and> int (digits_value c) = v
          \<and> (d = 6 \<and> v = 7123 \<longrightarrow> c = ''007123'')"
proof -
  define timeBuffer where "timeBuffer = fill_timeBuffer 8 (time_step now p) (replicate 8 0)"
  define hmac where "hmac = hmac_sha1 (base32Decode s) timeBuffer"
  define v where "v = js_rem (truncation_value hmac) (10 ^ d)"
  from assms(1) have key: "base32Decode s \<noteq> []"
    by (simp add: generateTOTP_cases split: if_splits)
  then have h: "hmacSha1 (base32Decode s) timeBuffer = Inr hmac"
    by (simp add: hmacSha1_def hmac_def)
  from assms(1) have c: "c = padStart d (CHR ''0'') (toString v)"
    by (simp add: generateTOTP_cases v_def hmac_def timeBuffer_def split: if_splits)
  from assms(2) have d: "0 < d"
    by auto
  have t: "0 \<le> truncation_value hmac"
    using truncation_value_range [of hmac] by simp
  have pos: "(0 :: int) < 10 ^ d"
    by simp
  have v: "0 \<le> v" "v < 10 ^ d"
    unfolding v_def using js_rem_range [OF t pos] by simp_all
  have m: "v = truncation_value hmac mod 10 ^ d"
    unfolding v_def using t pos by (rule js_rem_nonneg)
  from d v have l: "length (toString v) \<le> d"
    by (rule length_toString)
  then have n: "length c = d"
    unfolding c by (rule length_padStart)
  have r: "c = replicate (d - length (toString v)) (CHR ''0'') @ toString v"
    unfolding c by (simp add: padStart_def)
  from v(1) have str: "toString v = decimal (nat v)"
    by (simp add: toString_def)
  have "list_all is_digit c \<and> digits_value c = nat v"
    unfolding c str by (rule padStart_decimal)
  with v(1) have g: "list_all is_digit c" "int (digits_value c) = v"
    by simp_all
  have e: "c = ''007123''" if "d = 6" and "v = 7123"
    unfolding c that
    by (simp add: padStart_def toString_def decimal.simps replicate_numeral)
  then have "d = 6 \<and> v = 7123 \<longrightarrow> c = ''007123''"
    by blast
  with h v m n l r g show ?thesis
    unfolding Let_def timeBuffer_def [symmetric] hmac_def [symmetric] v_def [symmetric]
    by blast
qed

theorem generateTOTP_fixed_width_witness:
  "generateTOTP ''GEZDGNBVGY3TQOJQGEZDGNBVGY3TQOJQ'' 6 30 32329950000 = Inr ''007123''
   \<and> (6 :: nat) \<in> {6, 7, 8}
   \<and> js_rem (truncation_value (hmac_sha1 (base32Decode ''GEZDGNBVGY3TQOJQGEZDGNBVGY3TQOJQ'')
        (fill_timeBuffer 8 (time_step 32329950000 30) (replicate 8 0)))) (10 ^ 6) = 7123
   \<and> length ''007123'' = 6
   \<and> ''007123'' = replicate (6 - length (toString 7123)) (CHR ''0'') @ toString 7123
   \<and> list_all is_digit ''007123''
   \<and> int (digits_value ''007123'') = 7123"
proof -
  note g = rfc_totp_32329950000
  note v = rfc_value_32329950000
  have d: "(6 :: nat) \<in> {6, 7, 8}"
    by simp
  note t = generateTOTP_fixed_width [OF g d, unfolded Let_def v]
  from t have "length ''007123'' = 6"
    by (rule conjunct1 [OF conjunct2 [OF conjunct2 [OF conjunct2 [OF conjunct2]]]])
  moreover from t have "''007123'' = replicate (6 - length (toString 7123)) (CHR ''0'') @ toString 7123"
    by blast
  moreover from t have "list_all is_digit ''007123''"
    by blast
  moreover from t have "int (digits_value ''007123'') = 7123"
    by blast
  ultimately show ?thesis
    using g d v by blast
qed

text \<open>
  Claim C3, as amended. For every secret whose base32 decoding is empty,
  \<^const>\<open>generateTOTP\<close> makes no check of its own and produces no \<open>InvalidSecret\<close>: it
  hands the empty key to \<^verbatim>\<open>hmacSha1\<close>, where the platform's key import rejects a key of
  length zero, and the call fails with that \<open>DataError\<close>.
\<close>

theorem generateTOTP_empty_key:
  assumes "base32Decode s = []"
  shows "generateTOTP s d p now = Inl DataError \<and> generateTOTP s d p now \<noteq> Inl InvalidSecret"
  using assms by (simp add: generateTOTP_cases)

theorem generateTOTP_empty_key_witness:
  "base32Decode [] = []
   \<and> generateTOTP [] 6 30 0 = Inl DataError \<and> generateTOTP [] 6 30 0 \<noteq> Inl InvalidSecret"
proof -
  have e: "base32Decode [] = []"
    by (simp add: base32Decode_def cleanedInput_def remove_whitespace_def strip_padding_def
        toUpperCase_def)
  from e generateTOTP_empty_key [OF e, of 6 30 0] show ?thesis
    by (rule conjI)
qed

text \<open>
  The claim as stated fails: the secret \<^verbatim>\<open>0189====\<close> has no character of the alphabet
  and decodes to no byte, and the call ends in \<open>DataError\<close>, raised by the platform
  after \<^verbatim>\<open>hmacSha1\<close> was called with the empty key.
\<close>

theorem generateTOTP_empty_key_counterexample:
  "base32Decode ''0189===='' = []
   \<and> generateTOTP ''0189===='' 6 30 59000 = Inl DataError
   \<and> generateTOTP ''0189===='' 6 30 59000 \<noteq> Inl InvalidSecret"
proof -
  have e: "base32Decode ''0189===='' = []"
    by (simp add: base32Decode_def cleanedInput_def remove_whitespace_def strip_padding_def
        toUpperCase_def toUpperCase_char_def isWhiteSpace_def alphabet_def Let_def)
  then show ?thesis
    by (simp add: generateTOTP_cases)
qed

text \<open>
  Claim C4, as amended. \<^const>\<open>generateTOTP\<close> makes no check of the period and never
  fails with \<open>InvalidPeriod\<close>. For every period above 0 the time counter is
  \<open>\<lfloor>secondsSinceEpoch / period\<rfloor>\<close>, and the result is the one of that counter; for every
  period, also 0 and below, a secret that decodes to at least one byte gives a code.
\<close>

theorem generateTOTP_period:
  "(0 < p \<longrightarrow>
      time_step now p = Num ((now div 1000) div p)
      \<and> generateTOTP s d p now = generateTOTP s d 1 (1000 * ((now div 1000) div p)))
   \<and> generateTOTP s d p now \<noteq> Inl InvalidPeriod
   \<and> (base32Decode s \<noteq> [] \<longrightarrow> (\<exists>c. generateTOTP s d p now = Inr c))"
proof (intro conjI impI)
  assume "0 < p"
  then show t: "time_step now p = Num ((now div 1000) div p)"
    by (simp add: time_step_def zdiv_zmult2_eq)
  have "time_step (1000 * ((now div 1000) div p)) 1 = Num ((now div 1000) div p)"
    by (simp add: time_step_def)
  with t show "generateTOTP s d p now = generateTOTP s d 1 (1000 * ((now div 1000) div p))"
    by (simp add: generateTOTP_cases)
next
  show "generateTOTP s d p now \<noteq> Inl InvalidPeriod"
    by (simp add: generateTOTP_cases)
next
  assume "base32Decode s \<noteq> []"
  then show "\<exists>c. generateTOTP s d p now = Inr c"
    by (simp add: generateTOTP_cases)
qed

theorem generateTOTP_period_witness:
  "(0 :: int) < 30 \<and> base32Decode ''GEZDGNBVGY3TQOJQGEZDGNBVGY3TQOJQ'' \<noteq> []
   \<and> time_step 59000 30 = Num ((59000 div 1000) div 30)
   \<and> generateTOTP ''GEZDGNBVGY3TQOJQGEZDGNBVGY3TQOJQ'' 8 30 59000 = generateTOTP ''GEZDGNBVGY3TQOJQGEZDGNBVGY3TQOJQ'' 8 1 (1000 * ((59000 div 1000) div 30))
   \<and> generateTOTP ''GEZDGNBVGY3TQOJQGEZDGNBVGY3TQOJQ'' 8 30 59000 \<noteq> Inl InvalidPeriod
   \<and> (\<exists>c. generateTOTP ''GEZDGNBVGY3TQOJQGEZDGNBVGY3TQOJQ'' 8 30 59000 = Inr c)"
proof -
  have p: "(0 :: int) < 30"
    by simp
  have k: "base32Decode ''GEZDGNBVGY3TQOJQGEZDGNBVGY3TQOJQ'' \<noteq> []"
    by (simp add: rfc_key)
  from p k generateTOTP_period [of 30 59000 "''GEZDGNBVGY3TQOJQGEZDGNBVGY3TQOJQ''" 8] show ?thesis
    by blast
qed

text \<open>
  The claim as stated fails: with the period 0 the quotient is infinite, every byte of the
  time buffer is 0, and the test key of RFC 6238 gives the six-digit code of the counter 0,
  not an error.
\<close>

theorem generateTOTP_period_counterexample:
  "(0 :: int) \<le> 0
   \<and> generateTOTP ''GEZDGNBVGY3TQOJQGEZDGNBVGY3TQOJQ'' 6 0 59000 = Inr ''755224''
   \<and> generateTOTP ''GEZDGNBVGY3TQOJQGEZDGNBVGY3TQOJQ'' 6 0 59000 \<noteq> Inl InvalidPeriod"
  by (simp add: rfc_totp_period_0)

section \<open>Properties of getTimeRemaining\<close>

text \<open>
  Claim C9. At a time at or after the epoch, \<^const>\<open>getTimeRemaining\<close> is
  \<open>period - (secondsSinceEpoch mod period)\<close> for a positive period; for the period 30
  the value lies between 1 and 30, and one second later it is one less, except that
  after 1 it is 30 again.
\<close>

theorem getTimeRemaining_countdown:
  assumes "0 \<le> now"
  shows "(0 < p \<longrightarrow> getTimeRemaining p now = Num (p - (now div 1000) mod p))
    \<and> (\<exists>r. getTimeRemaining 30 now = Num r \<and> 1 \<le> r \<and> r \<le> 30
          \<and> getTimeRemaining 30 (now + 1000) = Num (if r = 1 then 30 else r - 1))"
proof -
  define q where "q = now div 1000"
  from assms have q: "0 \<le> q"
    by (simp add: q_def)
  have q1: "(now + 1000) div 1000 = q + 1"
    by (simp add: q_def)
  have a: "getTimeRemaining p now = Num (p - q mod p)" if "0 < p"
    using that q by (simp add: getTimeRemaining_def js_rem_nonneg flip: q_def)
  have b: "getTimeRemaining 30 now = Num (30 - q mod 30)"
    using q by (simp add: getTimeRemaining_def js_rem_nonneg flip: q_def)
  have c: "getTimeRemaining 30 (now + 1000) = Num (30 - (q + 1) mod 30)"
    using q by (simp add: getTimeRemaining_def js_rem_nonneg q1)
  have m: "0 \<le> q mod 30" "q mod 30 < 30"
    by simp_all
  have "(q + 1) mod 30 = (q mod 30 + 1) mod 30"
    by (simp add: mod_add_left_eq)
  also have "\<dots> = (if q mod 30 = 29 then 0 else q mod 30 + 1)"
    using m by simp
  finally have s: "(q + 1) mod 30 = (if q mod 30 = 29 then 0 else q mod 30 + 1)" .
  have "30 - (q + 1) mod 30 = (if 30 - q mod 30 = 1 then 30 else 30 - q mod 30 - 1)"
    unfolding s by simp
  with b c m a show ?thesis
    unfolding q_def by auto
qed

theorem getTimeRemaining_countdown_witness:
  "(0::int) \<le> 59000 \<and> (0::int) < 30
   \<and> getTimeRemaining 30 59000 = Num 1 \<and> getTimeRemaining 30 (59000 + 1000) = Num 30"
  using getTimeRemaining_countdown [of 59000 30] by auto

section \<open>Properties of parseOtpAuthUrl\<close>

lemmas url_eval = URL_new_def Let_def remove_tab_newline_def trim_c0_space_def c0_or_space_def
  char_code_def is_scheme_char_def is_alpha_def is_digit_def toLowerCase_char_def
  special_schemes_def parse_query_def parse_pair_def form_decode_def percent_encode_def
  query_set_def c0_control_set_def path_set_def hex_value_def parse_opaque_host_def
  forbidden_host_code_point_def parse_port_def digits_value_def serialize_path_def
  is_single_dot_def is_double_dot_def

lemmas parse_eval = searchParams_get_def decodeURIComponent_def or_else_def
  parseInt_def isWhiteSpace_def is_digit_def digits_value_def char_code_def hex_value_def
  utf8_length_def valid_utf8_def Let_def

subsection \<open>Splitting and joining\<close>

lemma split_on_not_Nil: "split_on c s \<noteq> []"
  by (induction s) (auto split: list.splits)

lemma split_on_absent: "c \<notin> set s \<Longrightarrow> split_on c s = [s]"
  by (induction s) auto

lemma split_on_first: "c \<notin> set a \<Longrightarrow> split_on c (a @ c # b) = a # split_on c b"
  by (induction a) auto

lemma join_with_Cons: "xs \<noteq> [] \<Longrightarrow> join_with c (x # xs) = x @ c # join_with c xs"
  by (cases xs) auto

lemma join_with_split_on: "join_with c (split_on c s) = s"
proof (induction s)
  case Nil
  then show ?case by simp
next
  case (Cons x s)
  show ?case
  proof (cases "x = c")
    case True
    with Cons show ?thesis
      by (simp add: join_with_Cons split_on_not_Nil)
  next
    case False
    obtain y ys where s: "split_on c s = y # ys"
      using split_on_not_Nil [of c s] by (cases "split_on c s") auto
    from Cons have "join_with c (y # ys) = s"
      by (simp add: s)
    then have "join_with c ((x # y) # ys) = x # s"
      by (cases ys) auto
    with False show ?thesis
      by (simp add: s)
  qed
qed

lemma split_at_first:
  assumes "c \<in> set s"
  shows "s = takeWhile (\<lambda>x. x \<noteq> c) s @ c # drop 1 (dropWhile (\<lambda>x. x \<noteq> c) s)"
proof -
  from assms have "dropWhile (\<lambda>x. x \<noteq> c) s \<noteq> []"
    by (simp add: dropWhile_eq_Nil_conv)
  moreover have "hd (dropWhile (\<lambda>x. x \<noteq> c) s) = c" if "dropWhile (\<lambda>x. x \<noteq> c) s \<noteq> []"
    using hd_dropWhile [OF that] by simp
  ultimately have "dropWhile (\<lambda>x. x \<noteq> c) s = c # drop 1 (dropWhile (\<lambda>x. x \<noteq> c) s)"
    by (cases "dropWhile (\<lambda>x. x \<noteq> c) s") auto
  then show ?thesis
    by (metis takeWhile_dropWhile_id)
qed

lemma split_on_parts:
  assumes "c \<in> set s"
  shows "hd (split_on c s) = takeWhile (\<lambda>x. x \<noteq> c) s"
    and "join_with c (tl (split_on c s)) = drop 1 (dropWhile (\<lambda>x. x \<noteq> c) s)"
proof -
  define a where "a = takeWhile (\<lambda>x. x \<noteq> c) s"
  define b where "b = drop 1 (dropWhile (\<lambda>x. x \<noteq> c) s)"
  have s: "s = a @ c # b"
    unfolding a_def b_def using assms by (rule split_at_first)
  have "c \<notin> set a"
    unfolding a_def by (auto dest: set_takeWhileD)
  then have "split_on c s = a # split_on c b"
    unfolding s by (rule split_on_first)
  then show "hd (split_on c s) = a" and "join_with c (tl (split_on c s)) = b"
    by (simp_all add: join_with_split_on)
qed

subsection \<open>The addresses of the claims\<close>

lemma url_github:
  "URL_new ''otpauth://totp/GitHub:alice?secret=ABCDEFGH&issuer=GitHub'' =
     Some \<lparr>protocol = ''otpauth:'', host = ''totp'', pathname = ''/GitHub:alice'',
            searchParams = [(''secret'', ''ABCDEFGH''), (''issuer'', ''GitHub'')]\<rparr>"
  by (simp add: url_eval)

lemma parse_github:
  "parseOtpAuthUrl ''otpauth://totp/GitHub:alice?secret=ABCDEFGH&issuer=GitHub'' =
     Some \<lparr>issuer = ''GitHub'', account = ''alice'', secret = ''ABCDEFGH'',
            digits = Num 6, period = Num 30\<rparr>"
  unfolding parseOtpAuthUrl_def url_github by (simp add: parse_eval)

lemma url_not_a_uri: "URL_new ''not-a-uri'' = None"
  by (simp add: url_eval)

lemma url_hotp:
  "URL_new ''otpauth://hotp/x?secret=AB'' =
     Some \<lparr>protocol = ''otpauth:'', host = ''hotp'', pathname = ''/x'',
            searchParams = [(''secret'', ''AB'')]\<rparr>"
  by (simp add: url_eval)

lemma url_bad_escape:
  "URL_new ''otpauth://totp/%FF?secret=AB'' =
     Some \<lparr>protocol = ''otpauth:'', host = ''totp'', pathname = ''/%FF'',
            searchParams = [(''secret'', ''AB'')]\<rparr>"
  by (simp add: url_eval)

lemma url_empty_secret:
  "URL_new ''otpauth://totp/x?secret='' =
     Some \<lparr>protocol = ''otpauth:'', host = ''totp'', pathname = ''/x'',
            searchParams = [(''secret'', [])]\<rparr>"
  by (simp add: url_eval)

lemma url_empty_issuer:
  "URL_new ''otpauth://totp/GitHub:alice?secret=ABCDEFGH&issuer='' =
     Some \<lparr>protocol = ''otpauth:'', host = ''totp'', pathname = ''/GitHub:alice'',
            searchParams = [(''secret'', ''ABCDEFGH''), (''issuer'', [])]\<rparr>"
  by (simp add: url_eval)

lemma url_digits_abc:
  "URL_new ''otpauth://totp/x?secret=AB&digits=abc'' =
     Some \<lparr>protocol = ''otpauth:'', host = ''totp'', pathname = ''/x'',
            searchParams = [(''secret'', ''AB''), (''digits'', ''abc'')]\<rparr>"
  by (simp add: url_eval)

lemma url_period_abc:
  "URL_new ''otpauth://totp/x?secret=AB&period=abc'' =
     Some \<lparr>protocol = ''otpauth:'', host = ''totp'', pathname = ''/x'',
            searchParams = [(''secret'', ''AB''), (''period'', ''abc'')]\<rparr>"
  by (simp add: url_eval)

subsection \<open>The claims\<close>

text \<open>
  Claim C5, as amended. \<^const>\<open>parseOtpAuthUrl\<close> is total, so nothing is thrown past
  it, and it returns the failure value exactly when the URL constructor rejects the
  string, or the protocol is not \<^verbatim>\<open>otpauth:\<close>, or the host is not exactly
  \<^verbatim>\<open>totp\<close>, or the path is not accepted by \<^verbatim>\<open>decodeURIComponent\<close> (an escape that
  is malformed or not UTF-8), or the \<^verbatim>\<open>secret\<close> parameter is absent or empty. The
  strings \<^verbatim>\<open>not-a-uri\<close> and \<^verbatim>\<open>otpauth://hotp/x?secret=AB\<close> both fail.
\<close>

theorem parseOtpAuthUrl_failure:
  "(parseOtpAuthUrl u = None \<longleftrightarrow>
      (case URL_new u of
         None \<Rightarrow> True
       | Some parsed \<Rightarrow>
           protocol parsed \<noteq> ''otpauth:'' \<or> host parsed \<noteq> ''totp''
           \<or> decodeURIComponent (drop 1 (pathname parsed)) = None
           \<or> searchParams_get parsed ''secret'' = None
           \<or> searchParams_get parsed ''secret'' = Some []))
   \<and> parseOtpAuthUrl ''not-a-uri'' = None
   \<and> parseOtpAuthUrl ''otpauth://hotp/x?secret=AB'' = None"
proof (intro conjI)
  show "parseOtpAuthUrl u = None \<longleftrightarrow>
      (case URL_new u of
         None \<Rightarrow> True
       | Some parsed \<Rightarrow>
           protocol parsed \<noteq> ''otpauth:'' \<or> host parsed \<noteq> ''totp''
           \<or> decodeURIComponent (drop 1 (pathname parsed)) = None
           \<or> searchParams_get parsed ''secret'' = None
           \<or> searchParams_get parsed ''secret'' = Some [])"
    by (simp add: parseOtpAuthUrl_def Let_def split: option.splits)
  show "parseOtpAuthUrl ''not-a-uri'' = None"
    by (simp add: parseOtpAuthUrl_def url_not_a_uri)
  show "parseOtpAuthUrl ''otpauth://hotp/x?secret=AB'' = None"
    by (simp add: parseOtpAuthUrl_def url_hotp)
qed

theorem parseOtpAuthUrl_failure_witness:
  "URL_new ''otpauth://totp/x?secret='' =
     Some \<lparr>protocol = ''otpauth:'', host = ''totp'', pathname = ''/x'',
            searchParams = [(''secret'', [])]\<rparr>
   \<and> searchParams_get \<lparr>protocol = ''otpauth:'', host = ''totp'', pathname = ''/x'',
            searchParams = [(''secret'', [])]\<rparr> ''secret'' = Some []
   \<and> parseOtpAuthUrl ''otpauth://totp/x?secret='' = None"
proof -
  have g: "searchParams_get \<lparr>protocol = ''otpauth:'', host = ''totp'', pathname = ''/x'',
            searchParams = [(''secret'', [])]\<rparr> ''secret'' = Some []"
    by (simp add: searchParams_get_def)
  from parseOtpAuthUrl_failure [of "''otpauth://totp/x?secret=''"]
  have "parseOtpAuthUrl ''otpauth://totp/x?secret='' = None"
    by (simp add: url_empty_secret g)
  with url_empty_secret g show ?thesis
    by (intro conjI)
qed

text \<open>
  The claim as stated fails: \<^verbatim>\<open>otpauth://totp/%FF?secret=AB\<close> is accepted by the URL
  constructor, has the protocol \<^verbatim>\<open>otpauth:\<close>, the host \<^verbatim>\<open>totp\<close> and the secret
  \<^verbatim>\<open>AB\<close>, and still fails: \<^verbatim>\<open>decodeURIComponent\<close> throws on \<^verbatim>\<open>%FF\<close>, which is not
  UTF-8, and the source catches it.
\<close>

theorem parseOtpAuthUrl_failure_counterexample:
  "URL_new ''otpauth://totp/%FF?secret=AB'' =
     Some \<lparr>protocol = ''otpauth:'', host = ''totp'', pathname = ''/%FF'',
            searchParams = [(''secret'', ''AB'')]\<rparr>
   \<and> searchParams_get \<lparr>protocol = ''otpauth:'', host = ''totp'', pathname = ''/%FF'',
            searchParams = [(''secret'', ''AB'')]\<rparr> ''secret'' = Some ''AB''
   \<and> parseOtpAuthUrl ''otpauth://totp/%FF?secret=AB'' = None"
proof (intro conjI)
  show "URL_new ''otpauth://totp/%FF?secret=AB'' =
     Some \<lparr>protocol = ''otpauth:'', host = ''totp'', pathname = ''/%FF'',
            searchParams = [(''secret'', ''AB'')]\<rparr>"
    by (rule url_bad_escape)
  show "searchParams_get \<lparr>protocol = ''otpauth:'', host = ''totp'', pathname = ''/%FF'',
            searchParams = [(''secret'', ''AB'')]\<rparr> ''secret'' = Some ''AB''"
    by (simp add: searchParams_get_def)
  show "parseOtpAuthUrl ''otpauth://totp/%FF?secret=AB'' = None"
    unfolding parseOtpAuthUrl_def url_bad_escape by (simp add: parse_eval)
qed

text \<open>
  Claim C6 fails on the code. With \<^verbatim>\<open>digits=abc\<close> the source takes \<^verbatim>\<open>abc\<close>, which is
  truthy, to \<^verbatim>\<open>parseInt\<close> and returns \<^verbatim>\<open>NaN\<close> as the digits, not 6; likewise the
  period with \<^verbatim>\<open>period=abc\<close> is \<^verbatim>\<open>NaN\<close>, not 30.
\<close>

theorem parseOtpAuthUrl_unparseable_number:
  "parseOtpAuthUrl ''otpauth://totp/x?secret=AB&digits=abc'' =
     Some \<lparr>issuer = [], account = ''x'', secret = ''AB'', digits = NaN, period = Num 30\<rparr>
   \<and> parseOtpAuthUrl ''otpauth://totp/x?secret=AB&period=abc'' =
     Some \<lparr>issuer = [], account = ''x'', secret = ''AB'', digits = Num 6, period = NaN\<rparr>"
proof (intro conjI)
  show "parseOtpAuthUrl ''otpauth://totp/x?secret=AB&digits=abc'' =
     Some \<lparr>issuer = [], account = ''x'', secret = ''AB'', digits = NaN, period = Num 30\<rparr>"
    unfolding parseOtpAuthUrl_def url_digits_abc by (simp add: parse_eval)
  show "parseOtpAuthUrl ''otpauth://totp/x?secret=AB&period=abc'' =
     Some \<lparr>issuer = [], account = ''x'', secret = ''AB'', digits = Num 6, period = NaN\<rparr>"
    unfolding parseOtpAuthUrl_def url_period_abc by (simp add: parse_eval)
qed

text \<open>
  Claim C7, as amended. For every accepted address whose decoded label has a \<open>:\<close>, the
  account is all that follows the first \<open>:\<close>, later colons kept, and the issuer is the
  \<^verbatim>\<open>issuer\<close> parameter, or what precedes the first \<open>:\<close> when that parameter is absent
  or empty. When the label has no \<open>:\<close>, the account is the whole label and the issuer is
  the \<^verbatim>\<open>issuer\<close> parameter, or the empty string. The address
  \<^verbatim>\<open>otpauth://totp/GitHub:alice?secret=ABCDEFGH&issuer=GitHub\<close> gives the issuer
  \<^verbatim>\<open>GitHub\<close>, the account \<^verbatim>\<open>alice\<close>, the secret \<^verbatim>\<open>ABCDEFGH\<close>, 6 digits and the
  period 30.
\<close>

theorem parseOtpAuthUrl_label:
  "(parseOtpAuthUrl u = Some r \<longrightarrow>
      (\<exists>parsed label.
         URL_new u = Some parsed
         \<and> decodeURIComponent (drop 1 (pathname parsed)) = Some label
         \<and> (CHR '':'' \<in> set label \<longrightarrow>
              account r = drop 1 (dropWhile (\<lambda>c. c \<noteq> CHR '':'') label)
              \<and> issuer r =
                  (case searchParams_get parsed ''issuer'' of
                     None \<Rightarrow> takeWhile (\<lambda>c. c \<noteq> CHR '':'') label
                   | Some v \<Rightarrow> if v = [] then takeWhile (\<lambda>c. c \<noteq> CHR '':'') label else v))
         \<and> (CHR '':'' \<notin> set label \<longrightarrow>
              account r = label
              \<and> issuer r = (case searchParams_get parsed ''issuer'' of None \<Rightarrow> [] | Some v \<Rightarrow> v))))
   \<and> parseOtpAuthUrl ''otpauth://totp/GitHub:alice?secret=ABCDEFGH&issuer=GitHub'' =
       Some \<lparr>issuer = ''GitHub'', account = ''alice'', secret = ''ABCDEFGH'',
              digits = Num 6, period = Num 30\<rparr>"
proof (intro conjI impI)
  assume ok: "parseOtpAuthUrl u = Some r"
  then obtain parsed where parsed: "URL_new u = Some parsed"
    by (auto simp: parseOtpAuthUrl_def split: option.splits)
  with ok obtain label where label: "decodeURIComponent (drop 1 (pathname parsed)) = Some label"
    by (auto simp: parseOtpAuthUrl_def split: option.splits if_splits)
  then have label': "decodeURIComponent (drop (Suc 0) (pathname parsed)) = Some label"
    by simp
  from ok parsed label' obtain sec where sec: "searchParams_get parsed ''secret'' = Some sec"
    by (auto simp: parseOtpAuthUrl_def split: option.splits if_splits)
  define iss where "iss = or_else (searchParams_get parsed ''issuer'') []"
  from ok have r: "issuer r = (if CHR '':'' \<in> set label \<and> iss = []
                               then hd (split_on (CHR '':'') label) else iss)"
      "account r = (if CHR '':'' \<in> set label
                    then join_with (CHR '':'') (tl (split_on (CHR '':'') label)) else label)"
    by (auto simp: parseOtpAuthUrl_def parsed label' sec Let_def iss_def split: if_splits)
  have with_colon: "account r = drop 1 (dropWhile (\<lambda>c. c \<noteq> CHR '':'') label)
      \<and> issuer r =
          (case searchParams_get parsed ''issuer'' of
             None \<Rightarrow> takeWhile (\<lambda>c. c \<noteq> CHR '':'') label
           | Some v \<Rightarrow> if v = [] then takeWhile (\<lambda>c. c \<noteq> CHR '':'') label else v)"
    if "CHR '':'' \<in> set label"
    using that by (simp add: r split_on_parts iss_def or_else_def split: option.splits)
  have without_colon: "account r = label
      \<and> issuer r = (case searchParams_get parsed ''issuer'' of None \<Rightarrow> [] | Some v \<Rightarrow> v)"
    if "CHR '':'' \<notin> set label"
    using that by (simp add: r iss_def or_else_def split: option.splits)
  from parsed label with_colon without_colon
  show "\<exists>parsed label.
         URL_new u = Some parsed
         \<and> decodeURIComponent (drop 1 (pathname parsed)) = Some label
         \<and> (CHR '':'' \<in> set label \<longrightarrow>
              account r = drop 1 (dropWhile (\<lambda>c. c \<noteq> CHR '':'') label)
              \<and> issuer r =
                  (case searchParams_get parsed ''issuer'' of
                     None \<Rightarrow> takeWhile (\<lambda>c. c \<noteq> CHR '':'') label
                   | Some v \<Rightarrow> if v = [] then takeWhile (\<lambda>c. c \<noteq> CHR '':'') label else v))
         \<and> (CHR '':'' \<notin> set label \<longrightarrow>
              account r = label
              \<and> issuer r = (case searchParams_get parsed ''issuer'' of None \<Rightarrow> [] | Some v \<Rightarrow> v))"
    by blast
next
  show "parseOtpAuthUrl ''otpauth://totp/GitHub:alice?secret=ABCDEFGH&issuer=GitHub'' =
       Some \<lparr>issuer = ''GitHub'', account = ''alice'', secret = ''ABCDEFGH'',
              digits = Num 6, period = Num 30\<rparr>"
    by (rule parse_github)
qed

theorem parseOtpAuthUrl_label_witness:
  "parseOtpAuthUrl ''otpauth://totp/ACME:bob:2?secret=AB'' =
     Some \<lparr>issuer = ''ACME'', account = ''bob:2'', secret = ''AB'', digits = Num 6, period = Num 30\<rparr>
   \<and> (\<exists>parsed label.
         URL_new ''otpauth://totp/ACME:bob:2?secret=AB'' = Some parsed
         \<and> decodeURIComponent (drop 1 (pathname parsed)) = Some label
         \<and> (CHR '':'' \<in> set label \<longrightarrow>
              ''bob:2'' = drop 1 (dropWhile (\<lambda>c. c \<noteq> CHR '':'') label)
              \<and> ''ACME'' =
                  (case searchParams_get parsed ''issuer'' of
                     None \<Rightarrow> takeWhile (\<lambda>c. c \<noteq> CHR '':'') label
                   | Some v \<Rightarrow> if v = [] then takeWhile (\<lambda>c. c \<noteq> CHR '':'') label else v)))"
proof -
  have u: "URL_new ''otpauth://totp/ACME:bob:2?secret=AB'' =
     Some \<lparr>protocol = ''otpauth:'', host = ''totp'', pathname = ''/ACME:bob:2'',
            searchParams = [(''secret'', ''AB'')]\<rparr>"
    by (simp add: url_eval)
  have p: "parseOtpAuthUrl ''otpauth://totp/ACME:bob:2?secret=AB'' =
     Some \<lparr>issuer = ''ACME'', account = ''bob:2'', secret = ''AB'', digits = Num 6, period = Num 30\<rparr>"
    unfolding parseOtpAuthUrl_def u by (simp add: parse_eval)
  from parseOtpAuthUrl_label
    [of "''otpauth://totp/ACME:bob:2?secret=AB''"
        "\<lparr>issuer = ''ACME'', account = ''bob:2'', secret = ''AB'', digits = Num 6, period = Num 30\<rparr>"]
    p
  show ?thesis
    by auto
qed

text \<open>
  The claim as stated fails: in
  \<^verbatim>\<open>otpauth://totp/GitHub:alice?secret=ABCDEFGH&issuer=\<close> the \<^verbatim>\<open>issuer\<close> parameter is
  present, with the empty value, and the issuer returned is the part of the label before
  the colon.
\<close>

theorem parseOtpAuthUrl_label_counterexample:
  "map_option (\<lambda>parsed. searchParams_get parsed ''issuer'')
     (URL_new ''otpauth://totp/GitHub:alice?secret=ABCDEFGH&issuer='') = Some (Some [])
   \<and> parseOtpAuthUrl ''otpauth://totp/GitHub:alice?secret=ABCDEFGH&issuer='' =
       Some \<lparr>issuer = ''GitHub'', account = ''alice'', secret = ''ABCDEFGH'',
              digits = Num 6, period = Num 30\<rparr>"
proof (intro conjI)
  show "map_option (\<lambda>parsed. searchParams_get parsed ''issuer'')
     (URL_new ''otpauth://totp/GitHub:alice?secret=ABCDEFGH&issuer='') = Some (Some [])"
    by (simp add: url_empty_issuer searchParams_get_def)
  show "parseOtpAuthUrl ''otpauth://totp/GitHub:alice?secret=ABCDEFGH&issuer='' =
       Some \<lparr>issuer = ''GitHub'', account = ''alice'', secret = ''ABCDEFGH'',
              digits = Num 6, period = Num 30\<rparr>"
    unfolding parseOtpAuthUrl_def url_empty_issuer by (simp add: parse_eval)
qed

end
